theory Spec2Isabelle
  imports
    Complex_Main
    "HOL-Library.List_Lexorder"
    "HOL-Library.Char_ord"
    "HOL-Library.Product_Lexorder"
begin

section \<open>Floating-point values\<close>

text \<open>
  Every numeric column of the script is a float64 column. A float is a finite number,
  one of the two infinities, or NaN (which is also pandas' missing value). Finite
  numbers are reals: rounding is abstracted, everything else follows IEEE 754. An
  infinity comes out of a division of a non-zero number by zero and NaN out of
  \<open>0 / 0\<close>, \<open>inf - inf\<close>, \<open>0 * inf\<close> and \<open>inf / inf\<close>; NaN is absorbing, and every
  comparison with NaN is false. There is one zero, the positive one: a negative zero
  could only change the sign of an infinity, and the numbers the script divides by are
  closes (prices) and sums that start from \<open>0.0\<close>.
\<close>

datatype fl = Fin real | PInf | NInf | NaN

instantiation fl :: "{one, uminus, minus, times, inverse, ord, comm_monoid_add}"
begin

definition zero_fl :: fl where
  "zero_fl = Fin 0"

definition one_fl :: fl where
  "one_fl = Fin 1"

fun plus_fl :: "fl \<Rightarrow> fl \<Rightarrow> fl" where
  "plus_fl NaN y = NaN"
| "plus_fl x NaN = NaN"
| "plus_fl (Fin a) (Fin b) = Fin (a + b)"
| "plus_fl PInf NInf = NaN"
| "plus_fl NInf PInf = NaN"
| "plus_fl PInf y = PInf"
| "plus_fl x PInf = PInf"
| "plus_fl NInf y = NInf"
| "plus_fl x NInf = NInf"

fun uminus_fl :: "fl \<Rightarrow> fl" where
  "uminus_fl (Fin a) = Fin (- a)"
| "uminus_fl PInf = NInf"
| "uminus_fl NInf = PInf"
| "uminus_fl NaN = NaN"

definition minus_fl :: "fl \<Rightarrow> fl \<Rightarrow> fl" where
  "minus_fl x y = x + (- y)"

fun times_fl :: "fl \<Rightarrow> fl \<Rightarrow> fl" where
  "times_fl NaN y = NaN"
| "times_fl x NaN = NaN"
| "times_fl (Fin a) (Fin b) = Fin (a * b)"
| "times_fl (Fin a) PInf = (if 0 < a then PInf else if a < 0 then NInf else NaN)"
| "times_fl (Fin a) NInf = (if 0 < a then NInf else if a < 0 then PInf else NaN)"
| "times_fl PInf (Fin b) = (if 0 < b then PInf else if b < 0 then NInf else NaN)"
| "times_fl NInf (Fin b) = (if 0 < b then NInf else if b < 0 then PInf else NaN)"
| "times_fl PInf PInf = PInf"
| "times_fl PInf NInf = NInf"
| "times_fl NInf PInf = NInf"
| "times_fl NInf NInf = PInf"

fun divide_fl :: "fl \<Rightarrow> fl \<Rightarrow> fl" where
  "divide_fl NaN y = NaN"
| "divide_fl x NaN = NaN"
| "divide_fl (Fin a) (Fin b) =
     (if b \<noteq> 0 then Fin (a / b) else if 0 < a then PInf else if a < 0 then NInf else NaN)"
| "divide_fl (Fin a) PInf = Fin 0"
| "divide_fl (Fin a) NInf = Fin 0"
| "divide_fl PInf (Fin b) = (if 0 \<le> b then PInf else NInf)"
| "divide_fl NInf (Fin b) = (if 0 \<le> b then NInf else PInf)"
| "divide_fl PInf PInf = NaN"
| "divide_fl PInf NInf = NaN"
| "divide_fl NInf PInf = NaN"
| "divide_fl NInf NInf = NaN"

definition inverse_fl :: "fl \<Rightarrow> fl" where
  "inverse_fl x = divide (Fin 1) x"

fun less_eq_fl :: "fl \<Rightarrow> fl \<Rightarrow> bool" where
  "less_eq_fl NaN y = False"
| "less_eq_fl x NaN = False"
| "less_eq_fl (Fin a) (Fin b) = (a \<le> b)"
| "less_eq_fl NInf y = True"
| "less_eq_fl x PInf = True"
| "less_eq_fl PInf y = False"
| "less_eq_fl x NInf = False"

fun less_fl :: "fl \<Rightarrow> fl \<Rightarrow> bool" where
  "less_fl NaN y = False"
| "less_fl x NaN = False"
| "less_fl (Fin a) (Fin b) = (a < b)"
| "less_fl x NInf = False"
| "less_fl PInf y = False"
| "less_fl NInf y = True"
| "less_fl x PInf = True"

instance
proof
  fix u v w :: fl
  show "u + v = v + u" by (cases u; cases v; simp)
  show "0 + u = u" by (cases u; simp add: zero_fl_def)
  show "u + v + w = u + (v + w)" by (cases u; cases v; cases w; simp)
qed

end

section \<open>Data model of \<^verbatim>\<open>create_portfolio.py\<close>\<close>

text \<open>
  The script works on pandas data frames. A data frame is modelled as the list of its
  rows, in row order, and a row as a record of its columns; a float64 cell is an
  \<^typ>\<open>fl\<close>. pandas reductions (\<^verbatim>\<open>sum\<close>, \<^verbatim>\<open>cumprod\<close>) skip NaN cells and \<^verbatim>\<open>fillna\<close>
  replaces them; infinities are ordinary values to pandas.

  Dates are day numbers (a pandas \<^verbatim>\<open>Timestamp\<close> normalised to the day).
\<close>

type_synonym date = nat

record transaction =
  Representative :: string
  Ticker :: string
  Transaction :: string
  Amount :: fl
  ReportDate :: date
  TransactionDate :: date

text \<open>The trades after \<^verbatim>\<open>add_stock_amount_column\<close>: two more columns.\<close>

record valued_transaction = transaction +
  Close :: fl
  StockAmount :: fl

text \<open>One row of \<^verbatim>\<open>stock_data\<close>, the long price table.\<close>

record price_row =
  Date_p :: date
  Ticker_p :: string
  Close_p :: fl
  DailyROI_p :: fl

text \<open>One row of the holdings ledger: the dictionary appended at lines 143-147.\<close>

record holding_row =
  Date_h :: date
  Ticker_h :: string
  StockAmount_h :: fl

text \<open>The column name handed to \<^verbatim>\<open>groupby\<close>: the execution or the disclosure date.\<close>

datatype groupby_column = TransactionDate_col | ReportDate_col

fun column :: "groupby_column \<Rightarrow> valued_transaction \<Rightarrow> date" where
  "column TransactionDate_col t = TransactionDate t"
| "column ReportDate_col t = ReportDate t"

section \<open>pandas and dictionary primitives\<close>

text \<open>\<^verbatim>\<open>Series.sum()\<close> with its default \<^verbatim>\<open>skipna=True, min_count=0\<close>: NaN cells are
  skipped and the others added up, so a group of NaN cells only sums to 0; the sum of
  an infinity and the opposite infinity is NaN.\<close>

definition sum_skipna :: "fl list \<Rightarrow> fl" where
  "sum_skipna xs = sum_list (filter (\<lambda>x. x \<noteq> NaN) xs)"

text \<open>\<^verbatim>\<open>Series.unique()\<close>: the distinct values in order of first appearance.\<close>

definition unique :: "'a list \<Rightarrow> 'a list" where
  "unique xs = foldl (\<lambda>acc x. if x \<in> set acc then acc else acc @ [x]) [] xs"

text \<open>
  \<^verbatim>\<open>cumulative_holdings = defaultdict(int)\<close>: a Python dictionary keeps its keys in
  insertion order, so it is an association list. Reading a missing key gives \<^verbatim>\<open>int()\<close>,
  that is 0; assigning to a present key keeps its place, assigning to a new key
  appends it; \<^verbatim>\<open>del\<close> removes the key.
\<close>

type_synonym holdings_dict = "(string \<times> fl) list"

definition dict_get :: "holdings_dict \<Rightarrow> string \<Rightarrow> fl" where
  "dict_get d k = (case map_of d k of None \<Rightarrow> 0 | Some v \<Rightarrow> v)"

definition dict_set :: "holdings_dict \<Rightarrow> string \<Rightarrow> fl \<Rightarrow> holdings_dict" where
  "dict_set d k v =
     (if k \<in> fst ` set d
      then map (\<lambda>(k', v'). if k' = k then (k', v) else (k', v')) d
      else d @ [(k, v)])"

definition dict_del :: "holdings_dict \<Rightarrow> string \<Rightarrow> holdings_dict" where
  "dict_del d k = filter (\<lambda>(k', v'). k' \<noteq> k) d"

section \<open>The holdings reconstruction (\<^verbatim>\<open>holdings\<close>, lines 108-152)\<close>

text \<open>
  \<^verbatim>\<open>day_transactions.groupby('Ticker')['StockAmount'].sum().items()\<close>: one pair per
  ticker of the day, in sorted ticker order, with the NaN-skipping sum of its amounts.
\<close>

definition groupby_ticker_sum :: "valued_transaction list \<Rightarrow> (string \<times> fl) list" where
  "groupby_ticker_sum day_transactions =
     map (\<lambda>k. (k, sum_skipna (map StockAmount (filter (\<lambda>t. Ticker t = k) day_transactions))))
       (sort (remdups (map Ticker day_transactions)))"

text \<open>Lines 137-139: add the day's sum, then evict the ticker when the float comparison
  \<^verbatim>\<open><= 0\<close> holds of its quantity (it does not hold of NaN).\<close>

fun accumulate :: "holdings_dict \<Rightarrow> string \<times> fl \<Rightarrow> holdings_dict" where
  "accumulate d (ticker, stock_amount) =
     (let d' = dict_set d ticker (dict_get d ticker + stock_amount)
      in if dict_get d' ticker \<le> 0 then dict_del d' ticker else d')"

text \<open>Lines 132-139: the update of one calendar day.\<close>

definition day_update ::
  "holdings_dict \<Rightarrow> valued_transaction list \<Rightarrow> groupby_column \<Rightarrow> date \<Rightarrow> holdings_dict" where
  "day_update d trades col day =
     (let day_transactions = filter (\<lambda>t. column col t = day) trades
      in if day_transactions \<noteq> []
         then foldl accumulate d (groupby_ticker_sum day_transactions)
         else d)"

text \<open>Lines 143-147: the row appended for one entry of the dictionary.\<close>

definition snapshot :: "date \<Rightarrow> string \<times> fl \<Rightarrow> holding_row" where
  "snapshot day kv = \<lparr>Date_h = day, Ticker_h = fst kv, StockAmount_h = snd kv\<rparr>"

text \<open>Lines 131-147: the loop over the calendar, emitting the state after each day.\<close>

fun holdings_loop ::
  "holdings_dict \<Rightarrow> date list \<Rightarrow> valued_transaction list \<Rightarrow> groupby_column \<Rightarrow> holding_row list" where
  "holdings_loop d [] trades col = []"
| "holdings_loop d (day # dates) trades col =
     (let d' = day_update d trades col day
      in map (snapshot day) d' @ holdings_loop d' dates trades col)"

section \<open>The price provider\<close>

text \<open>
  \<^verbatim>\<open>yf.download\<close> is the only external call. A request names the tickers, the start
  date and the optional end date; the answer is a wide table: an index of trading days,
  one column per ticker, and a close (or NaN) in every cell. The provider is a
  parameter of the model, and every call is appended to a log of requests, which is
  threaded through the functions that call it.
\<close>

record request =
  rq_tickers :: "string list"
  rq_start :: date
  rq_end :: "date option"

record wide_table =
  w_index :: "date list"
  w_columns :: "string list"
  w_close :: "date \<Rightarrow> string \<Rightarrow> fl"

type_synonym provider = "request \<Rightarrow> wide_table"

definition yf_download :: "provider \<Rightarrow> request \<Rightarrow> request list \<Rightarrow> wide_table \<times> request list" where
  "yf_download prov rq lg = (prov rq, lg @ [rq])"

section \<open>Column operations\<close>

text \<open>\<^verbatim>\<open>fillna(v)\<close> on one cell.\<close>

definition fillna :: "fl \<Rightarrow> fl \<Rightarrow> fl" where
  "fillna v x = (if x = NaN then v else x)"

text \<open>\<^verbatim>\<open>cumprod()\<close> with its default \<^verbatim>\<open>skipna=True\<close>: the running product; a NaN
  cell stays NaN and does not enter the product.\<close>

fun cumprod_from :: "fl \<Rightarrow> fl list \<Rightarrow> fl list" where
  "cumprod_from acc [] = []"
| "cumprod_from acc (x # xs) =
     (if x = NaN then NaN # cumprod_from acc xs
      else (acc * x) # cumprod_from (acc * x) xs)"

definition cumprod :: "fl list \<Rightarrow> fl list" where
  "cumprod xs = cumprod_from 1 xs"

section \<open>Cleaning (\<^verbatim>\<open>clean_transactions\<close>, \<^verbatim>\<open>choose_politician\<close>, lines 25-58)\<close>

text \<open>\<^verbatim>\<open>str.contains("Purchase")\<close>: the pattern occurs somewhere in the string.\<close>

fun str_contains :: "string \<Rightarrow> string \<Rightarrow> bool" where
  "str_contains [] pat = (pat = [])"
| "str_contains (c # s) pat = (take (length pat) (c # s) = pat \<or> str_contains s pat)"

definition renamed_stocks :: "(string \<times> string) list" where
  "renamed_stocks = [(''FB'', ''META'')]"

text \<open>\<^verbatim>\<open>Series.replace(dict)\<close>: a value that is a key of the dictionary is replaced.\<close>

definition replace_ticker :: "(string \<times> string) list \<Rightarrow> string \<Rightarrow> string" where
  "replace_ticker renamed k = (case map_of renamed k of None \<Rightarrow> k | Some k' \<Rightarrow> k')"

text \<open>
  The frame \<^verbatim>\<open>df\<close> is what \<^verbatim>\<open>load_transactions\<close> read, with its two date columns
  already parsed (lines 37-38). \<^verbatim>\<open>sort_values\<close> is modelled by a stable sort (pandas'
  default sort may order rows of one date differently).
\<close>

definition clean_transactions ::
  "transaction list \<Rightarrow> date \<Rightarrow> (string \<times> string) list \<Rightarrow> transaction list" where
  "clean_transactions df cutoff_date renamed =
     sort_key TransactionDate
       (map (\<lambda>t. t\<lparr>Ticker := replace_ticker renamed (Ticker t)\<rparr>)
         (map (\<lambda>t. if \<not> str_contains (Transaction t) ''Purchase''
                    then t\<lparr>Amount := - Amount t\<rparr> else t)
           (filter (\<lambda>t. TransactionDate t > cutoff_date) df)))"

definition choose_politician :: "transaction list \<Rightarrow> string \<Rightarrow> transaction list" where
  "choose_politician df politician = filter (\<lambda>t. Representative t = politician) df"

section \<open>The price table (\<^verbatim>\<open>download_stock_data\<close>, lines 60-90)\<close>

text \<open>\<^verbatim>\<open>reset_index().melt(id_vars=['Date'], ...)\<close>: the wide table column by column.\<close>

definition melt :: "wide_table \<Rightarrow> (date \<times> string \<times> fl) list" where
  "melt w = concat (map (\<lambda>k. map (\<lambda>d. (d, k, w_close w d k)) (w_index w)) (w_columns w))"

text \<open>\<^verbatim>\<open>dropna(subset=['Close'])\<close>.\<close>

definition dropna_close :: "(date \<times> string \<times> fl) list \<Rightarrow> (date \<times> string \<times> fl) list" where
  "dropna_close rows = filter (\<lambda>(d, k, c). c \<noteq> NaN) rows"

text \<open>
  \<^verbatim>\<open>groupby('Ticker')['Close'].pct_change()\<close>, row by row: \<open>prev_close\<close> holds, for each
  ticker, the close of its previous row. The first row of a ticker has no previous
  row, so its change is NaN; otherwise it is \<open>close / previous - 1\<close> in float
  arithmetic.
\<close>

fun pct_change_by_ticker ::
  "(string \<rightharpoonup> fl) \<Rightarrow> (date \<times> string \<times> fl) list \<Rightarrow> fl list" where
  "pct_change_by_ticker prev_close [] = []"
| "pct_change_by_ticker prev_close ((d, k, c) # rows) =
     (case prev_close k of
        None \<Rightarrow> NaN
      | Some prev \<Rightarrow> c / prev - 1)
     # pct_change_by_ticker (prev_close(k \<mapsto> c)) rows"

definition price_table :: "wide_table \<Rightarrow> price_row list" where
  "price_table stocks =
     (let stock_data = sort_key (\<lambda>(d, k, c). (k, d)) (dropna_close (melt stocks))
      in map (\<lambda>((d, k, c), pct).
               \<lparr>Date_p = d, Ticker_p = k, Close_p = c, DailyROI_p = fillna 0 pct + 1\<rparr>)
           (zip stock_data (pct_change_by_ticker Map.empty stock_data)))"

definition download_stock_data ::
  "provider \<Rightarrow> transaction list \<Rightarrow> date \<Rightarrow> date option \<Rightarrow> request list
     \<Rightarrow> price_row list \<times> request list" where
  "download_stock_data prov politician_trades cutoff_date end_date lg =
     (let tickers = unique (map Ticker politician_trades) @ [''SPY''];
          (stocks, lg') =
             yf_download prov \<lparr>rq_tickers = tickers, rq_start = cutoff_date, rq_end = end_date\<rparr> lg
      in (price_table stocks, lg'))"

section \<open>Trade valuation (\<^verbatim>\<open>add_stock_amount_column\<close>, lines 92-106)\<close>

text \<open>
  The left merge on (\<^verbatim>\<open>TransactionDate\<close>, \<^verbatim>\<open>Ticker\<close>) = (\<^verbatim>\<open>Date\<close>, \<^verbatim>\<open>Ticker\<close>): a
  trade is repeated for every price row that matches it, and kept once, with NaN in the
  columns of the price table, when none does. Then \<^verbatim>\<open>Amount / Close\<close>, a float
  division: NaN over a NaN close, an infinity over a close of zero.
\<close>

definition valued :: "transaction \<Rightarrow> fl \<Rightarrow> valued_transaction" where
  "valued t c =
     \<lparr>Representative = Representative t, Ticker = Ticker t, Transaction = Transaction t,
      Amount = Amount t, ReportDate = ReportDate t, TransactionDate = TransactionDate t,
      Close = c, StockAmount = Amount t / c\<rparr>"

definition add_stock_amount_column ::
  "transaction list \<Rightarrow> price_row list \<Rightarrow> valued_transaction list" where
  "add_stock_amount_column politician_trades stock_data =
     concat (map (\<lambda>t.
        case filter (\<lambda>p. Date_p p = TransactionDate t \<and> Ticker_p p = Ticker t) stock_data of
          [] \<Rightarrow> [valued t NaN]
        | ps \<Rightarrow> map (\<lambda>p. valued t (Close_p p)) ps) politician_trades)"

section \<open>The holdings ledger with its calendar request (line 123)\<close>

definition holdings ::
  "provider \<Rightarrow> valued_transaction list \<Rightarrow> date \<Rightarrow> groupby_column \<Rightarrow> date option
     \<Rightarrow> request list \<Rightarrow> holding_row list \<times> request list" where
  "holdings prov trades cutoff_date col end_date lg =
     (let (spy, lg') =
             yf_download prov \<lparr>rq_tickers = [''SPY''], rq_start = cutoff_date, rq_end = end_date\<rparr> lg;
          dates = w_index spy
      in (holdings_loop [] dates trades col, lg'))"

section \<open>Portfolio returns (\<^verbatim>\<open>calculate_portfolio_roi\<close>, lines 154-175)\<close>

datatype error = KeyError | IndexError

record roi_row = holding_row +
  Close_r :: fl
  DailyROI_r :: fl
  StockValue :: fl
  TotalValue :: fl
  ROI :: fl

text \<open>Line 171: the inner merge on (\<^verbatim>\<open>Date\<close>, \<^verbatim>\<open>Ticker\<close>), in the order of the ledger.\<close>

definition merge_prices :: "holding_row list \<Rightarrow> price_row list \<Rightarrow> (holding_row \<times> price_row) list" where
  "merge_prices holding stock_data =
     concat (map (\<lambda>h. map (\<lambda>p. (h, p))
        (filter (\<lambda>p. Date_p p = Date_h h \<and> Ticker_p p = Ticker_h h) stock_data)) holding)"

text \<open>Line 172.\<close>

definition stock_value :: "holding_row \<times> price_row \<Rightarrow> fl" where
  "stock_value hp = StockAmount_h (fst hp) * Close_p (snd hp)"

text \<open>Line 173: \<^verbatim>\<open>groupby('Date')['StockValue'].transform('sum')\<close>, for the rows of one
  date; the sum skips NaN values.\<close>

definition total_value :: "(holding_row \<times> price_row) list \<Rightarrow> date \<Rightarrow> fl" where
  "total_value merged d = sum_skipna (map stock_value (filter (\<lambda>hp. Date_h (fst hp) = d) merged))"

text \<open>Line 174: the weight is \<^verbatim>\<open>StockValue / TotalValue\<close>, a float division with no guard.\<close>

definition weight :: "fl \<Rightarrow> fl \<Rightarrow> fl" where
  "weight sv tv = sv / tv"

definition roi_row_of :: "(holding_row \<times> price_row) list \<Rightarrow> holding_row \<times> price_row \<Rightarrow> roi_row" where
  "roi_row_of merged hp =
     (let sv = stock_value hp; tv = total_value merged (Date_h (fst hp))
      in \<lparr>Date_h = Date_h (fst hp), Ticker_h = Ticker_h (fst hp),
          StockAmount_h = StockAmount_h (fst hp),
          Close_r = Close_p (snd hp), DailyROI_r = DailyROI_p (snd hp),
          StockValue = sv, TotalValue = tv,
          ROI = weight sv tv * DailyROI_p (snd hp)\<rparr>)"

definition roi_rows :: "(holding_row \<times> price_row) list \<Rightarrow> roi_row list" where
  "roi_rows merged = map (roi_row_of merged) merged"

text \<open>
  The ledger of line 150 is \<^verbatim>\<open>pd.DataFrame(holdings_list)\<close>; built from the empty list
  it has no column at all, and the merge of line 171 raises \<^verbatim>\<open>KeyError\<close>.
\<close>

definition calculate_portfolio_roi ::
  "provider \<Rightarrow> valued_transaction list \<Rightarrow> date \<Rightarrow> price_row list \<Rightarrow> groupby_column
     \<Rightarrow> request list \<Rightarrow> (error + roi_row list) \<times> request list" where
  "calculate_portfolio_roi prov politician_trades cutoff_date stock_data col lg =
     (let (holding, lg') = holdings prov politician_trades cutoff_date col None lg
      in if holding = [] then (Inl KeyError, lg')
         else (Inr (roi_rows (merge_prices holding stock_data)), lg'))"

section \<open>The comparison table (\<^verbatim>\<open>create_portfolio_roi\<close>, lines 177-216)\<close>

record final_row =
  Date_f :: date
  SPYCumROI :: fl
  ROI_f :: fl
  CopyTradeROI :: fl
  CopyCumulativeROI :: fl
  CumulativeROI :: fl

text \<open>
  \<^verbatim>\<open>Series.pct_change()\<close> of a column of closes: \<open>close / previous - 1\<close>, with NaN for
  the previous value of the first row (no close is carried forward over a NaN, as in
  pandas 3).
\<close>

fun pct_change :: "fl \<Rightarrow> fl list \<Rightarrow> fl list" where
  "pct_change prev [] = []"
| "pct_change prev (c # cs) = (c / prev - 1) # pct_change c cs"

text \<open>\<^verbatim>\<open>groupby('Date')[...].sum().reset_index()\<close>: one row per date, in date order.\<close>

definition groupby_date_sum :: "roi_row list \<Rightarrow> (date \<times> fl) list" where
  "groupby_date_sum rows =
     map (\<lambda>d. (d, sum_skipna (map ROI (filter (\<lambda>r. Date_h r = d) rows))))
       (sort (remdups (map Date_h rows)))"

text \<open>\<^verbatim>\<open>merge(..., on="Date", how="left")\<close> of a frame with a (date, value) frame: a
  row without a match gets NaN in the new column.\<close>

definition merge_left :: "(date \<times> 'a) list \<Rightarrow> (date \<times> fl) list \<Rightarrow> (date \<times> 'a \<times> fl) list" where
  "merge_left left right =
     concat (map (\<lambda>(d, a).
        case filter (\<lambda>(d', v). d' = d) right of
          [] \<Rightarrow> [(d, a, NaN)]
        | ms \<Rightarrow> map (\<lambda>(d', v). (d, a, v)) ms) left)"

definition assemble ::
  "wide_table \<Rightarrow> roi_row list \<Rightarrow> roi_row list \<Rightarrow> final_row list" where
  "assemble spy_data politician_holdings copytraded_holdings =
     (let dates = w_index spy_data;
          spy_daily = map (\<lambda>x. fillna 0 x + 1)
                        (pct_change NaN (map (\<lambda>d. w_close spy_data d ''SPY'') dates));
          final = zip dates (cumprod spy_daily);
          final = merge_left final (groupby_date_sum politician_holdings);
          final = merge_left final (groupby_date_sum copytraded_holdings);
          copy_roi = map (\<lambda>(d, (spy, roi), copy). fillna 1 copy) final;
          copy_cum = cumprod copy_roi;
          roi = map (\<lambda>(d, (spy, roi), copy). fillna 1 roi) final;
          cum = cumprod roi
      in map (\<lambda>((((d, (spy, r), c), copy_r), copy_c), roi_r, cum_r).
               \<lparr>Date_f = d, SPYCumROI = spy, ROI_f = roi_r, CopyTradeROI = copy_r,
                CopyCumulativeROI = copy_c, CumulativeROI = cum_r\<rparr>)
           (zip (zip (zip final copy_roi) copy_cum) (zip roi cum)))"

definition create_portfolio_roi ::
  "provider \<Rightarrow> valued_transaction list \<Rightarrow> price_row list \<Rightarrow> date \<Rightarrow> date option
     \<Rightarrow> request list \<Rightarrow> (error + final_row list) \<times> request list" where
  "create_portfolio_roi prov politician_trades stock_data cutoff_date end_date lg =
     (case calculate_portfolio_roi prov politician_trades cutoff_date stock_data
             TransactionDate_col lg of
        (Inl e, lg1) \<Rightarrow> (Inl e, lg1)
      | (Inr politician_holdings, lg1) \<Rightarrow>
          (case calculate_portfolio_roi prov politician_trades cutoff_date stock_data
                  ReportDate_col lg1 of
             (Inl e, lg2) \<Rightarrow> (Inl e, lg2)
           | (Inr copytraded_holdings, lg2) \<Rightarrow>
               (let (spy_data, lg3) =
                       yf_download prov
                         \<lparr>rq_tickers = [''SPY''], rq_start = cutoff_date, rq_end = end_date\<rparr> lg2
                in (Inr (assemble spy_data politician_holdings copytraded_holdings), lg3))))"

section \<open>The run (\<^verbatim>\<open>calculate_returns\<close>, lines 218-236)\<close>

text \<open>
  \<^verbatim>\<open>politician_trades.iloc[0]\<close> raises \<^verbatim>\<open>IndexError\<close> on an empty frame. The frame
  \<open>df\<close> stands for \<^verbatim>\<open>load_transactions(file_path)\<close>.
\<close>

definition calculate_returns ::
  "provider \<Rightarrow> string \<Rightarrow> transaction list \<Rightarrow> date \<Rightarrow> request list
     \<Rightarrow> (error + final_row list) \<times> request list" where
  "calculate_returns prov politician_name df cutoff_date lg =
     (let df = clean_transactions df cutoff_date renamed_stocks;
          politician_trades = choose_politician df politician_name
      in case politician_trades of
           [] \<Rightarrow> (Inl IndexError, lg)
         | first # others \<Rightarrow>
             (let cutoff_date = TransactionDate first;
                  (stock_data, lg1) =
                     download_stock_data prov politician_trades cutoff_date None lg;
                  politician_trades = add_stock_amount_column politician_trades stock_data
              in create_portfolio_roi prov politician_trades stock_data cutoff_date None lg1))"

section \<open>Predicates used in the statements\<close>

text \<open>A quantity that lines 138-139 keep: the comparison \<^verbatim>\<open><= 0\<close> is false of it.\<close>

definition kept :: "fl \<Rightarrow> bool" where
  "kept v = (\<not> v \<le> 0)"

definition all_kept :: "holdings_dict \<Rightarrow> bool" where
  "all_kept d = list_all (\<lambda>(k, v). kept v) d"

text \<open>The dictionary as the loop keeps it: kept values under distinct keys.\<close>

definition wf_dict :: "holdings_dict \<Rightarrow> bool" where
  "wf_dict d = (all_kept d \<and> distinct (map fst d))"

text \<open>A finite number; a finite positive number.\<close>

fun finite_fl :: "fl \<Rightarrow> bool" where
  "finite_fl (Fin a) = True"
| "finite_fl x = False"

fun positive_finite :: "fl \<Rightarrow> bool" where
  "positive_finite (Fin a) = (0 < a)"
| "positive_finite x = False"

definition all_positive_finite :: "holdings_dict \<Rightarrow> bool" where
  "all_positive_finite d = list_all (\<lambda>(k, v). positive_finite v) d"

text \<open>What lines 137-139 leave of a quantity: nothing when it is \<^verbatim>\<open><= 0\<close>.\<close>

definition clamp :: "fl \<Rightarrow> fl" where
  "clamp v = (if v \<le> 0 then 0 else v)"

text \<open>The dictionary after the loop has processed a calendar.\<close>

definition holdings_state ::
  "valued_transaction list \<Rightarrow> groupby_column \<Rightarrow> date list \<Rightarrow> holdings_dict" where
  "holdings_state trades col dates = foldl (\<lambda>d day. day_update d trades col day) [] dates"

text \<open>The net share quantity of one ticker's transactions dated on one day.\<close>

definition day_sum :: "valued_transaction list \<Rightarrow> groupby_column \<Rightarrow> date \<Rightarrow> string \<Rightarrow> fl" where
  "day_sum trades col day k =
     sum_skipna (map StockAmount (filter (\<lambda>t. column col t = day \<and> Ticker t = k) trades))"

text \<open>The net share quantity of all of a ticker's transactions dated up to a day.\<close>

definition net_shares :: "valued_transaction list \<Rightarrow> groupby_column \<Rightarrow> string \<Rightarrow> date \<Rightarrow> fl" where
  "net_shares trades col k D =
     sum_skipna (map StockAmount (filter (\<lambda>t. column col t \<le> D \<and> Ticker t = k) trades))"

text \<open>The cell of a date after the left merge with a portfolio's aggregated series, and
  the daily return after \<^verbatim>\<open>fillna(1.0)\<close>.\<close>

definition merged_cell :: "roi_row list \<Rightarrow> date \<Rightarrow> fl" where
  "merged_cell rows d = (case map_of (groupby_date_sum rows) d of None \<Rightarrow> NaN | Some v \<Rightarrow> v)"

definition filled :: "roi_row list \<Rightarrow> date \<Rightarrow> fl" where
  "filled rows d = fillna 1 (merged_cell rows d)"

text \<open>The rows of one ticker in the long table; one row of the price table; the long
  table after \<^verbatim>\<open>dropna\<close> and \<^verbatim>\<open>sort_values\<close>.\<close>

definition of_ticker :: "string \<Rightarrow> (date \<times> string \<times> fl) list \<Rightarrow> (date \<times> string \<times> fl) list" where
  "of_ticker k rows = filter (\<lambda>row. fst (snd row) = k) rows"

definition price_row_of :: "(date \<times> string \<times> fl) \<times> fl \<Rightarrow> price_row" where
  "price_row_of = (\<lambda>((d, k, c), pct).
      \<lparr>Date_p = d, Ticker_p = k, Close_p = c, DailyROI_p = fillna 0 pct + 1\<rparr>)"

definition sorted_cells :: "wide_table \<Rightarrow> (date \<times> string \<times> fl) list" where
  "sorted_cells stocks = sort_key (\<lambda>(d, k, c). (k, d)) (dropna_close (melt stocks))"

section \<open>Example data\<close>

text \<open>A valued trade of one representative, given by ticker, dates and share quantity.\<close>

definition trade :: "string \<Rightarrow> date \<Rightarrow> date \<Rightarrow> fl \<Rightarrow> valued_transaction" where
  "trade k td rd q =
     \<lparr>Representative = ''P'', Ticker = k, Transaction = ''Purchase'', Amount = 0,
      ReportDate = rd, TransactionDate = td, Close = NaN, StockAmount = q\<rparr>"

text \<open>A provider whose benchmark calendar is the days from the start date up to day 5.\<close>

definition calendar_provider :: provider where
  "calendar_provider rq =
     \<lparr>w_index = filter (\<lambda>d. rq_start rq \<le> d) [1, 2, 3, 4, 5],
      w_columns = rq_tickers rq,
      w_close = (\<lambda>d k. if k = ''SPY'' then Fin 100 else NaN)\<rparr>"

text \<open>Buy 10 shares of X on day 1 (disclosed on day 4) and sell them on day 3 (disclosed on
  day 5); buy 4 shares of Y on day 2.\<close>

definition example_trades :: "valued_transaction list" where
  "example_trades =
     [trade ''X'' 1 4 (Fin 10), trade ''Y'' 2 2 (Fin 4), trade ''X'' 3 5 (Fin (- 10))]"

text \<open>Sell 5 shares of X on day 1, buy 10 on day 2, sell 5 on day 3.\<close>

definition oversold_trades :: "valued_transaction list" where
  "oversold_trades =
     [trade ''X'' 1 1 (Fin (- 5)), trade ''X'' 2 2 (Fin 10), trade ''X'' 3 3 (Fin (- 5))]"

text \<open>Buy 10 shares of X on day 1, sell them on day 2, buy 3 on day 4.\<close>

definition rebuy_trades :: "valued_transaction list" where
  "rebuy_trades =
     [trade ''X'' 1 1 (Fin 10), trade ''X'' 2 2 (Fin (- 10)), trade ''X'' 4 4 (Fin 3)]"

text \<open>A trade of one representative as read from the file, by ticker, kind, dollar amount
  and dates.\<close>

definition raw_trade :: "string \<Rightarrow> string \<Rightarrow> real \<Rightarrow> date \<Rightarrow> date \<Rightarrow> transaction" where
  "raw_trade k kind a td rd =
     \<lparr>Representative = ''P'', Ticker = k, Transaction = kind, Amount = Fin a,
      ReportDate = rd, TransactionDate = td\<rparr>"

text \<open>Prices of X on days 1 and 2 (50, then 55); no price of Y.\<close>

definition example_prices :: "price_row list" where
  "example_prices =
     [\<lparr>Date_p = 1, Ticker_p = ''X'', Close_p = Fin 50, DailyROI_p = Fin 1\<rparr>,
      \<lparr>Date_p = 2, Ticker_p = ''X'', Close_p = Fin 55, DailyROI_p = Fin (11 / 10)\<rparr>]"

text \<open>Prices of X (50, then 55) and of Y (30, then 33) on days 1 and 2.\<close>

definition two_prices :: "price_row list" where
  "two_prices =
     [\<lparr>Date_p = 1, Ticker_p = ''X'', Close_p = Fin 50, DailyROI_p = Fin 1\<rparr>,
      \<lparr>Date_p = 2, Ticker_p = ''X'', Close_p = Fin 55, DailyROI_p = Fin (11 / 10)\<rparr>,
      \<lparr>Date_p = 1, Ticker_p = ''Y'', Close_p = Fin 30, DailyROI_p = Fin 1\<rparr>,
      \<lparr>Date_p = 2, Ticker_p = ''Y'', Close_p = Fin 33, DailyROI_p = Fin (11 / 10)\<rparr>]"

text \<open>Twenty shares of X and twenty shares of Y, bought on day 1.\<close>

definition two_trades :: "valued_transaction list" where
  "two_trades = [trade ''X'' 1 1 (Fin 20), trade ''Y'' 1 1 (Fin 20)]"

text \<open>
  A provider with three trading days. SPY closes at 100 every day; X closes at \<open>x1\<close>,
  \<open>x2\<close> and \<open>x3\<close>; Y closes at 30, 33 and 33; no other ticker has a price.
\<close>

definition market_provider :: "real \<Rightarrow> real \<Rightarrow> real \<Rightarrow> provider" where
  "market_provider x1 x2 x3 rq =
     \<lparr>w_index = filter (\<lambda>d. rq_start rq \<le> d) [1, 2, 3],
      w_columns = rq_tickers rq,
      w_close = (\<lambda>d k.
         if k = ''X'' then (if d = 1 then Fin x1 else if d = 2 then Fin x2 else Fin x3)
         else if k = ''Y'' then (if d = 1 then Fin 30 else Fin 33)
         else if k = ''SPY'' then Fin 100 else NaN)\<rparr>"

text \<open>The file: P buys 1000 dollars of X on day 1 and sells 300 dollars of FB on day 2;
  Q buys Z on day 1.\<close>

definition example_df :: "transaction list" where
  "example_df =
     [raw_trade ''FB'' ''Sale (Full)'' 300 2 3,
      (raw_trade ''Z'' ''Purchase'' 100 1 1)\<lparr>Representative := ''Q''\<rparr>,
      raw_trade ''X'' ''Purchase'' 1000 1 2]"

text \<open>A file in which P buys 1000 dollars of X on day 1 and sells 1000 dollars of X on
  day 2; a file in which P buys 1000 dollars of X and 600 dollars of Y on day 1; a file
  in which P buys 500 dollars of Z, which has no price, on day 1.\<close>

definition round_trip_df :: "transaction list" where
  "round_trip_df =
     [raw_trade ''X'' ''Purchase'' 1000 1 1, raw_trade ''X'' ''Sale (Full)'' 1000 2 2]"

definition two_buys_df :: "transaction list" where
  "two_buys_df =
     [raw_trade ''X'' ''Purchase'' 1000 1 1, raw_trade ''Y'' ''Purchase'' 600 1 1]"

definition unpriced_df :: "transaction list" where
  "unpriced_df = [raw_trade ''Z'' ''Purchase'' 500 1 2]"

text \<open>The trades of P after cleaning, the price table of the run, the valued trades.\<close>

definition politician_trades_of :: "transaction list \<Rightarrow> transaction list" where
  "politician_trades_of df = choose_politician (clean_transactions df 0 renamed_stocks) ''P''"

definition stock_data_of :: "provider \<Rightarrow> transaction list \<Rightarrow> price_row list" where
  "stock_data_of prov df = fst (download_stock_data prov (politician_trades_of df) 1 None [])"

definition valued_of :: "provider \<Rightarrow> transaction list \<Rightarrow> valued_transaction list" where
  "valued_of prov df = add_stock_amount_column (politician_trades_of df) (stock_data_of prov df)"

text \<open>The same prices without the observation of Y on day 2.\<close>

definition gap_prices :: "price_row list" where
  "gap_prices = filter (\<lambda>p. \<not> (Date_p p = 2 \<and> Ticker_p p = ''Y'')) two_prices"

section \<open>Properties of the float operations\<close>

lemma fl_zero_le_zero: "(0 :: fl) \<le> 0"
  by (simp add: zero_fl_def)

lemma not_kept_zero: "\<not> kept 0"
  by (simp add: kept_def fl_zero_le_zero)

lemma kept_iff: "kept v \<longleftrightarrow> 0 < v \<or> v = NaN"
  by (cases v) (auto simp: kept_def zero_fl_def)

lemma positive_kept: "0 < v \<Longrightarrow> kept v"
  by (simp add: kept_iff)

lemma clamp_kept: "kept v \<Longrightarrow> clamp v = v"
  by (simp add: clamp_def kept_def)

lemma clamp_zero: "clamp 0 = 0"
  by (simp add: clamp_def)

lemma clamp_evicted: "v \<le> 0 \<Longrightarrow> clamp v = 0"
  by (simp add: clamp_def)

lemma positive_finite_iff: "positive_finite v \<longleftrightarrow> 0 < v \<and> finite_fl v"
  by (cases v) (simp_all add: zero_fl_def)

lemma finite_fl_iff: "finite_fl v \<longleftrightarrow> (\<exists>a. v = Fin a)"
  by (cases v) simp_all

lemma finite_fl_add: "finite_fl a \<Longrightarrow> finite_fl b \<Longrightarrow> finite_fl (a + b)"
  by (auto simp: finite_fl_iff)

lemma finite_fl_zero: "finite_fl 0"
  by (simp add: zero_fl_def)

lemma plus_eq_Fin:
  "a + b = Fin t \<Longrightarrow> \<exists>x y. a = Fin x \<and> b = Fin y \<and> t = x + y"
  by (cases a; cases b) simp_all

lemma divide_eq_NaN: "c \<noteq> 0 \<Longrightarrow> x / Fin c = NaN \<longleftrightarrow> x = NaN"
  by (cases x) simp_all

lemma fl_mult_1_left: "(1 :: fl) * x = x"
  by (cases x) (simp_all add: one_fl_def)

lemma pct_plus_one: "x \<noteq> NaN \<Longrightarrow> fillna 0 (x - 1) + 1 = x"
  by (cases x) (simp_all add: fillna_def minus_fl_def one_fl_def zero_fl_def)

lemma pct_plus_one_NaN: "fillna 0 (NaN - 1) + 1 = 1"
  by (simp add: fillna_def minus_fl_def one_fl_def zero_fl_def)

lemma sum_skipna_Nil: "sum_skipna [] = 0"
  by (simp add: sum_skipna_def)

lemma sum_skipna_append: "sum_skipna (xs @ ys) = sum_skipna xs + sum_skipna ys"
  by (simp add: sum_skipna_def)

lemma sum_skipna_finite:
  "\<forall>x \<in> set xs. x \<noteq> PInf \<and> x \<noteq> NInf \<Longrightarrow> finite_fl (sum_skipna xs)"
proof (induction xs)
  case Nil
  then show ?case by (simp add: sum_skipna_def zero_fl_def)
next
  case (Cons x xs)
  then have ih: "finite_fl (sum_skipna xs)" by simp
  from Cons.prems have "x = NaN \<or> finite_fl x" by (cases x) simp_all
  then show ?case
  proof
    assume "x = NaN"
    with ih show ?thesis by (simp add: sum_skipna_def)
  next
    assume "finite_fl x"
    then have "x \<noteq> NaN" by auto
    then have "sum_skipna (x # xs) = x + sum_skipna xs" by (simp add: sum_skipna_def)
    with \<open>finite_fl x\<close> ih show ?thesis by (simp add: finite_fl_add)
  qed
qed

section \<open>Properties of the dictionary\<close>

lemma map_of_overwrite:
  "k \<in> fst ` set d \<Longrightarrow>
   map_of (map (\<lambda>(k', v'). if k' = k then (k', v) else (k', v')) d) k = Some v"
proof (induction d)
  case Nil
  then show ?case by simp
next
  case (Cons p d)
  obtain a b where p: "p = (a, b)" by (cases p)
  show ?case
  proof (cases "a = k")
    case True
    then show ?thesis by (simp add: p)
  next
    case False
    with Cons.prems have "k \<in> fst ` set d" by (auto simp: p)
    then show ?thesis using Cons.IH False by (simp add: p)
  qed
qed

lemma dict_get_set_same: "dict_get (dict_set d k v) k = v"
proof (cases "k \<in> fst ` set d")
  case True
  then have "map_of (map (\<lambda>(k', v'). if k' = k then (k', v) else (k', v')) d) k = Some v"
    by (rule map_of_overwrite)
  with True show ?thesis by (simp add: dict_get_def dict_set_def)
next
  case False
  then have "map_of d k = None" by (simp add: map_of_eq_None_iff)
  with False show ?thesis by (simp add: dict_get_def dict_set_def map_add_def)
qed

lemma dict_set_members:
  "(k', v') \<in> set (dict_set d k v) \<Longrightarrow> (k' = k \<and> v' = v) \<or> (k', v') \<in> set d"
  by (auto simp: dict_set_def split: if_splits)

lemma accumulate_members:
  assumes "(k', v') \<in> set (accumulate d (k, s))"
  shows "(k' = k \<and> v' = dict_get d k + s \<and> \<not> dict_get d k + s \<le> 0) \<or> (k', v') \<in> set d"
proof (cases "dict_get d k + s \<le> 0")
  case True
  then have "accumulate d (k, s) = dict_del (dict_set d k (dict_get d k + s)) k"
    by (simp add: dict_get_set_same)
  with assms have "k' \<noteq> k" and "(k', v') \<in> set (dict_set d k (dict_get d k + s))"
    by (auto simp: dict_del_def)
  then show ?thesis using dict_set_members by blast
next
  case False
  then have "accumulate d (k, s) = dict_set d k (dict_get d k + s)"
    by (simp add: dict_get_set_same)
  with assms have "(k', v') \<in> set (dict_set d k (dict_get d k + s))" by simp
  then show ?thesis using dict_set_members False by blast
qed

lemma all_kept_accumulate:
  assumes "all_kept d"
  shows "all_kept (accumulate d (k, s))"
proof -
  have "kept v'" if "(k', v') \<in> set (accumulate d (k, s))" for k' v'
    using accumulate_members [OF that] assms
    by (auto simp: all_kept_def list_all_iff kept_def)
  then show ?thesis by (auto simp: all_kept_def list_all_iff)
qed

lemma all_kept_foldl:
  "all_kept d \<Longrightarrow> all_kept (foldl accumulate d ps)"
proof (induction ps arbitrary: d)
  case Nil
  then show ?case by simp
next
  case (Cons p ps)
  obtain k s where p: "p = (k, s)" by (cases p)
  from Cons.prems have "all_kept (accumulate d p)"
    unfolding p by (rule all_kept_accumulate)
  then show ?case using Cons.IH by simp
qed

lemma all_kept_day_update:
  "all_kept d \<Longrightarrow> all_kept (day_update d trades col day)"
  by (simp add: day_update_def Let_def all_kept_foldl)

lemma holdings_loop_rows:
  "set (holdings_loop d (day # dates) trades col) =
     snapshot day ` set (day_update d trades col day)
     \<union> set (holdings_loop (day_update d trades col day) dates trades col)"
  by (simp add: Let_def)

lemma holdings_loop_kept:
  "all_kept d \<Longrightarrow> r \<in> set (holdings_loop d dates trades col) \<Longrightarrow> kept (StockAmount_h r)"
proof (induction dates arbitrary: d)
  case Nil
  then show ?case by simp
next
  case (Cons day dates)
  let ?d' = "day_update d trades col day"
  have inv: "all_kept ?d'" using Cons.prems(1) by (rule all_kept_day_update)
  from Cons.prems(2) consider
    (now) "r \<in> snapshot day ` set ?d'"
    | (later) "r \<in> set (holdings_loop ?d' dates trades col)"
    unfolding holdings_loop_rows by blast
  then show ?case
  proof cases
    case now
    then obtain p where p: "p \<in> set ?d'" and r: "r = snapshot day p" by blast
    from inv p have "kept (snd p)" by (auto simp: all_kept_def list_all_iff)
    then show ?thesis by (simp add: r snapshot_def)
  next
    case later
    then show ?thesis using Cons.IH [OF inv] by simp
  qed
qed

section \<open>Finite quantities\<close>

lemma dict_get_positive_finite:
  assumes "all_positive_finite d"
  shows "\<exists>a. dict_get d k = Fin a \<and> 0 \<le> a"
proof (cases "map_of d k")
  case None
  then show ?thesis by (simp add: dict_get_def zero_fl_def)
next
  case (Some v)
  then have "(k, v) \<in> set d" by (rule map_of_SomeD)
  with assms have "positive_finite v" by (auto simp: all_positive_finite_def list_all_iff)
  then obtain a where "v = Fin a" and "0 < a" by (cases v) simp_all
  with Some show ?thesis by (simp add: dict_get_def)
qed

lemma all_positive_finite_accumulate:
  assumes inv: "all_positive_finite d" and s: "finite_fl s"
  shows "all_positive_finite (accumulate d (k, s))"
proof -
  from dict_get_positive_finite [OF inv] obtain a where a: "dict_get d k = Fin a" by blast
  from s obtain b where b: "s = Fin b" by (auto simp: finite_fl_iff)
  have "positive_finite v'" if "(k', v') \<in> set (accumulate d (k, s))" for k' v'
    using accumulate_members [OF that] inv
    by (auto simp: all_positive_finite_def list_all_iff a b zero_fl_def)
  then show ?thesis by (auto simp: all_positive_finite_def list_all_iff)
qed

lemma all_positive_finite_foldl:
  "all_positive_finite d \<Longrightarrow> \<forall>p \<in> set ps. finite_fl (snd p) \<Longrightarrow>
   all_positive_finite (foldl accumulate d ps)"
proof (induction ps arbitrary: d)
  case Nil
  then show ?case by simp
next
  case (Cons p ps)
  obtain k s where p: "p = (k, s)" by (cases p)
  from Cons.prems have "finite_fl s" by (simp add: p)
  with Cons.prems(1) have "all_positive_finite (accumulate d p)"
    unfolding p by (rule all_positive_finite_accumulate)
  moreover from Cons.prems(2) have "\<forall>p \<in> set ps. finite_fl (snd p)" by simp
  ultimately show ?case using Cons.IH by simp
qed

lemma groupby_ticker_sum_finite:
  assumes "\<forall>t \<in> set day. StockAmount t \<noteq> PInf \<and> StockAmount t \<noteq> NInf"
  shows "\<forall>p \<in> set (groupby_ticker_sum day). finite_fl (snd p)"
proof -
  have "finite_fl (sum_skipna (map StockAmount (filter (\<lambda>t. Ticker t = k) day)))" for k
    using assms by (intro sum_skipna_finite) auto
  then show ?thesis by (auto simp: groupby_ticker_sum_def)
qed

lemma all_positive_finite_day_update:
  assumes "all_positive_finite d"
    and "\<forall>t \<in> set trades. StockAmount t \<noteq> PInf \<and> StockAmount t \<noteq> NInf"
  shows "all_positive_finite (day_update d trades col day)"
proof -
  have "\<forall>p \<in> set (groupby_ticker_sum (filter (\<lambda>t. column col t = day) trades)). finite_fl (snd p)"
    using assms(2) by (intro groupby_ticker_sum_finite) auto
  with assms(1) show ?thesis
    by (simp add: day_update_def Let_def all_positive_finite_foldl)
qed

lemma holdings_loop_positive_finite:
  assumes trades: "\<forall>t \<in> set trades. StockAmount t \<noteq> PInf \<and> StockAmount t \<noteq> NInf"
  shows "all_positive_finite d \<Longrightarrow> r \<in> set (holdings_loop d dates trades col)
    \<Longrightarrow> positive_finite (StockAmount_h r)"
proof (induction dates arbitrary: d)
  case Nil
  then show ?case by simp
next
  case (Cons day dates)
  let ?d' = "day_update d trades col day"
  have inv: "all_positive_finite ?d'"
    using Cons.prems(1) trades by (rule all_positive_finite_day_update)
  from Cons.prems(2) consider
    (now) "r \<in> snapshot day ` set ?d'"
    | (later) "r \<in> set (holdings_loop ?d' dates trades col)"
    unfolding holdings_loop_rows by blast
  then show ?case
  proof cases
    case now
    then obtain p where p: "p \<in> set ?d'" and r: "r = snapshot day p" by blast
    from inv p have "positive_finite (snd p)" by (auto simp: all_positive_finite_def list_all_iff)
    then show ?thesis by (simp add: r snapshot_def)
  next
    case later
    then show ?thesis using Cons.IH [OF inv] by simp
  qed
qed

lemma holdings_ledger:
  "fst (holdings prov trades cutoff_date col end_date lg)
     = holdings_loop []
         (w_index (prov \<lparr>rq_tickers = [''SPY''], rq_start = cutoff_date, rq_end = end_date\<rparr>))
         trades col"
  by (simp add: holdings_def yf_download_def Let_def)

section \<open>Evaluation on concrete data\<close>

lemmas eval_float = zero_fl_def one_fl_def minus_fl_def inverse_fl_def

lemmas eval_holdings = eval_float holdings_def yf_download_def calendar_provider_def
  trade_def day_update_def groupby_ticker_sum_def sum_skipna_def dict_get_def dict_set_def
  dict_del_def snapshot_def Let_def holdings_state_def day_sum_def net_shares_def

lemmas eval_pipeline = eval_holdings calculate_portfolio_roi_def create_portfolio_roi_def
  add_stock_amount_column_def valued_def fillna_def merge_prices_def roi_rows_def
  roi_row_of_def stock_value_def total_value_def weight_def assemble_def groupby_date_sum_def
  merge_left_def cumprod_def raw_trade_def

text \<open>The trades of P in the example files, after cleaning.\<close>

lemmas eval_cleaning = politician_trades_of_def clean_transactions_def choose_politician_def
  renamed_stocks_def replace_ticker_def raw_trade_def eval_float

lemma example_politician_trades:
  "politician_trades_of example_df
     = [raw_trade ''X'' ''Purchase'' 1000 1 2, raw_trade ''META'' ''Sale (Full)'' (- 300) 2 3]"
  by (simp add: eval_cleaning example_df_def)

lemma round_trip_politician_trades:
  "politician_trades_of round_trip_df
     = [raw_trade ''X'' ''Purchase'' 1000 1 1, raw_trade ''X'' ''Sale (Full)'' (- 1000) 2 2]"
  by (simp add: eval_cleaning round_trip_df_def)

lemma two_buys_politician_trades:
  "politician_trades_of two_buys_df
     = [raw_trade ''X'' ''Purchase'' 1000 1 1, raw_trade ''Y'' ''Purchase'' 600 1 1]"
  by (simp add: eval_cleaning two_buys_df_def)

lemma unpriced_politician_trades:
  "politician_trades_of unpriced_df = [raw_trade ''Z'' ''Purchase'' 500 1 2]"
  by (simp add: eval_cleaning unpriced_df_def)

text \<open>The price tables of the example runs.\<close>

lemma stock_data_of_table:
  "stock_data_of prov df
     = price_table (prov \<lparr>rq_tickers = unique (map Ticker (politician_trades_of df)) @ [''SPY''],
                           rq_start = 1, rq_end = None\<rparr>)"
  by (simp add: stock_data_of_def download_stock_data_def yf_download_def Let_def)

lemmas eval_price_table = price_table_def melt_def dropna_close_def market_provider_def
  fillna_def unique_def raw_trade_def Let_def eval_float

lemma example_stock_data:
  "stock_data_of (market_provider 50 55 66) example_df
     = [\<lparr>Date_p = 1, Ticker_p = ''SPY'', Close_p = Fin 100, DailyROI_p = Fin 1\<rparr>,
        \<lparr>Date_p = 2, Ticker_p = ''SPY'', Close_p = Fin 100, DailyROI_p = Fin 1\<rparr>,
        \<lparr>Date_p = 3, Ticker_p = ''SPY'', Close_p = Fin 100, DailyROI_p = Fin 1\<rparr>,
        \<lparr>Date_p = 1, Ticker_p = ''X'', Close_p = Fin 50, DailyROI_p = Fin 1\<rparr>,
        \<lparr>Date_p = 2, Ticker_p = ''X'', Close_p = Fin 55, DailyROI_p = Fin (11 / 10)\<rparr>,
        \<lparr>Date_p = 3, Ticker_p = ''X'', Close_p = Fin 66, DailyROI_p = Fin (6 / 5)\<rparr>]"
  unfolding stock_data_of_table example_politician_trades by (simp add: eval_price_table)

lemma zero_close_stock_data:
  "stock_data_of (market_provider 50 55 0) example_df
     = [\<lparr>Date_p = 1, Ticker_p = ''SPY'', Close_p = Fin 100, DailyROI_p = Fin 1\<rparr>,
        \<lparr>Date_p = 2, Ticker_p = ''SPY'', Close_p = Fin 100, DailyROI_p = Fin 1\<rparr>,
        \<lparr>Date_p = 3, Ticker_p = ''SPY'', Close_p = Fin 100, DailyROI_p = Fin 1\<rparr>,
        \<lparr>Date_p = 1, Ticker_p = ''X'', Close_p = Fin 50, DailyROI_p = Fin 1\<rparr>,
        \<lparr>Date_p = 2, Ticker_p = ''X'', Close_p = Fin 55, DailyROI_p = Fin (11 / 10)\<rparr>,
        \<lparr>Date_p = 3, Ticker_p = ''X'', Close_p = Fin 0, DailyROI_p = Fin 0\<rparr>]"
  unfolding stock_data_of_table example_politician_trades by (simp add: eval_price_table)

lemma round_trip_stock_data:
  "stock_data_of (market_provider 0 0 55) round_trip_df
     = [\<lparr>Date_p = 1, Ticker_p = ''SPY'', Close_p = Fin 100, DailyROI_p = Fin 1\<rparr>,
        \<lparr>Date_p = 2, Ticker_p = ''SPY'', Close_p = Fin 100, DailyROI_p = Fin 1\<rparr>,
        \<lparr>Date_p = 3, Ticker_p = ''SPY'', Close_p = Fin 100, DailyROI_p = Fin 1\<rparr>,
        \<lparr>Date_p = 1, Ticker_p = ''X'', Close_p = Fin 0, DailyROI_p = Fin 1\<rparr>,
        \<lparr>Date_p = 2, Ticker_p = ''X'', Close_p = Fin 0, DailyROI_p = Fin 1\<rparr>,
        \<lparr>Date_p = 3, Ticker_p = ''X'', Close_p = Fin 55, DailyROI_p = PInf\<rparr>]"
  unfolding stock_data_of_table round_trip_politician_trades by (simp add: eval_price_table)

lemma two_buys_stock_data:
  "stock_data_of (market_provider 0 0 55) two_buys_df
     = [\<lparr>Date_p = 1, Ticker_p = ''SPY'', Close_p = Fin 100, DailyROI_p = Fin 1\<rparr>,
        \<lparr>Date_p = 2, Ticker_p = ''SPY'', Close_p = Fin 100, DailyROI_p = Fin 1\<rparr>,
        \<lparr>Date_p = 3, Ticker_p = ''SPY'', Close_p = Fin 100, DailyROI_p = Fin 1\<rparr>,
        \<lparr>Date_p = 1, Ticker_p = ''X'', Close_p = Fin 0, DailyROI_p = Fin 1\<rparr>,
        \<lparr>Date_p = 2, Ticker_p = ''X'', Close_p = Fin 0, DailyROI_p = Fin 1\<rparr>,
        \<lparr>Date_p = 3, Ticker_p = ''X'', Close_p = Fin 55, DailyROI_p = PInf\<rparr>,
        \<lparr>Date_p = 1, Ticker_p = ''Y'', Close_p = Fin 30, DailyROI_p = Fin 1\<rparr>,
        \<lparr>Date_p = 2, Ticker_p = ''Y'', Close_p = Fin 33, DailyROI_p = Fin (11 / 10)\<rparr>,
        \<lparr>Date_p = 3, Ticker_p = ''Y'', Close_p = Fin 33, DailyROI_p = Fin 1\<rparr>]"
  unfolding stock_data_of_table two_buys_politician_trades by (simp add: eval_price_table)

lemma unpriced_stock_data:
  "stock_data_of (market_provider 50 55 66) unpriced_df
     = [\<lparr>Date_p = 1, Ticker_p = ''SPY'', Close_p = Fin 100, DailyROI_p = Fin 1\<rparr>,
        \<lparr>Date_p = 2, Ticker_p = ''SPY'', Close_p = Fin 100, DailyROI_p = Fin 1\<rparr>,
        \<lparr>Date_p = 3, Ticker_p = ''SPY'', Close_p = Fin 100, DailyROI_p = Fin 1\<rparr>]"
  unfolding stock_data_of_table unpriced_politician_trades by (simp add: eval_price_table)

text \<open>The share quantities of the valued trades of the example runs.\<close>

lemmas eval_valued = add_stock_amount_column_def valued_def raw_trade_def eval_float

lemma example_valued:
  "valued_of (market_provider 50 55 66) example_df
     = [valued (raw_trade ''X'' ''Purchase'' 1000 1 2) (Fin 50),
        valued (raw_trade ''META'' ''Sale (Full)'' (- 300) 2 3) NaN]"
  unfolding valued_of_def example_stock_data example_politician_trades
  by (simp add: add_stock_amount_column_def raw_trade_def)

lemma zero_close_valued:
  "valued_of (market_provider 50 55 0) example_df
     = [valued (raw_trade ''X'' ''Purchase'' 1000 1 2) (Fin 50),
        valued (raw_trade ''META'' ''Sale (Full)'' (- 300) 2 3) NaN]"
  unfolding valued_of_def zero_close_stock_data example_politician_trades
  by (simp add: add_stock_amount_column_def raw_trade_def)

lemma round_trip_valued:
  "valued_of (market_provider 0 0 55) round_trip_df
     = [valued (raw_trade ''X'' ''Purchase'' 1000 1 1) (Fin 0),
        valued (raw_trade ''X'' ''Sale (Full)'' (- 1000) 2 2) (Fin 0)]"
  unfolding valued_of_def round_trip_stock_data round_trip_politician_trades
  by (simp add: add_stock_amount_column_def raw_trade_def)

lemma two_buys_valued:
  "valued_of (market_provider 0 0 55) two_buys_df
     = [valued (raw_trade ''X'' ''Purchase'' 1000 1 1) (Fin 0),
        valued (raw_trade ''Y'' ''Purchase'' 600 1 1) (Fin 30)]"
  unfolding valued_of_def two_buys_stock_data two_buys_politician_trades
  by (simp add: add_stock_amount_column_def raw_trade_def)

lemma unpriced_valued:
  "valued_of (market_provider 50 55 66) unpriced_df
     = [valued (raw_trade ''Z'' ''Purchase'' 500 1 2) NaN]"
  unfolding valued_of_def unpriced_stock_data unpriced_politician_trades
  by (simp add: add_stock_amount_column_def raw_trade_def)

lemma market_calendar:
  "w_index (market_provider x1 x2 x3 rq) = filter (\<lambda>d. rq_start rq \<le> d) [1, 2, 3]"
  by (simp add: market_provider_def)

lemmas eval_ledger = holdings_ledger market_calendar valued_def raw_trade_def
  day_update_def groupby_ticker_sum_def sum_skipna_def dict_get_def dict_set_def
  dict_del_def snapshot_def Let_def eval_float

section \<open>C1: the quantities of the ledger\<close>

text \<open>
  Claim C1 (amended). For every (date, ticker) row that the holdings reconstruction
  emits, under either date key, the cumulative share quantity is never zero or negative:
  the comparison \<^verbatim>\<open><= 0\<close> of line 138 is false of it, so it is strictly greater than 0
  (possibly infinite) or it is NaN. When no trade has an infinite share quantity (no
  trade is priced at a close of zero), every quantity is a finite number strictly
  greater than 0.
\<close>

theorem holdings_quantity_positive:
  fixes prov trades cutoff_date col end_date lg
  defines "ledger \<equiv> fst (holdings prov trades cutoff_date col end_date lg)"
  shows "(\<forall>r \<in> set ledger. \<not> StockAmount_h r \<le> 0
            \<and> (0 < StockAmount_h r \<or> StockAmount_h r = NaN))
       \<and> ((\<forall>t \<in> set trades. StockAmount t \<noteq> PInf \<and> StockAmount t \<noteq> NInf) \<longrightarrow>
            (\<forall>r \<in> set ledger. 0 < StockAmount_h r \<and> finite_fl (StockAmount_h r)))"
proof (intro conjI ballI impI)
  fix r
  assume "r \<in> set ledger"
  then have r: "r \<in> set (holdings_loop []
      (w_index (prov \<lparr>rq_tickers = [''SPY''], rq_start = cutoff_date, rq_end = end_date\<rparr>))
      trades col)"
    by (simp add: ledger_def holdings_ledger)
  have "all_kept []" by (simp add: all_kept_def)
  then have k: "kept (StockAmount_h r)" using r by (rule holdings_loop_kept)
  then show "\<not> StockAmount_h r \<le> 0" by (simp add: kept_def)
  from k show "0 < StockAmount_h r \<or> StockAmount_h r = NaN" by (simp add: kept_iff)
next
  fix r
  assume trades: "\<forall>t \<in> set trades. StockAmount t \<noteq> PInf \<and> StockAmount t \<noteq> NInf"
    and "r \<in> set ledger"
  then have r: "r \<in> set (holdings_loop []
      (w_index (prov \<lparr>rq_tickers = [''SPY''], rq_start = cutoff_date, rq_end = end_date\<rparr>))
      trades col)"
    by (simp add: ledger_def holdings_ledger)
  have "all_positive_finite []" by (simp add: all_positive_finite_def)
  then have "positive_finite (StockAmount_h r)"
    using r by (rule holdings_loop_positive_finite [OF trades])
  then show "0 < StockAmount_h r" and "finite_fl (StockAmount_h r)"
    by (simp_all add: positive_finite_iff)
qed

text \<open>A run with finite quantities: X is held on days 1 and 2, Y from day 2 on.\<close>

theorem holdings_quantity_positive_witness:
  "list_all (\<lambda>t. StockAmount t \<noteq> PInf \<and> StockAmount t \<noteq> NInf) example_trades
   \<and> map (\<lambda>r. (Date_h r, Ticker_h r, StockAmount_h r))
        (fst (holdings calendar_provider example_trades 1 TransactionDate_col None []))
     = [(1, ''X'', Fin 10), (2, ''X'', Fin 10), (2, ''Y'', Fin 4), (3, ''Y'', Fin 4),
        (4, ''Y'', Fin 4), (5, ''Y'', Fin 4)]
   \<and> list_all (\<lambda>r. \<not> StockAmount_h r \<le> 0 \<and> 0 < StockAmount_h r \<and> finite_fl (StockAmount_h r))
        (fst (holdings calendar_provider example_trades 1 TransactionDate_col None []))"
proof -
  have fin: "\<forall>t \<in> set example_trades. StockAmount t \<noteq> PInf \<and> StockAmount t \<noteq> NInf"
    by (simp add: example_trades_def trade_def)
  note inst = holdings_quantity_positive
    [of calendar_provider example_trades 1 TransactionDate_col None "[]"]
  from inst fin have "\<forall>r \<in> set (fst (holdings calendar_provider example_trades 1
        TransactionDate_col None [])).
      \<not> StockAmount_h r \<le> 0 \<and> 0 < StockAmount_h r \<and> finite_fl (StockAmount_h r)"
    by blast
  then have a: "list_all (\<lambda>r. \<not> StockAmount_h r \<le> 0 \<and> 0 < StockAmount_h r
        \<and> finite_fl (StockAmount_h r))
      (fst (holdings calendar_provider example_trades 1 TransactionDate_col None []))"
    by (simp add: list_all_iff)
  have b: "map (\<lambda>r. (Date_h r, Ticker_h r, StockAmount_h r))
        (fst (holdings calendar_provider example_trades 1 TransactionDate_col None []))
     = [(1, ''X'', Fin 10), (2, ''X'', Fin 10), (2, ''Y'', Fin 4), (3, ''Y'', Fin 4),
        (4, ''Y'', Fin 4), (5, ''Y'', Fin 4)]"
    by (simp add: eval_holdings example_trades_def)
  from fin have c: "list_all (\<lambda>t. StockAmount t \<noteq> PInf \<and> StockAmount t \<noteq> NInf) example_trades"
    by (simp add: list_all_iff)
  from a b c show ?thesis by blast
qed

text \<open>
  Claim C1 as stated fails. X closes at 0.00 on days 1 and 2; P buys 1000 dollars of X
  on day 1 and sells 1000 dollars of X on day 2. The two trades are valued at plus and
  minus infinitely many shares (line 105), their sum in the accumulator is NaN, the
  comparison \<^verbatim>\<open>NaN <= 0\<close> is false, and the ledger has rows of X with the quantity NaN
  on days 2 and 3: a quantity that is not strictly greater than 0.
\<close>

theorem nan_quantity_in_ledger:
  "map StockAmount (valued_of (market_provider 0 0 55) round_trip_df) = [PInf, NInf]
   \<and> fst (holdings (market_provider 0 0 55) (valued_of (market_provider 0 0 55) round_trip_df)
            1 TransactionDate_col None [])
     = [\<lparr>Date_h = 1, Ticker_h = ''X'', StockAmount_h = PInf\<rparr>,
        \<lparr>Date_h = 2, Ticker_h = ''X'', StockAmount_h = NaN\<rparr>,
        \<lparr>Date_h = 3, Ticker_h = ''X'', StockAmount_h = NaN\<rparr>]
   \<and> \<not> (0 :: fl) < NaN"
  unfolding round_trip_valued by (simp add: eval_ledger)

section \<open>The dictionary as a map\<close>

lemma map_of_overwrite_other:
  "x \<noteq> k \<Longrightarrow>
   map_of (map (\<lambda>(k', v'). if k' = k then (k', v) else (k', v')) d) x = map_of d x"
  by (induction d) auto

lemma map_of_dict_set: "map_of (dict_set d k v) = (map_of d)(k \<mapsto> v)"
proof (rule ext)
  fix x
  show "map_of (dict_set d k v) x = ((map_of d)(k \<mapsto> v)) x"
  proof (cases "k \<in> fst ` set d")
    case True
    show ?thesis
    proof (cases "x = k")
      case True
      with \<open>k \<in> fst ` set d\<close> show ?thesis
        by (simp add: dict_set_def map_of_overwrite)
    next
      case False
      with \<open>k \<in> fst ` set d\<close> show ?thesis
        by (simp add: dict_set_def map_of_overwrite_other)
    qed
  next
    case False
    then have "map_of d k = None" by (simp add: map_of_eq_None_iff)
    then show ?thesis using False
      by (simp add: dict_set_def map_add_def split: option.splits)
  qed
qed

lemma map_of_dict_del: "map_of (dict_del d k) = (map_of d)(k := None)"
  by (induction d) (auto simp: dict_del_def fun_eq_iff)

lemma keys_overwrite:
  "map fst (map (\<lambda>(k', v'). if k' = k then (k', v) else (k', v')) d) = map fst d"
  by (induction d) auto

lemma distinct_dict_set:
  assumes "distinct (map fst d)"
  shows "distinct (map fst (dict_set d k v))"
proof (cases "k \<in> fst ` set d")
  case True
  then have "map fst (dict_set d k v) = map fst d"
    by (simp only: dict_set_def if_True keys_overwrite)
  then show ?thesis using assms by (simp only:)
next
  case False
  then have "map fst (dict_set d k v) = map fst d @ [k]"
    by (simp add: dict_set_def)
  then show ?thesis using assms False by simp
qed

lemma distinct_dict_del: "distinct (map fst d) \<Longrightarrow> distinct (map fst (dict_del d k))"
  by (simp add: dict_del_def distinct_map_filter)

lemma dict_get_accumulate:
  "dict_get (accumulate d (k, s)) k' =
     (if k' = k then clamp (dict_get d k + s) else dict_get d k')"
  by (simp add: dict_get_def map_of_dict_set map_of_dict_del Let_def clamp_def)

lemma distinct_accumulate: "distinct (map fst d) \<Longrightarrow> distinct (map fst (accumulate d p))"
  by (cases p) (simp add: Let_def distinct_dict_set distinct_dict_del)

lemma distinct_foldl_accumulate:
  "distinct (map fst d) \<Longrightarrow> distinct (map fst (foldl accumulate d ps))"
  by (induction ps arbitrary: d) (simp_all add: distinct_accumulate)

lemma dict_get_foldl_accumulate:
  "distinct (map fst ps) \<Longrightarrow>
   dict_get (foldl accumulate d ps) k =
     (case map_of ps k of None \<Rightarrow> dict_get d k | Some s \<Rightarrow> clamp (dict_get d k + s))"
proof (induction ps arbitrary: d)
  case Nil
  then show ?case by simp
next
  case (Cons p ps)
  obtain a s where p: "p = (a, s)" by (cases p)
  from Cons.prems have dist: "distinct (map fst ps)" and notin: "a \<notin> fst ` set ps"
    by (auto simp: p)
  have none: "map_of ps a = None" using notin by (simp add: map_of_eq_None_iff)
  show ?case
  proof (cases "k = a")
    case True
    then show ?thesis using Cons.IH [OF dist] none
      by (simp add: p dict_get_accumulate del: accumulate.simps)
  next
    case False
    then show ?thesis using Cons.IH [OF dist]
      by (simp add: p dict_get_accumulate del: accumulate.simps split: option.splits)
  qed
qed

lemma groupby_ticker_sum_keys: "map fst (groupby_ticker_sum day) = sort (remdups (map Ticker day))"
  by (simp add: groupby_ticker_sum_def comp_def)

lemma groupby_ticker_sum_distinct: "distinct (map fst (groupby_ticker_sum day))"
  by (simp add: groupby_ticker_sum_keys)

lemma map_of_tabulate:
  "map_of (map (\<lambda>k. (k, f k)) ks) k = (if k \<in> set ks then Some (f k) else None)"
  by (induction ks) auto

lemma map_of_groupby_ticker_sum:
  "map_of (groupby_ticker_sum day) k =
     (if k \<in> Ticker ` set day
      then Some (sum_skipna (map StockAmount (filter (\<lambda>t. Ticker t = k) day)))
      else None)"
  by (simp add: groupby_ticker_sum_def map_of_tabulate)

lemma dict_get_clamp: "all_kept d \<Longrightarrow> clamp (dict_get d k) = dict_get d k"
proof (cases "map_of d k")
  case None
  then show ?thesis by (simp add: dict_get_def clamp_zero)
next
  case (Some v)
  assume "all_kept d"
  moreover from Some have "(k, v) \<in> set d" by (rule map_of_SomeD)
  ultimately have "kept v" by (auto simp: all_kept_def list_all_iff)
  with Some show ?thesis by (simp add: dict_get_def clamp_kept)
qed

lemma dict_get_day_update:
  assumes "all_kept d"
  shows "dict_get (day_update d trades col day) k = clamp (dict_get d k + day_sum trades col day k)"
proof -
  let ?day = "filter (\<lambda>t. column col t = day) trades"
  have filt: "filter (\<lambda>t. Ticker t = k) ?day = filter (\<lambda>t. column col t = day \<and> Ticker t = k) trades"
    by (simp add: conj_commute)
  have same: "clamp (dict_get d k) = dict_get d k" using assms by (rule dict_get_clamp)
  show ?thesis
  proof (cases "k \<in> Ticker ` set ?day")
    case True
    have "?day \<noteq> []"
    proof
      assume e: "?day = []"
      from True show False unfolding e by simp
    qed
    then show ?thesis using True
      by (simp add: day_update_def Let_def dict_get_foldl_accumulate groupby_ticker_sum_distinct
          map_of_groupby_ticker_sum filt day_sum_def del: filter_filter)
  next
    case False
    then have "filter (\<lambda>t. Ticker t = k) ?day = []" by (auto simp: filter_empty_conv)
    then have "day_sum trades col day k = 0" unfolding filt by (simp add: day_sum_def sum_skipna_def)
    then show ?thesis using False same
      by (simp add: day_update_def Let_def dict_get_foldl_accumulate groupby_ticker_sum_distinct
          map_of_groupby_ticker_sum del: filter_filter)
  qed
qed

section \<open>The state of the loop and the rows of a day\<close>

lemma distinct_day_update:
  "distinct (map fst d) \<Longrightarrow> distinct (map fst (day_update d trades col day))"
  by (simp add: day_update_def Let_def distinct_foldl_accumulate)

lemma wf_dict_day_update: "wf_dict d \<Longrightarrow> wf_dict (day_update d trades col day)"
  by (simp add: wf_dict_def all_kept_day_update distinct_day_update)

lemma wf_dict_state:
  "wf_dict d \<Longrightarrow> wf_dict (foldl (\<lambda>d day. day_update d trades col day) d dates)"
  by (induction dates arbitrary: d) (simp_all add: wf_dict_day_update)

lemma wf_dict_empty: "wf_dict []"
  by (simp add: wf_dict_def all_kept_def)

lemma wf_dict_holdings_state: "wf_dict (holdings_state trades col dates)"
  unfolding holdings_state_def by (rule wf_dict_state [OF wf_dict_empty])

lemma holdings_state_snoc:
  "holdings_state trades col (dates @ [day]) = day_update (holdings_state trades col dates) trades col day"
  by (simp add: holdings_state_def)

lemma wf_dict_lookup:
  assumes "wf_dict d"
  shows "(k, v) \<in> set d \<longleftrightarrow> (kept v \<and> dict_get d k = v)"
proof
  assume in_d: "(k, v) \<in> set d"
  with assms have "map_of d k = Some v" by (simp add: wf_dict_def)
  moreover from in_d assms have "kept v" by (auto simp: wf_dict_def all_kept_def list_all_iff)
  ultimately show "kept v \<and> dict_get d k = v" by (simp add: dict_get_def)
next
  assume a: "kept v \<and> dict_get d k = v"
  then have "v \<noteq> 0" using not_kept_zero by auto
  with a have "map_of d k = Some v" by (auto simp: dict_get_def split: option.splits)
  then show "(k, v) \<in> set d" by (rule map_of_SomeD)
qed

lemma holdings_loop_append:
  "holdings_loop d (pre @ post) trades col =
     holdings_loop d pre trades col
     @ holdings_loop (foldl (\<lambda>d day. day_update d trades col day) d pre) post trades col"
  by (induction pre arbitrary: d) (simp_all add: Let_def)

lemma holdings_loop_dates:
  "r \<in> set (holdings_loop d dates trades col) \<Longrightarrow> Date_h r \<in> set dates"
proof (induction dates arbitrary: d)
  case Nil
  then show ?case by simp
next
  case (Cons day dates)
  from Cons.prems consider
    (now) "r \<in> snapshot day ` set (day_update d trades col day)"
    | (later) "r \<in> set (holdings_loop (day_update d trades col day) dates trades col)"
    unfolding holdings_loop_rows by blast
  then show ?case
  proof cases
    case now
    then obtain p where "r = snapshot day p" by blast
    then show ?thesis by (simp add: snapshot_def)
  next
    case later
    then show ?thesis using Cons.IH by simp
  qed
qed

lemma holdings_loop_split:
  "holdings_loop [] (pre @ day # post) trades col =
     holdings_loop [] pre trades col
     @ map (snapshot day) (holdings_state trades col (pre @ [day]))
     @ holdings_loop (holdings_state trades col (pre @ [day])) post trades col"
  by (simp add: holdings_loop_append holdings_state_def Let_def)

lemma holdings_loop_rows_of_day:
  assumes dist: "distinct (pre @ day # post)"
    and r: "r \<in> set (holdings_loop [] (pre @ day # post) trades col)"
    and day: "Date_h r = day"
  shows "r \<in> snapshot day ` set (holdings_state trades col (pre @ [day]))"
proof -
  let ?S = "holdings_state trades col (pre @ [day])"
  from r consider
    (a) "r \<in> set (holdings_loop [] pre trades col)"
    | (b) "r \<in> snapshot day ` set ?S"
    | (c) "r \<in> set (holdings_loop ?S post trades col)"
    unfolding holdings_loop_split by auto
  then show ?thesis
  proof cases
    case a
    then have "Date_h r \<in> set pre" by (rule holdings_loop_dates)
    with dist day show ?thesis by simp
  next
    case b
    then show ?thesis .
  next
    case c
    then have "Date_h r \<in> set post" by (rule holdings_loop_dates)
    with dist day show ?thesis by simp
  qed
qed

lemma snapshot_in_holdings_loop:
  assumes "p \<in> set (holdings_state trades col (pre @ [day]))"
  shows "snapshot day p \<in> set (holdings_loop [] (pre @ day # post) trades col)"
  unfolding holdings_loop_split using assms by simp

lemma quantity_after_day:
  "dict_get (holdings_state trades col (pre @ [day])) k
     = clamp (dict_get (holdings_state trades col pre) k + day_sum trades col day k)"
proof -
  have "all_kept (holdings_state trades col pre)"
    using wf_dict_holdings_state [of trades col pre] by (simp add: wf_dict_def)
  then show ?thesis unfolding holdings_state_snoc by (rule dict_get_day_update)
qed

lemma quantity_stays_zero:
  assumes "dict_get (holdings_state trades col pre) k = 0"
    and "\<forall>d \<in> set mid. day_sum trades col d k \<le> 0"
  shows "dict_get (holdings_state trades col (pre @ mid)) k = 0"
  using assms(2)
proof (induction mid rule: rev_induct)
  case Nil
  then show ?case using assms(1) by simp
next
  case (snoc d mid)
  then have "dict_get (holdings_state trades col (pre @ mid)) k = 0" by simp
  moreover have "day_sum trades col d k \<le> 0" using snoc.prems by simp
  ultimately show ?case
    using quantity_after_day [of trades col "pre @ mid" d k] by (simp add: clamp_def)
qed

lemma absent_when_zero:
  assumes dist: "distinct (pre @ day # post)"
    and zero: "dict_get (holdings_state trades col (pre @ [day])) k = 0"
    and r: "r \<in> set (holdings_loop [] (pre @ day # post) trades col)"
    and day: "Date_h r = day"
  shows "Ticker_h r \<noteq> k"
proof
  assume k: "Ticker_h r = k"
  let ?S = "holdings_state trades col (pre @ [day])"
  from holdings_loop_rows_of_day [OF dist r day]
  obtain p where p: "p \<in> set ?S" and rp: "r = snapshot day p" by blast
  from k rp have "(k, snd p) = p" by (cases p) (simp add: snapshot_def)
  with p have "(k, snd p) \<in> set ?S" by simp
  then have "kept (snd p) \<and> dict_get ?S k = snd p"
    using wf_dict_lookup [OF wf_dict_holdings_state] by blast
  with zero show False using not_kept_zero by simp
qed

lemma present_when_kept:
  assumes dist: "distinct (pre @ day # post)"
    and v: "dict_get (holdings_state trades col (pre @ [day])) k = v"
    and pos: "kept v"
  shows "snapshot day (k, v) \<in> set (holdings_loop [] (pre @ day # post) trades col)"
    and "\<forall>r \<in> set (holdings_loop [] (pre @ day # post) trades col).
           Date_h r = day \<and> Ticker_h r = k \<longrightarrow> StockAmount_h r = v"
proof -
  let ?S = "holdings_state trades col (pre @ [day])"
  have look: "\<And>w. (k, w) \<in> set ?S \<longleftrightarrow> (kept w \<and> dict_get ?S k = w)"
    by (rule wf_dict_lookup [OF wf_dict_holdings_state])
  from v pos have "(k, v) \<in> set ?S" by (simp add: look)
  then show "snapshot day (k, v) \<in> set (holdings_loop [] (pre @ day # post) trades col)"
    by (rule snapshot_in_holdings_loop)
  show "\<forall>r \<in> set (holdings_loop [] (pre @ day # post) trades col).
           Date_h r = day \<and> Ticker_h r = k \<longrightarrow> StockAmount_h r = v"
  proof (intro ballI impI)
    fix r
    assume r: "r \<in> set (holdings_loop [] (pre @ day # post) trades col)"
      and dk: "Date_h r = day \<and> Ticker_h r = k"
    from holdings_loop_rows_of_day [OF dist r] dk
    obtain p where p: "p \<in> set ?S" and rp: "r = snapshot day p" by blast
    from dk rp have "(k, snd p) = p" by (cases p) (simp add: snapshot_def)
    with p have "(k, snd p) \<in> set ?S" by simp
    then have "dict_get ?S k = snd p" by (simp add: look)
    with v rp show "StockAmount_h r = v" by (simp add: snapshot_def)
  qed
qed

section \<open>C2: a liquidated ticker stays out of the ledger until it is bought again\<close>

text \<open>
  Claim C2 (amended). The claim speaks of the sum of all of a ticker's transactions up
  to a date; the loop knows only its running quantity: what the dictionary held for
  the ticker after the previous calendar day (zero when absent) plus the net sum of the
  day. Whenever that running quantity is zero or negative on a calendar date \<open>D\<close>, the
  ledger has no row for the ticker on \<open>D\<close>, nor on any following calendar date \<open>mid\<close>
  on which its net day sum is not positive; on the next calendar date \<open>R\<close> with a
  positive net day sum the ticker is back in the ledger, and its quantity is exactly
  that day sum: accumulation restarts from zero. Amounts dropped by an earlier eviction,
  and transactions dated on days that are not in the calendar, are not carried. (The
  comparisons are those of floats: a NaN quantity or day sum is neither zero or
  negative nor positive.)
\<close>

theorem evicted_until_rebuy:
  fixes prov trades cutoff_date col end_date lg
  defines "ledger \<equiv> fst (holdings prov trades cutoff_date col end_date lg)"
  assumes cal: "w_index (prov \<lparr>rq_tickers = [''SPY''], rq_start = cutoff_date, rq_end = end_date\<rparr>)
                 = pre @ D # mid @ rest"
    and dist: "distinct (pre @ D # mid @ rest)"
    and zero: "dict_get (holdings_state trades col pre) k + day_sum trades col D k \<le> 0"
    and quiet: "\<forall>d \<in> set mid. day_sum trades col d k \<le> 0"
  shows "(\<forall>r \<in> set ledger. Ticker_h r = k \<longrightarrow> Date_h r \<notin> set (D # mid))
       \<and> (\<forall>R post. rest = R # post \<and> 0 < day_sum trades col R k \<longrightarrow>
             snapshot R (k, day_sum trades col R k) \<in> set ledger
             \<and> (\<forall>r \<in> set ledger. Date_h r = R \<and> Ticker_h r = k
                   \<longrightarrow> StockAmount_h r = day_sum trades col R k))"
proof -
  have ledger: "ledger = holdings_loop [] (pre @ D # mid @ rest) trades col"
    by (simp add: ledger_def holdings_def yf_download_def Let_def cal)
  have zD: "dict_get (holdings_state trades col (pre @ [D])) k = 0"
    using zero by (simp add: quantity_after_day clamp_def)
  have zmid: "dict_get (holdings_state trades col (pre @ [D] @ ms)) k = 0"
    if "set ms \<subseteq> set mid" for ms
  proof -
    from that quiet have "\<forall>d \<in> set ms. day_sum trades col d k \<le> 0" by blast
    with zD show ?thesis
      using quantity_stays_zero [of trades col "pre @ [D]" k ms] by simp
  qed
  have absent: "\<forall>r \<in> set ledger. Ticker_h r = k \<longrightarrow> Date_h r \<notin> set (D # mid)"
  proof (intro ballI impI notI)
    fix r
    assume r: "r \<in> set ledger" and k: "Ticker_h r = k" and d: "Date_h r \<in> set (D # mid)"
    from split_list [OF d] obtain m1 m2 where split: "D # mid = m1 @ Date_h r # m2"
      by blast
    have cal': "pre @ D # mid @ rest = (pre @ m1) @ Date_h r # (m2 @ rest)"
      using split by (metis append.assoc append_Cons)
    have "dict_get (holdings_state trades col ((pre @ m1) @ [Date_h r])) k = 0"
    proof (cases m1)
      case Nil
      with split have "Date_h r = D" by simp
      with Nil zD show ?thesis by simp
    next
      case (Cons a m1')
      with split have a: "a = D" and mid: "mid = m1' @ Date_h r # m2" by simp_all
      have "set (m1' @ [Date_h r]) \<subseteq> set mid" by (auto simp: mid)
      from zmid [OF this] show ?thesis by (simp add: Cons a)
    qed
    moreover have "distinct ((pre @ m1) @ Date_h r # (m2 @ rest))"
      using dist cal' by simp
    moreover have "r \<in> set (holdings_loop [] ((pre @ m1) @ Date_h r # (m2 @ rest)) trades col)"
      using r ledger cal' by simp
    ultimately have "Ticker_h r \<noteq> k"
      using absent_when_zero [of "pre @ m1" "Date_h r" "m2 @ rest" trades col k r] by blast
    with k show False by simp
  qed
  have rebuy: "snapshot R (k, day_sum trades col R k) \<in> set ledger
             \<and> (\<forall>r \<in> set ledger. Date_h r = R \<and> Ticker_h r = k
                   \<longrightarrow> StockAmount_h r = day_sum trades col R k)"
    if rest: "rest = R # post" and pos: "0 < day_sum trades col R k" for R post
  proof -
    have cal': "pre @ D # mid @ rest = (pre @ D # mid) @ R # post"
      by (simp add: rest)
    have before: "dict_get (holdings_state trades col (pre @ D # mid)) k = 0"
      using zmid [of mid] by simp
    from pos have kept: "kept (day_sum trades col R k)" by (rule positive_kept)
    have "dict_get (holdings_state trades col ((pre @ D # mid) @ [R])) k = day_sum trades col R k"
      using quantity_after_day [of trades col "pre @ D # mid" R k] before kept
      by (simp add: clamp_kept)
    moreover have "distinct ((pre @ D # mid) @ R # post)" using dist cal' by simp
    ultimately show ?thesis
      using present_when_kept [of "pre @ D # mid" R post trades col k "day_sum trades col R k"] kept
      unfolding ledger cal' by blast
  qed
  from absent rebuy show ?thesis by blast
qed

text \<open>A run of the amended claim: X is bought on day 1, sold off on day 2, absent on days
  2 and 3, and back with the 3 shares bought on day 4.\<close>

theorem evicted_until_rebuy_witness:
  "w_index (calendar_provider \<lparr>rq_tickers = [''SPY''], rq_start = 1, rq_end = None\<rparr>)
     = [1] @ 2 # [3] @ [4, 5]
   \<and> dict_get (holdings_state rebuy_trades TransactionDate_col [1]) ''X''
       + day_sum rebuy_trades TransactionDate_col 2 ''X'' = 0
   \<and> day_sum rebuy_trades TransactionDate_col 3 ''X'' = 0
   \<and> day_sum rebuy_trades TransactionDate_col 4 ''X'' = Fin 3
   \<and> list_all (\<lambda>r. Ticker_h r = ''X'' \<longrightarrow> Date_h r \<notin> {2, 3})
       (fst (holdings calendar_provider rebuy_trades 1 TransactionDate_col None []))
   \<and> snapshot 4 (''X'', Fin 3)
       \<in> set (fst (holdings calendar_provider rebuy_trades 1 TransactionDate_col None []))"
proof -
  have cal: "w_index (calendar_provider \<lparr>rq_tickers = [''SPY''], rq_start = 1, rq_end = None\<rparr>)
     = [1] @ 2 # [3] @ [4, 5]"
    by (simp add: calendar_provider_def)
  have dist: "distinct ([1] @ 2 # [3] @ [4, 5 :: nat])" by simp
  have zero: "dict_get (holdings_state rebuy_trades TransactionDate_col [1]) ''X''
       + day_sum rebuy_trades TransactionDate_col 2 ''X'' = 0"
    by (simp add: eval_holdings rebuy_trades_def)
  have d3: "day_sum rebuy_trades TransactionDate_col 3 ''X'' = 0"
    by (simp add: eval_holdings rebuy_trades_def)
  have d4: "day_sum rebuy_trades TransactionDate_col 4 ''X'' = Fin 3"
    by (simp add: eval_holdings rebuy_trades_def)
  have zero': "dict_get (holdings_state rebuy_trades TransactionDate_col [1]) ''X''
       + day_sum rebuy_trades TransactionDate_col 2 ''X'' \<le> 0"
    unfolding zero by (rule fl_zero_le_zero)
  have quiet: "\<forall>d \<in> set [3]. day_sum rebuy_trades TransactionDate_col d ''X'' \<le> 0"
    using d3 by (simp add: fl_zero_le_zero)
  note inst = evicted_until_rebuy
    [where prov = calendar_provider and lg = "[]" and cutoff_date = 1 and end_date = None
       and pre = "[1]" and D = 2 and mid = "[3]" and rest = "[4, 5]"
       and trades = rebuy_trades and col = TransactionDate_col and k = "''X''",
     OF cal dist zero' quiet]
  from inst have absent: "\<forall>r \<in> set (fst (holdings calendar_provider rebuy_trades 1 TransactionDate_col None [])).
      Ticker_h r = ''X'' \<longrightarrow> Date_h r \<notin> set (2 # [3])"
    by (rule conjunct1)
  have pos: "0 < day_sum rebuy_trades TransactionDate_col 4 ''X''"
    unfolding d4 by (simp add: zero_fl_def)
  from inst have "[4, 5] = 4 # [5] \<and> 0 < day_sum rebuy_trades TransactionDate_col 4 ''X'' \<longrightarrow>
      snapshot 4 (''X'', day_sum rebuy_trades TransactionDate_col 4 ''X'')
        \<in> set (fst (holdings calendar_provider rebuy_trades 1 TransactionDate_col None []))"
    by blast
  with pos have present: "snapshot 4 (''X'', Fin 3)
        \<in> set (fst (holdings calendar_provider rebuy_trades 1 TransactionDate_col None []))"
    by (simp add: d4)
  from absent have "list_all (\<lambda>r. Ticker_h r = ''X'' \<longrightarrow> Date_h r \<notin> {2, 3})
       (fst (holdings calendar_provider rebuy_trades 1 TransactionDate_col None []))"
    by (simp add: list_all_iff)
  with cal zero d3 d4 present show ?thesis by blast
qed

text \<open>
  Claim C2 as stated fails. The three trades of X (sell 5, buy 10, sell 5) sum to zero
  net shares by day 3; the sale of day 1 is dropped by the eviction, so the ledger
  still holds 5 shares of X on day 3.
\<close>

theorem zero_net_shares_still_held:
  "net_shares oversold_trades TransactionDate_col ''X'' 3 = 0
   \<and> \<lparr>Date_h = 3, Ticker_h = ''X'', StockAmount_h = Fin 5\<rparr>
       \<in> set (fst (holdings calendar_provider oversold_trades 1 TransactionDate_col None []))"
  by (simp add: eval_holdings oversold_trades_def)

section \<open>Trades without a share quantity\<close>

lemma overwrite_same:
  assumes "distinct (map fst d)"
  shows "map (\<lambda>(k', v'). if k' = k then (k', dict_get d k) else (k', v')) d = d"
proof (rule map_idI)
  fix p
  assume p: "p \<in> set d"
  obtain a b where ab: "p = (a, b)" by (cases p)
  show "(case p of (k', v') \<Rightarrow> if k' = k then (k', dict_get d k) else (k', v')) = p"
  proof (cases "a = k")
    case True
    with p ab assms have "map_of d k = Some b" by simp
    then show ?thesis using True by (simp add: ab dict_get_def)
  next
    case False
    then show ?thesis by (simp add: ab)
  qed
qed

lemma accumulate_zero:
  assumes "wf_dict d"
  shows "accumulate d (k, 0) = d"
proof (cases "k \<in> fst ` set d")
  case True
  from assms have dist: "distinct (map fst d)" by (simp add: wf_dict_def)
  have set: "dict_set d k (dict_get d k + 0) = d"
    using True overwrite_same [OF dist, of k] by (simp add: dict_set_def)
  from True obtain v where "(k, v) \<in> set d" by auto
  then have "kept (dict_get d k)" using wf_dict_lookup [OF assms, of k v] by simp
  then have "\<not> dict_get d k \<le> 0" by (simp add: kept_def)
  then show ?thesis using set by (simp add: Let_def)
next
  case False
  then have none: "map_of d k = None" by (simp add: map_of_eq_None_iff)
  then have get: "dict_get d k = 0" by (simp add: dict_get_def)
  have set: "dict_set d k (dict_get d k + 0) = d @ [(k, 0)]"
    using False by (simp add: dict_set_def get)
  have "dict_get (d @ [(k, 0)]) k = 0"
    by (simp add: dict_get_def map_add_def none)
  moreover have "dict_del (d @ [(k, 0)]) k = d"
  proof -
    have "filter (\<lambda>(k', v'). k' \<noteq> k) d = d"
      using False by (intro filter_True) (auto simp: image_iff)
    then show ?thesis by (simp add: dict_del_def)
  qed
  ultimately show ?thesis unfolding accumulate.simps set by (simp add: Let_def fl_zero_le_zero)
qed

lemma wf_dict_accumulate: "wf_dict d \<Longrightarrow> wf_dict (accumulate d p)"
  by (cases p) (simp add: wf_dict_def all_kept_accumulate distinct_accumulate del: accumulate.simps)

lemma foldl_accumulate_insort:
  assumes "wf_dict d" and "f k = (k, 0)" and "\<forall>x \<in> set ks. f x = g x"
  shows "foldl accumulate d (map f (insort k ks)) = foldl accumulate d (map g ks)"
  using assms(1,3)
proof (induction ks arbitrary: d)
  case Nil
  then show ?case using accumulate_zero [of d k] by (simp add: assms(2) del: accumulate.simps)
next
  case (Cons x ks)
  show ?case
  proof (cases "k \<le> x")
    case True
    have "foldl accumulate d (map f (k # x # ks)) = foldl accumulate d (map f (x # ks))"
      using accumulate_zero [OF Cons.prems(1), of k] by (simp add: assms(2) del: accumulate.simps)
    also have "map f (x # ks) = map g (x # ks)" using Cons.prems(2) by simp
    finally show ?thesis using True by (simp del: accumulate.simps)
  next
    case False
    have fx: "f x = g x" using Cons.prems(2) by simp
    have wf: "wf_dict (accumulate d (g x))" using Cons.prems(1) by (rule wf_dict_accumulate)
    have "\<forall>y \<in> set ks. f y = g y" using Cons.prems(2) by simp
    from Cons.IH [OF wf this] show ?thesis using False by (simp add: fx del: accumulate.simps)
  qed
qed

lemma ticker_sum_drop_nan:
  assumes "StockAmount v = NaN"
  shows "sum_skipna (map StockAmount (filter (\<lambda>t. Ticker t = k) (a @ v # b)))
       = sum_skipna (map StockAmount (filter (\<lambda>t. Ticker t = k) (a @ b)))"
  using assms by (simp add: sum_skipna_def)

lemma groupby_ticker_sum_drop_nan:
  assumes nan: "StockAmount v = NaN" and wf: "wf_dict d"
  shows "foldl accumulate d (groupby_ticker_sum (a @ v # b))
       = foldl accumulate d (groupby_ticker_sum (a @ b))"
proof -
  let ?f = "\<lambda>k. (k, sum_skipna (map StockAmount (filter (\<lambda>t. Ticker t = k) (a @ v # b))))"
  let ?g = "\<lambda>k. (k, sum_skipna (map StockAmount (filter (\<lambda>t. Ticker t = k) (a @ b))))"
  let ?ks = "sort (remdups (map Ticker (a @ b)))"
  have fg: "?f = ?g" using ticker_sum_drop_nan [OF nan] by (intro ext) simp
  show ?thesis
  proof (cases "Ticker v \<in> Ticker ` set (a @ b)")
    case True
    then have "set (map Ticker (a @ v # b)) = set (map Ticker (a @ b))" by auto
    then have "sorted_list_of_set (set (map Ticker (a @ v # b)))
             = sorted_list_of_set (set (map Ticker (a @ b)))" by (simp only:)
    then have "sort (remdups (map Ticker (a @ v # b))) = ?ks"
      by (simp only: sorted_list_of_set_sort_remdups)
    then show ?thesis unfolding groupby_ticker_sum_def fg by (simp only:)
  next
    case False
    have "set (map Ticker (a @ v # b)) = insert (Ticker v) (set (map Ticker (a @ b)))" by auto
    then have "sorted_list_of_set (set (map Ticker (a @ v # b)))
             = insort (Ticker v) (sorted_list_of_set (set (map Ticker (a @ b))))"
      using False by (simp only: sorted_list_of_set_insert [OF finite_set] set_map) simp
    then have keys: "sort (remdups (map Ticker (a @ v # b))) = insort (Ticker v) ?ks"
      by (simp only: sorted_list_of_set_sort_remdups)
    have "\<forall>t \<in> set (a @ b). Ticker t \<noteq> Ticker v"
      using False by (metis imageI)
    then have "filter (\<lambda>t. Ticker t = Ticker v) (a @ b) = []"
      by (simp only: filter_empty_conv)
    then have zero: "?g (Ticker v) = (Ticker v, 0)" by (simp add: sum_skipna_def)
    have "foldl accumulate d (map ?g (insort (Ticker v) ?ks)) = foldl accumulate d (map ?g ?ks)"
      using foldl_accumulate_insort [where f = ?g and g = ?g and k = "Ticker v" and ks = ?ks, OF wf zero]
      by simp
    then show ?thesis unfolding groupby_ticker_sum_def fg keys .
  qed
qed

lemma day_update_drop_nan:
  assumes nan: "StockAmount v = NaN" and wf: "wf_dict d"
  shows "day_update d (xs @ v # ys) col day = day_update d (xs @ ys) col day"
proof (cases "column col v = day")
  case False
  then show ?thesis by (simp add: day_update_def)
next
  case True
  let ?a = "filter (\<lambda>t. column col t = day) xs"
  let ?b = "filter (\<lambda>t. column col t = day) ys"
  have with_v: "filter (\<lambda>t. column col t = day) (xs @ v # ys) = ?a @ v # ?b"
    using True by simp
  have without: "filter (\<lambda>t. column col t = day) (xs @ ys) = ?a @ ?b" by simp
  have fold: "foldl accumulate d (groupby_ticker_sum (?a @ v # ?b))
       = foldl accumulate d (groupby_ticker_sum (?a @ ?b))"
    using nan wf by (rule groupby_ticker_sum_drop_nan)
  show ?thesis
  proof (cases "?a @ ?b = []")
    case True
    then have "groupby_ticker_sum (?a @ ?b) = []" by (simp add: groupby_ticker_sum_def)
    with fold True show ?thesis
      unfolding day_update_def with_v without by (simp add: Let_def)
  next
    case False
    with fold show ?thesis
      unfolding day_update_def with_v without by (simp add: Let_def)
  qed
qed

lemma holdings_loop_drop_nan:
  assumes nan: "StockAmount v = NaN"
  shows "wf_dict d \<Longrightarrow>
    holdings_loop d dates (xs @ v # ys) col = holdings_loop d dates (xs @ ys) col"
proof (induction dates arbitrary: d)
  case Nil
  then show ?case by simp
next
  case (Cons day dates)
  have upd: "day_update d (xs @ v # ys) col day = day_update d (xs @ ys) col day"
    using nan Cons.prems by (rule day_update_drop_nan)
  have "wf_dict (day_update d (xs @ ys) col day)"
    using Cons.prems by (rule wf_dict_day_update)
  from Cons.IH [OF this] show ?case by (simp add: upd Let_def)
qed

lemma day_update_zero_for_nan:
  assumes nan: "StockAmount v = NaN"
  shows "day_update d (xs @ v\<lparr>StockAmount := 0\<rparr> # ys) col day
       = day_update d (xs @ v # ys) col day"
proof -
  have col: "column col (v\<lparr>StockAmount := 0\<rparr>) = column col v"
    by (cases col) simp_all
  have "groupby_ticker_sum (filter (\<lambda>t. column col t = day) (xs @ v\<lparr>StockAmount := 0\<rparr> # ys))
      = groupby_ticker_sum (filter (\<lambda>t. column col t = day) (xs @ v # ys))"
    using nan by (simp add: groupby_ticker_sum_def col sum_skipna_def)
  then show ?thesis by (simp add: day_update_def col Let_def)
qed

lemma holdings_loop_zero_for_nan:
  assumes nan: "StockAmount v = NaN"
  shows "holdings_loop d dates (xs @ v\<lparr>StockAmount := 0\<rparr> # ys) col
       = holdings_loop d dates (xs @ v # ys) col"
  by (induction dates arbitrary: d) (simp_all add: day_update_zero_for_nan [OF nan] Let_def)

section \<open>The results of the aggregation and of the run\<close>

lemma calculate_portfolio_roi_fst:
  "fst (calculate_portfolio_roi prov trades cutoff_date stock_data col lg)
     = (let holding = holdings_loop []
              (w_index (prov \<lparr>rq_tickers = [''SPY''], rq_start = cutoff_date, rq_end = None\<rparr>))
              trades col
        in if holding = [] then Inl KeyError
           else Inr (roi_rows (merge_prices holding stock_data)))"
  by (simp add: calculate_portfolio_roi_def holdings_def yf_download_def Let_def)

lemma calculate_portfolio_roi_any_log:
  "fst (calculate_portfolio_roi prov trades cutoff_date stock_data col lg)
     = fst (calculate_portfolio_roi prov trades cutoff_date stock_data col lg')"
  by (simp only: calculate_portfolio_roi_fst)

lemma calculate_portfolio_roi_log:
  "snd (calculate_portfolio_roi prov trades cutoff_date stock_data col lg)
     = lg @ [\<lparr>rq_tickers = [''SPY''], rq_start = cutoff_date, rq_end = None\<rparr>]"
  by (simp add: calculate_portfolio_roi_def holdings_def yf_download_def Let_def)

lemma create_portfolio_roi_fst:
  "fst (create_portfolio_roi prov trades stock_data cutoff_date end_date lg)
     = (case fst (calculate_portfolio_roi prov trades cutoff_date stock_data
                    TransactionDate_col lg) of
          Inl e \<Rightarrow> Inl e
        | Inr politician_holdings \<Rightarrow>
            (case fst (calculate_portfolio_roi prov trades cutoff_date stock_data
                         ReportDate_col lg) of
               Inl e \<Rightarrow> Inl e
             | Inr copytraded_holdings \<Rightarrow>
                 Inr (assemble
                   (prov \<lparr>rq_tickers = [''SPY''], rq_start = cutoff_date, rq_end = end_date\<rparr>)
                   politician_holdings copytraded_holdings)))"
proof -
  obtain r1 lg1 where c1: "calculate_portfolio_roi prov trades cutoff_date stock_data
      TransactionDate_col lg = (r1, lg1)" by (cases "calculate_portfolio_roi prov trades cutoff_date stock_data
      TransactionDate_col lg")
  obtain r2 lg2 where c2: "calculate_portfolio_roi prov trades cutoff_date stock_data
      ReportDate_col lg1 = (r2, lg2)" by (cases "calculate_portfolio_roi prov trades cutoff_date stock_data
      ReportDate_col lg1")
  have r2: "fst (calculate_portfolio_roi prov trades cutoff_date stock_data ReportDate_col lg) = r2"
    using calculate_portfolio_roi_any_log [of prov trades cutoff_date stock_data ReportDate_col lg lg1]
    by (simp add: c2)
  show ?thesis
    unfolding r2 by (simp add: create_portfolio_roi_def c1 c2 yf_download_def split: sum.splits)
qed

lemma create_portfolio_roi_ledgers:
  fixes prov trades stock_data cutoff_date end_date lg
  defines "actual \<equiv> fst (holdings prov trades cutoff_date TransactionDate_col None lg)"
    and "copy \<equiv> fst (holdings prov trades cutoff_date ReportDate_col None lg)"
  shows "fst (create_portfolio_roi prov trades stock_data cutoff_date end_date lg)
     = (if actual = [] \<or> copy = [] then Inl KeyError
        else Inr (assemble
               (prov \<lparr>rq_tickers = [''SPY''], rq_start = cutoff_date, rq_end = end_date\<rparr>)
               (roi_rows (merge_prices actual stock_data))
               (roi_rows (merge_prices copy stock_data))))"
  by (simp add: create_portfolio_roi_fst calculate_portfolio_roi_fst actual_def copy_def
      holdings_ledger Let_def)

lemma calculate_returns_of_trades:
  assumes "choose_politician (clean_transactions df cutoff_date renamed_stocks) politician
             = first # others"
  shows "calculate_returns prov politician df cutoff_date lg
     = create_portfolio_roi prov
        (add_stock_amount_column (first # others)
           (price_table (prov \<lparr>rq_tickers = unique (map Ticker (first # others)) @ [''SPY''],
                                rq_start = TransactionDate first, rq_end = None\<rparr>)))
        (price_table (prov \<lparr>rq_tickers = unique (map Ticker (first # others)) @ [''SPY''],
                             rq_start = TransactionDate first, rq_end = None\<rparr>))
        (TransactionDate first) None
        (lg @ [\<lparr>rq_tickers = unique (map Ticker (first # others)) @ [''SPY''],
                 rq_start = TransactionDate first, rq_end = None\<rparr>])"
  by (simp add: calculate_returns_def assms download_stock_data_def yf_download_def Let_def)

lemma calculate_returns_example:
  assumes "politician_trades_of df = first # others" and "TransactionDate first = 1"
  shows "calculate_returns prov ''P'' df 0 lg
     = create_portfolio_roi prov (valued_of prov df) (stock_data_of prov df) 1 None
        (lg @ [\<lparr>rq_tickers = unique (map Ticker (politician_trades_of df)) @ [''SPY''],
                 rq_start = 1, rq_end = None\<rparr>])"
proof -
  from assms(1) have "choose_politician (clean_transactions df 0 renamed_stocks) ''P''
      = first # others"
    by (simp add: politician_trades_of_def)
  from calculate_returns_of_trades [OF this] show ?thesis
    unfolding valued_of_def stock_data_of_table assms by simp
qed

section \<open>C3: a trade without a price observation\<close>

lemma add_stock_amount_column_append:
  "add_stock_amount_column (xs @ ys) stock_data
     = add_stock_amount_column xs stock_data @ add_stock_amount_column ys stock_data"
  by (simp add: add_stock_amount_column_def)

lemma add_stock_amount_column_unmatched:
  assumes "\<forall>p \<in> set stock_data. \<not> (Date_p p = TransactionDate t \<and> Ticker_p p = Ticker t)"
  shows "add_stock_amount_column (t # ys) stock_data
     = valued t NaN # add_stock_amount_column ys stock_data"
proof -
  have "filter (\<lambda>p. Date_p p = TransactionDate t \<and> Ticker_p p = Ticker t) stock_data = []"
    using assms by (simp only: filter_empty_conv)
  then show ?thesis by (simp add: add_stock_amount_column_def)
qed

lemma valued_NaN: "StockAmount (valued t NaN) = NaN"
  by (cases "Amount t") (simp_all add: valued_def)

lemma holdings_cong:
  assumes "\<And>dates. holdings_loop [] dates trades col = holdings_loop [] dates trades' col"
  shows "holdings prov trades cutoff_date col end_date lg
       = holdings prov trades' cutoff_date col end_date lg"
  by (simp add: holdings_def Let_def assms split: prod.splits)

lemma create_portfolio_roi_cong:
  assumes "\<And>dates col. holdings_loop [] dates trades col = holdings_loop [] dates trades' col"
  shows "create_portfolio_roi prov trades stock_data cutoff_date end_date lg
       = create_portfolio_roi prov trades' stock_data cutoff_date end_date lg"
proof -
  have eq: "calculate_portfolio_roi prov trades cutoff_date stock_data col lg'
      = calculate_portfolio_roi prov trades' cutoff_date stock_data col lg'" for col lg'
    by (simp add: calculate_portfolio_roi_def holdings_cong [OF assms])
  show ?thesis unfolding create_portfolio_roi_def eq ..
qed

text \<open>
  Claim C3 (amended). A transaction whose (execution date, ticker) matches no price
  observation raises nothing: the left merge keeps its row, with NaN for the close and
  hence NaN for the share quantity, and the NaN-skipping day sums count it as zero
  shares. The ledgers (under either date key) and the result of the run are those
  obtained without the transaction, and those obtained with the transaction valued at
  zero shares. The run returns its comparison table whenever each of the two ledgers
  built from the other transactions has at least one row; it ends in the
  \<^verbatim>\<open>KeyError\<close> of line 171 when one of them is empty.
\<close>

theorem missing_price_contributes_nothing:
  fixes t :: transaction and xs ys :: "transaction list" and stock_data :: "price_row list"
    and prov :: provider and cutoff_date :: date and lg :: "request list"
  defines "with_t \<equiv> add_stock_amount_column (xs @ t # ys) stock_data"
    and "without_t \<equiv> add_stock_amount_column (xs @ ys) stock_data"
    and "zeroed \<equiv> add_stock_amount_column xs stock_data
                     @ (valued t NaN)\<lparr>StockAmount := 0\<rparr>
                     # add_stock_amount_column ys stock_data"
  defines "actual \<equiv> fst (holdings prov without_t cutoff_date TransactionDate_col None lg)"
    and "copy \<equiv> fst (holdings prov without_t cutoff_date ReportDate_col None lg)"
  assumes unmatched:
    "\<forall>p \<in> set stock_data. \<not> (Date_p p = TransactionDate t \<and> Ticker_p p = Ticker t)"
  shows "with_t = add_stock_amount_column xs stock_data @ valued t NaN
                  # add_stock_amount_column ys stock_data
       \<and> StockAmount (valued t NaN) = NaN
       \<and> holdings prov with_t cutoff_date col end_date lg
           = holdings prov without_t cutoff_date col end_date lg
       \<and> holdings prov with_t cutoff_date col end_date lg
           = holdings prov zeroed cutoff_date col end_date lg
       \<and> create_portfolio_roi prov with_t stock_data cutoff_date end_date lg
           = create_portfolio_roi prov without_t stock_data cutoff_date end_date lg
       \<and> create_portfolio_roi prov with_t stock_data cutoff_date end_date lg
           = create_portfolio_roi prov zeroed stock_data cutoff_date end_date lg
       \<and> (actual \<noteq> [] \<and> copy \<noteq> [] \<longrightarrow>
            fst (create_portfolio_roi prov with_t stock_data cutoff_date end_date lg)
              = Inr (assemble
                  (prov \<lparr>rq_tickers = [''SPY''], rq_start = cutoff_date, rq_end = end_date\<rparr>)
                  (roi_rows (merge_prices actual stock_data))
                  (roi_rows (merge_prices copy stock_data))))
       \<and> (actual = [] \<or> copy = [] \<longrightarrow>
            fst (create_portfolio_roi prov with_t stock_data cutoff_date end_date lg)
              = Inl KeyError)"
proof -
  let ?xs = "add_stock_amount_column xs stock_data"
  let ?ys = "add_stock_amount_column ys stock_data"
  have nan: "StockAmount (valued t NaN) = NaN" by (rule valued_NaN)
  have with_t: "with_t = ?xs @ valued t NaN # ?ys"
    by (simp add: with_t_def add_stock_amount_column_append
        add_stock_amount_column_unmatched [OF unmatched])
  have without_t: "without_t = ?xs @ ?ys"
    by (simp add: without_t_def add_stock_amount_column_append)
  have a: "holdings_loop [] dates with_t col' = holdings_loop [] dates without_t col'" for dates col'
    unfolding with_t without_t by (rule holdings_loop_drop_nan [OF nan wf_dict_empty])
  have b: "holdings_loop [] dates with_t col' = holdings_loop [] dates zeroed col'" for dates col'
    unfolding with_t zeroed_def by (rule holdings_loop_zero_for_nan [OF nan, symmetric])
  have same: "create_portfolio_roi prov with_t stock_data cutoff_date end_date lg
           = create_portfolio_roi prov without_t stock_data cutoff_date end_date lg"
    by (rule create_portfolio_roi_cong [of with_t without_t, OF a])
  have run: "fst (create_portfolio_roi prov with_t stock_data cutoff_date end_date lg)
     = (if actual = [] \<or> copy = [] then Inl KeyError
        else Inr (assemble
               (prov \<lparr>rq_tickers = [''SPY''], rq_start = cutoff_date, rq_end = end_date\<rparr>)
               (roi_rows (merge_prices actual stock_data))
               (roi_rows (merge_prices copy stock_data))))"
    unfolding same actual_def copy_def by (rule create_portfolio_roi_ledgers)
  have returns: "actual \<noteq> [] \<and> copy \<noteq> [] \<longrightarrow>
            fst (create_portfolio_roi prov with_t stock_data cutoff_date end_date lg)
              = Inr (assemble
                  (prov \<lparr>rq_tickers = [''SPY''], rq_start = cutoff_date, rq_end = end_date\<rparr>)
                  (roi_rows (merge_prices actual stock_data))
                  (roi_rows (merge_prices copy stock_data)))"
    by (simp add: run)
  have aborts: "actual = [] \<or> copy = [] \<longrightarrow>
            fst (create_portfolio_roi prov with_t stock_data cutoff_date end_date lg)
              = Inl KeyError"
    by (auto simp: run)
  show ?thesis
    using with_t nan holdings_cong [of with_t col without_t, OF a]
      holdings_cong [of with_t col zeroed, OF b] same
      create_portfolio_roi_cong [of with_t zeroed, OF b] returns aborts
    by blast
qed

text \<open>A run: a purchase of Y on day 2, for which there is no price, next to a purchase
  of 1000 dollars of X at 50 on day 1. The run returns the table of the purchase of X
  alone.\<close>

lemma example_prices_valued:
  "add_stock_amount_column [raw_trade ''X'' ''Purchase'' 1000 1 2] example_prices
     = [valued (raw_trade ''X'' ''Purchase'' 1000 1 2) (Fin 50)]"
  by (simp add: add_stock_amount_column_def example_prices_def raw_trade_def)

lemma example_prices_ledgers:
  "fst (holdings calendar_provider [valued (raw_trade ''X'' ''Purchase'' 1000 1 2) (Fin 50)] 1
          TransactionDate_col None lg)
     = map (\<lambda>d. \<lparr>Date_h = d, Ticker_h = ''X'', StockAmount_h = Fin 20\<rparr>) [1, 2, 3, 4, 5]"
  "fst (holdings calendar_provider [valued (raw_trade ''X'' ''Purchase'' 1000 1 2) (Fin 50)] 1
          ReportDate_col None lg)
     = map (\<lambda>d. \<lparr>Date_h = d, Ticker_h = ''X'', StockAmount_h = Fin 20\<rparr>) [2, 3, 4, 5]"
  by (simp_all add: eval_holdings valued_def raw_trade_def)

lemmas eval_table = merge_prices_def roi_rows_def roi_row_of_def stock_value_def total_value_def
  weight_def assemble_def groupby_date_sum_def merge_left_def cumprod_def fillna_def
  sum_skipna_def calendar_provider_def Let_def eval_float

theorem missing_price_contributes_nothing_witness:
  "list_all (\<lambda>p. \<not> (Date_p p = TransactionDate (raw_trade ''Y'' ''Purchase'' 500 2 3)
                      \<and> Ticker_p p = Ticker (raw_trade ''Y'' ''Purchase'' 500 2 3))) example_prices
   \<and> map StockAmount (add_stock_amount_column
        ([raw_trade ''X'' ''Purchase'' 1000 1 2] @ raw_trade ''Y'' ''Purchase'' 500 2 3 # [])
        example_prices) = [Fin 20, NaN]
   \<and> fst (holdings calendar_provider
        (add_stock_amount_column ([raw_trade ''X'' ''Purchase'' 1000 1 2] @ []) example_prices)
        1 TransactionDate_col None []) \<noteq> []
   \<and> fst (holdings calendar_provider
        (add_stock_amount_column ([raw_trade ''X'' ''Purchase'' 1000 1 2] @ []) example_prices)
        1 ReportDate_col None []) \<noteq> []
   \<and> map (\<lambda>r. (Date_f r, ROI_f r, CumulativeROI r))
        (projr (fst (create_portfolio_roi calendar_provider
           (add_stock_amount_column
              ([raw_trade ''X'' ''Purchase'' 1000 1 2] @ raw_trade ''Y'' ''Purchase'' 500 2 3 # [])
              example_prices) example_prices 1 None [])))
       = [(1, Fin 1, Fin 1), (2, Fin (11 / 10), Fin (11 / 10)), (3, Fin 1, Fin (11 / 10)),
          (4, Fin 1, Fin (11 / 10)), (5, Fin 1, Fin (11 / 10))]
   \<and> create_portfolio_roi calendar_provider
        (add_stock_amount_column
           ([raw_trade ''X'' ''Purchase'' 1000 1 2] @ raw_trade ''Y'' ''Purchase'' 500 2 3 # [])
           example_prices) example_prices 1 None []
     = create_portfolio_roi calendar_provider
        (add_stock_amount_column ([raw_trade ''X'' ''Purchase'' 1000 1 2] @ [])
           example_prices) example_prices 1 None []"
proof -
  let ?t = "raw_trade ''Y'' ''Purchase'' 500 2 3"
  let ?xs = "[raw_trade ''X'' ''Purchase'' 1000 1 2]"
  let ?rest = "add_stock_amount_column (?xs @ []) example_prices"
  let ?all = "add_stock_amount_column (?xs @ ?t # []) example_prices"
  have un: "\<forall>p \<in> set example_prices.
      \<not> (Date_p p = TransactionDate ?t \<and> Ticker_p p = Ticker ?t)"
    by (simp add: example_prices_def raw_trade_def)
  note inst = missing_price_contributes_nothing
    [where t = ?t and xs = ?xs and ys = "[]" and stock_data = example_prices
       and prov = calendar_provider and cutoff_date = 1 and end_date = None and lg = "[]"
       and col = TransactionDate_col, OF un]
  have rest: "?rest = [valued (raw_trade ''X'' ''Purchase'' 1000 1 2) (Fin 50)]"
    by (simp only: append_Nil2 example_prices_valued)
  have actual: "fst (holdings calendar_provider ?rest 1 TransactionDate_col None []) \<noteq> []"
    unfolding rest example_prices_ledgers by simp
  have copy: "fst (holdings calendar_provider ?rest 1 ReportDate_col None []) \<noteq> []"
    unfolding rest example_prices_ledgers by simp
  from inst have all: "?all = add_stock_amount_column ?xs example_prices @ valued ?t NaN
      # add_stock_amount_column [] example_prices"
    by (rule conjunct1)
  have amounts: "map StockAmount ?all = [Fin 20, NaN]"
    unfolding all example_prices_valued
    by (simp add: add_stock_amount_column_def valued_def raw_trade_def)
  from inst have eq: "create_portfolio_roi calendar_provider ?all example_prices 1 None []
     = create_portfolio_roi calendar_provider ?rest example_prices 1 None []"
    by blast
  from inst actual copy
  have "fst (create_portfolio_roi calendar_provider ?all example_prices 1 None [])
     = Inr (assemble (calendar_provider \<lparr>rq_tickers = [''SPY''], rq_start = 1, rq_end = None\<rparr>)
         (roi_rows (merge_prices
            (fst (holdings calendar_provider ?rest 1 TransactionDate_col None [])) example_prices))
         (roi_rows (merge_prices
            (fst (holdings calendar_provider ?rest 1 ReportDate_col None [])) example_prices)))"
    by blast
  then have run: "map (\<lambda>r. (Date_f r, ROI_f r, CumulativeROI r))
        (projr (fst (create_portfolio_roi calendar_provider ?all example_prices 1 None [])))
       = [(1, Fin 1, Fin 1), (2, Fin (11 / 10), Fin (11 / 10)), (3, Fin 1, Fin (11 / 10)),
          (4, Fin 1, Fin (11 / 10)), (5, Fin 1, Fin (11 / 10))]"
    unfolding rest example_prices_ledgers
    by (simp add: eval_table example_prices_def)
  from un have "list_all (\<lambda>p. \<not> (Date_p p = TransactionDate ?t \<and> Ticker_p p = Ticker ?t))
      example_prices"
    by (simp add: list_all_iff)
  then show ?thesis using amounts actual copy run eq by blast
qed

text \<open>
  Claim C3 as stated fails: a run can abort where a price is missing. In the file below
  the only transaction of P is a purchase of Z, which has no price observation. The
  transaction is valued at NaN shares, both ledgers are empty, and the run ends in the
  \<^verbatim>\<open>KeyError\<close> of line 171 instead of returning a table.
\<close>

theorem unpriced_only_run_aborts:
  "politician_trades_of unpriced_df = [raw_trade ''Z'' ''Purchase'' 500 1 2]
   \<and> list_all (\<lambda>p. \<not> (Date_p p = 1 \<and> Ticker_p p = ''Z''))
        (stock_data_of (market_provider 50 55 66) unpriced_df)
   \<and> map StockAmount (valued_of (market_provider 50 55 66) unpriced_df) = [NaN]
   \<and> fst (holdings (market_provider 50 55 66) (valued_of (market_provider 50 55 66) unpriced_df)
            1 TransactionDate_col None []) = []
   \<and> fst (calculate_returns (market_provider 50 55 66) ''P'' unpriced_df 0 []) = Inl KeyError"
proof -
  have trades: "politician_trades_of unpriced_df = [raw_trade ''Z'' ''Purchase'' 500 1 2]"
    by (rule unpriced_politician_trades)
  have prices: "list_all (\<lambda>p. \<not> (Date_p p = 1 \<and> Ticker_p p = ''Z''))
        (stock_data_of (market_provider 50 55 66) unpriced_df)"
    unfolding unpriced_stock_data by simp
  have amounts: "map StockAmount (valued_of (market_provider 50 55 66) unpriced_df) = [NaN]"
    unfolding unpriced_valued by (simp add: valued_def raw_trade_def)
  have ledger: "fst (holdings (market_provider 50 55 66)
      (valued_of (market_provider 50 55 66) unpriced_df) 1 col None lg) = []" for col lg
    unfolding unpriced_valued by (cases col) (simp_all add: eval_ledger)
  have "TransactionDate (raw_trade ''Z'' ''Purchase'' 500 1 2) = 1"
    by (simp add: raw_trade_def)
  from calculate_returns_example [OF trades this]
  have "fst (calculate_returns (market_provider 50 55 66) ''P'' unpriced_df 0 []) = Inl KeyError"
    by (simp only: create_portfolio_roi_ledgers ledger) simp
  with trades prices amounts ledger show ?thesis by blast
qed

section \<open>C4: the weights of a day\<close>

lemma roi_rows_of_day:
  "filter (\<lambda>r. Date_h r = d) (roi_rows merged)
     = map (roi_row_of merged) (filter (\<lambda>hp. Date_h (fst hp) = d) merged)"
  by (simp add: roi_rows_def filter_map comp_def roi_row_of_def Let_def)

lemma roi_row_of_fields:
  "Date_h (roi_row_of merged hp) = Date_h (fst hp)"
  "Ticker_h (roi_row_of merged hp) = Ticker_h (fst hp)"
  "StockAmount_h (roi_row_of merged hp) = StockAmount_h (fst hp)"
  "StockValue (roi_row_of merged hp) = stock_value hp"
  "TotalValue (roi_row_of merged hp) = total_value merged (Date_h (fst hp))"
  "DailyROI_r (roi_row_of merged hp) = DailyROI_p (snd hp)"
  "Close_r (roi_row_of merged hp) = Close_p (snd hp)"
  "ROI (roi_row_of merged hp)
     = weight (stock_value hp) (total_value merged (Date_h (fst hp))) * DailyROI_p (snd hp)"
  by (simp_all add: roi_row_of_def Let_def)

lemma sum_list_finite_parts:
  "sum_list xs = Fin T \<Longrightarrow> \<forall>x \<in> set xs. finite_fl x"
proof (induction xs arbitrary: T)
  case Nil
  then show ?case by simp
next
  case (Cons x xs)
  from Cons.prems have "x + sum_list xs = Fin T" by simp
  from plus_eq_Fin [OF this] obtain a b where "x = Fin a" and "sum_list xs = Fin b" by blast
  with Cons.IH show ?case by simp
qed

lemma sum_list_divide_Fin:
  "sum_list xs = Fin T \<Longrightarrow> c \<noteq> 0 \<Longrightarrow> sum_list (map (\<lambda>x. x / Fin c) xs) = Fin (T / c)"
proof (induction xs arbitrary: T)
  case Nil
  then show ?case by (simp add: zero_fl_def)
next
  case (Cons x xs)
  from Cons.prems have "x + sum_list xs = Fin T" by simp
  from plus_eq_Fin [OF this] obtain a b
    where x: "x = Fin a" and rest: "sum_list xs = Fin b" and T: "T = a + b" by blast
  from Cons.IH [OF rest Cons.prems(2)] show ?case
    using Cons.prems(2) by (simp add: x T add_divide_distrib)
qed

lemma filter_divide_NaN:
  "c \<noteq> 0 \<Longrightarrow> filter (\<lambda>x. x \<noteq> NaN) (map (\<lambda>x. x / Fin c) xs)
     = map (\<lambda>x. x / Fin c) (filter (\<lambda>x. x \<noteq> NaN) xs)"
  by (induction xs) (simp_all add: divide_eq_NaN)

lemma sum_skipna_divide:
  "sum_skipna xs = Fin T \<Longrightarrow> c \<noteq> 0 \<Longrightarrow> sum_skipna (map (\<lambda>x. x / Fin c) xs) = Fin (T / c)"
  unfolding sum_skipna_def by (simp add: filter_divide_NaN sum_list_divide_Fin)

lemma sum_skipna_finite_parts:
  "sum_skipna xs = Fin T \<Longrightarrow> x \<in> set xs \<Longrightarrow> x = NaN \<or> finite_fl x"
  unfolding sum_skipna_def using sum_list_finite_parts [of "filter (\<lambda>x. x \<noteq> NaN) xs" T] by auto

lemma sum_skipna_skipped:
  "\<forall>x \<in> set xs. \<not> P x \<longrightarrow> f x = NaN \<Longrightarrow>
     sum_skipna (map f (filter P xs)) = sum_skipna (map f xs)"
  by (induction xs) (simp_all add: sum_skipna_def)

lemma weights_of_day:
  assumes T: "total_value merged d = Fin T" and nz: "T \<noteq> 0"
  defines "day_rows \<equiv> filter (\<lambda>r. Date_h r = d) (roi_rows merged)"
  shows "\<forall>r \<in> set day_rows. TotalValue r = Fin T"
    and "\<forall>r \<in> set day_rows.
           ROI r = weight (StockValue r) (TotalValue r) * DailyROI_r r"
    and "\<forall>r \<in> set day_rows.
           StockValue r = NaN \<and> weight (StockValue r) (TotalValue r) = NaN
           \<or> (\<exists>s. StockValue r = Fin s \<and> weight (StockValue r) (TotalValue r) = Fin (s / T))"
    and "sum_skipna (map (\<lambda>r. weight (StockValue r) (TotalValue r)) day_rows) = 1"
proof -
  let ?day = "filter (\<lambda>hp. Date_h (fst hp) = d) merged"
  have rows: "day_rows = map (roi_row_of merged) ?day"
    by (simp add: day_rows_def roi_rows_of_day)
  show tv: "\<forall>r \<in> set day_rows. TotalValue r = Fin T"
    by (auto simp: rows roi_row_of_fields T)
  show "\<forall>r \<in> set day_rows. ROI r = weight (StockValue r) (TotalValue r) * DailyROI_r r"
    by (auto simp: rows roi_row_of_fields)
  have total: "sum_skipna (map stock_value ?day) = Fin T"
    using T by (simp add: total_value_def)
  show "\<forall>r \<in> set day_rows.
           StockValue r = NaN \<and> weight (StockValue r) (TotalValue r) = NaN
           \<or> (\<exists>s. StockValue r = Fin s \<and> weight (StockValue r) (TotalValue r) = Fin (s / T))"
  proof
    fix r
    assume r: "r \<in> set day_rows"
    then obtain hp where hp: "hp \<in> set ?day" and r_eq: "r = roi_row_of merged hp"
      by (auto simp: rows)
    from hp have "stock_value hp \<in> set (map stock_value ?day)" by simp
    from sum_skipna_finite_parts [OF total this]
    have "StockValue r = NaN \<or> finite_fl (StockValue r)"
      by (simp add: r_eq roi_row_of_fields)
    moreover have "TotalValue r = Fin T" using tv r by blast
    ultimately show "StockValue r = NaN \<and> weight (StockValue r) (TotalValue r) = NaN
           \<or> (\<exists>s. StockValue r = Fin s \<and> weight (StockValue r) (TotalValue r) = Fin (s / T))"
      using nz by (auto simp: weight_def finite_fl_iff)
  qed
  have "map (\<lambda>r. weight (StockValue r) (TotalValue r)) day_rows
      = map (\<lambda>x. x / Fin T) (map stock_value ?day)"
    using T by (simp add: rows roi_row_of_fields comp_def weight_def)
  then have "sum_skipna (map (\<lambda>r. weight (StockValue r) (TotalValue r)) day_rows) = Fin (T / T)"
    using sum_skipna_divide [OF total nz] by (simp only:)
  then show "sum_skipna (map (\<lambda>r. weight (StockValue r) (TotalValue r)) day_rows) = 1"
    using nz by (simp add: one_fl_def)
qed

lemma merge_prices_members:
  "hp \<in> set (merge_prices holding stock_data) \<Longrightarrow>
     fst hp \<in> set holding \<and> snd hp \<in> set stock_data"
  by (auto simp: merge_prices_def)

lemma calculate_portfolio_roi_rows:
  assumes "fst (calculate_portfolio_roi prov trades cutoff_date stock_data col lg) = Inr rows"
  shows "rows = roi_rows (merge_prices
           (fst (holdings prov trades cutoff_date col None lg)) stock_data)"
  using assms
  by (simp add: calculate_portfolio_roi_def Let_def split: prod.splits if_splits)

lemma holdings_kept:
  "h \<in> set (fst (holdings prov trades cutoff_date col end_date lg)) \<Longrightarrow> kept (StockAmount_h h)"
proof -
  assume "h \<in> set (fst (holdings prov trades cutoff_date col end_date lg))"
  then have "h \<in> set (holdings_loop []
      (w_index (prov \<lparr>rq_tickers = [''SPY''], rq_start = cutoff_date, rq_end = end_date\<rparr>))
      trades col)"
    by (simp add: holdings_ledger)
  moreover have "all_kept []" by (simp add: all_kept_def)
  ultimately show "kept (StockAmount_h h)" by (rule holdings_loop_kept [rotated])
qed

lemma kept_value_nonneg:
  "kept q \<Longrightarrow> 0 \<le> c \<Longrightarrow> q * c = Fin s \<Longrightarrow> 0 \<le> s"
  by (cases q; cases c) (auto simp: kept_def zero_fl_def zero_le_mult_iff split: if_splits)

text \<open>
  Claim C4 (amended). In the table of \<^verbatim>\<open>calculate_portfolio_roi\<close>, for every date whose
  total portfolio value is a finite number strictly greater than 0, a row of the date
  whose value is a number has a finite weight \<^verbatim>\<open>StockValue / TotalValue\<close>, a row whose
  value is NaN has the weight NaN, and the weights of the date sum to 1 under the
  NaN-skipping sum of the script; the date's portfolio return (the sum of its \<^verbatim>\<open>ROI\<close>
  column) is the sum of weight times return factor over the rows with a number for a
  value, and the weights are not negative when no close is. (Exact in real arithmetic.)
  Nothing of this holds of a date whose total value is infinite.
\<close>

theorem weights_sum_to_one:
  fixes rows :: "roi_row list" and d :: date
  defines "day_rows \<equiv> filter (\<lambda>r. Date_h r = d) rows"
  assumes run: "fst (calculate_portfolio_roi prov trades cutoff_date stock_data col lg) = Inr rows"
    and r0: "r0 \<in> set day_rows" and total: "TotalValue r0 = Fin T" and pos: "0 < T"
  shows "(\<forall>r \<in> set day_rows.
            TotalValue r = Fin T
            \<and> ROI r = weight (StockValue r) (TotalValue r) * DailyROI_r r
            \<and> (StockValue r = NaN \<and> weight (StockValue r) (TotalValue r) = NaN
               \<or> (\<exists>s. StockValue r = Fin s
                      \<and> weight (StockValue r) (TotalValue r) = Fin (s / T))))
       \<and> sum_skipna (map (\<lambda>r. weight (StockValue r) (TotalValue r)) day_rows) = 1
       \<and> sum_skipna (map ROI day_rows)
           = sum_skipna (map (\<lambda>r. weight (StockValue r) (TotalValue r) * DailyROI_r r)
               (filter (\<lambda>r. StockValue r \<noteq> NaN) day_rows))
       \<and> ((\<forall>p \<in> set stock_data. 0 \<le> Close_p p) \<longrightarrow>
            (\<forall>r \<in> set day_rows. StockValue r \<noteq> NaN
               \<longrightarrow> 0 \<le> weight (StockValue r) (TotalValue r)))"
proof -
  let ?ledger = "fst (holdings prov trades cutoff_date col None lg)"
  let ?merged = "merge_prices ?ledger stock_data"
  let ?w = "\<lambda>r. weight (StockValue r) (TotalValue r)"
  have rows: "rows = roi_rows ?merged" using run by (rule calculate_portfolio_roi_rows)
  have day_rows: "day_rows = filter (\<lambda>r. Date_h r = d) (roi_rows ?merged)"
    by (simp add: day_rows_def rows)
  have T: "total_value ?merged d = Fin T"
  proof -
    have "TotalValue r0 = total_value ?merged d"
      using r0 unfolding day_rows by (auto simp: roi_rows_def roi_row_of_fields)
    with total show ?thesis by simp
  qed
  from pos have nz: "T \<noteq> 0" by simp
  note w = weights_of_day [OF T nz, folded day_rows]
  have nan_roi: "\<forall>r \<in> set day_rows. \<not> StockValue r \<noteq> NaN \<longrightarrow> ?w r * DailyROI_r r = NaN"
    using w(3) by auto
  have "sum_skipna (map ROI day_rows) = sum_skipna (map (\<lambda>r. ?w r * DailyROI_r r) day_rows)"
  proof -
    have "map ROI day_rows = map (\<lambda>r. ?w r * DailyROI_r r) day_rows" using w(2) by simp
    then show ?thesis by (simp only:)
  qed
  also have "\<dots> = sum_skipna (map (\<lambda>r. ?w r * DailyROI_r r)
      (filter (\<lambda>r. StockValue r \<noteq> NaN) day_rows))"
    using sum_skipna_skipped [OF nan_roi] by (simp only:)
  finally have sum: "sum_skipna (map ROI day_rows)
      = sum_skipna (map (\<lambda>r. ?w r * DailyROI_r r)
          (filter (\<lambda>r. StockValue r \<noteq> NaN) day_rows))" .
  have nonneg: "0 \<le> ?w r"
    if closes: "\<forall>p \<in> set stock_data. 0 \<le> Close_p p" and r: "r \<in> set day_rows"
      and num: "StockValue r \<noteq> NaN" for r
  proof -
    from r obtain hp where hp: "hp \<in> set ?merged" and r_eq: "r = roi_row_of ?merged hp"
      unfolding day_rows by (auto simp: roi_rows_def)
    from merge_prices_members [OF hp]
    have q: "kept (StockAmount_h (fst hp))" and c: "0 \<le> Close_p (snd hp)"
      using holdings_kept closes by blast+
    from w(3) r num obtain s where s: "StockValue r = Fin s" and ws: "?w r = Fin (s / T)"
      by blast
    from s have "StockAmount_h (fst hp) * Close_p (snd hp) = Fin s"
      by (simp add: r_eq roi_row_of_fields stock_value_def)
    from kept_value_nonneg [OF q c this] pos show ?thesis
      by (simp add: ws zero_fl_def)
  qed
  from w(1) w(2) w(3) w(4) sum nonneg show ?thesis by blast
qed

lemma calculate_portfolio_roi_ledger:
  "fst (calculate_portfolio_roi prov trades cutoff_date stock_data col lg)
     = (if fst (holdings prov trades cutoff_date col None lg) = [] then Inl KeyError
        else Inr (roi_rows (merge_prices
               (fst (holdings prov trades cutoff_date col None lg)) stock_data)))"
  by (simp add: calculate_portfolio_roi_fst holdings_ledger Let_def)

text \<open>A run: 20 shares of X and 20 shares of Y, held from day 1 on; on day 2 they are
  worth 1100 and 660.\<close>

lemma two_trades_ledger:
  "fst (holdings calendar_provider two_trades 1 col None lg)
     = concat (map (\<lambda>d. [\<lparr>Date_h = d, Ticker_h = ''X'', StockAmount_h = Fin 20\<rparr>,
                           \<lparr>Date_h = d, Ticker_h = ''Y'', StockAmount_h = Fin 20\<rparr>])
         [1, 2, 3, 4, 5])"
  by (cases col) (simp_all add: eval_holdings two_trades_def)

lemma two_trades_rows:
  "fst (calculate_portfolio_roi calendar_provider two_trades 1 two_prices col lg)
     = Inr [\<lparr>Date_h = 1, Ticker_h = ''X'', StockAmount_h = Fin 20, Close_r = Fin 50,
              DailyROI_r = Fin 1, StockValue = Fin 1000, TotalValue = Fin 1600,
              ROI = Fin (5 / 8)\<rparr>,
            \<lparr>Date_h = 1, Ticker_h = ''Y'', StockAmount_h = Fin 20, Close_r = Fin 30,
              DailyROI_r = Fin 1, StockValue = Fin 600, TotalValue = Fin 1600,
              ROI = Fin (3 / 8)\<rparr>,
            \<lparr>Date_h = 2, Ticker_h = ''X'', StockAmount_h = Fin 20, Close_r = Fin 55,
              DailyROI_r = Fin (11 / 10), StockValue = Fin 1100, TotalValue = Fin 1760,
              ROI = Fin (11 / 16)\<rparr>,
            \<lparr>Date_h = 2, Ticker_h = ''Y'', StockAmount_h = Fin 20, Close_r = Fin 33,
              DailyROI_r = Fin (11 / 10), StockValue = Fin 660, TotalValue = Fin 1760,
              ROI = Fin (33 / 80)\<rparr>]"
  unfolding calculate_portfolio_roi_ledger two_trades_ledger
  by (simp add: eval_table two_prices_def)

theorem weights_sum_to_one_witness:
  "map (\<lambda>r. (Ticker_h r, StockValue r, TotalValue r, weight (StockValue r) (TotalValue r)))
      (filter (\<lambda>r. Date_h r = 2)
         (projr (fst (calculate_portfolio_roi calendar_provider two_trades 1 two_prices
                        TransactionDate_col []))))
     = [(''X'', Fin 1100, Fin 1760, Fin (5 / 8)), (''Y'', Fin 660, Fin 1760, Fin (3 / 8))]
   \<and> sum_skipna (map (\<lambda>r. weight (StockValue r) (TotalValue r))
        (filter (\<lambda>r. Date_h r = 2)
           (projr (fst (calculate_portfolio_roi calendar_provider two_trades 1 two_prices
                          TransactionDate_col []))))) = 1
   \<and> sum_skipna (map ROI
        (filter (\<lambda>r. Date_h r = 2)
           (projr (fst (calculate_portfolio_roi calendar_provider two_trades 1 two_prices
                          TransactionDate_col []))))) = Fin (11 / 10)"
proof -
  define rows where "rows = projr (fst (calculate_portfolio_roi calendar_provider two_trades 1
      two_prices TransactionDate_col []))"
  define r0 where "r0 = \<lparr>Date_h = 2, Ticker_h = ''X'', StockAmount_h = Fin 20, Close_r = Fin 55,
      DailyROI_r = Fin (11 / 10), StockValue = Fin 1100, TotalValue = Fin 1760,
      ROI = Fin (11 / 16)\<rparr>"
  have run: "fst (calculate_portfolio_roi calendar_provider two_trades 1 two_prices
      TransactionDate_col []) = Inr rows"
    unfolding rows_def two_trades_rows by simp
  have day: "filter (\<lambda>r. Date_h r = 2) rows
     = [r0, \<lparr>Date_h = 2, Ticker_h = ''Y'', StockAmount_h = Fin 20, Close_r = Fin 33,
              DailyROI_r = Fin (11 / 10), StockValue = Fin 660, TotalValue = Fin 1760,
              ROI = Fin (33 / 80)\<rparr>]"
    unfolding rows_def two_trades_rows r0_def by simp
  have r0: "r0 \<in> set (filter (\<lambda>r. Date_h r = 2) rows)"
    unfolding day by simp
  have total: "TotalValue r0 = Fin 1760" by (simp add: r0_def)
  have pos: "(0 :: real) < 1760" by simp
  note inst = weights_sum_to_one [OF run r0 total pos]
  from inst have one: "sum_skipna (map (\<lambda>r. weight (StockValue r) (TotalValue r))
      (filter (\<lambda>r. Date_h r = 2) rows)) = 1"
    by blast
  have a: "map (\<lambda>r. (Ticker_h r, StockValue r, TotalValue r, weight (StockValue r) (TotalValue r)))
      (filter (\<lambda>r. Date_h r = 2) rows)
     = [(''X'', Fin 1100, Fin 1760, Fin (5 / 8)), (''Y'', Fin 660, Fin 1760, Fin (3 / 8))]"
    unfolding day r0_def by (simp add: weight_def)
  have b: "sum_skipna (map ROI (filter (\<lambda>r. Date_h r = 2) rows)) = Fin (11 / 10)"
    unfolding day r0_def by (simp add: sum_skipna_def zero_fl_def)
  from a one b show ?thesis unfolding rows_def by blast
qed

text \<open>
  Claim C4 as stated fails. X closes at 0.00 on days 1 and 2 and at 55 on day 3; P buys
  1000 dollars of X and 600 dollars of Y on day 1. The purchase of X is valued at
  infinitely many shares, so on day 3 the total value is infinite, which is strictly
  greater than 0: the weight of X is \<open>inf / inf\<close>, NaN, the weight of Y is
  \<open>660 / inf\<close>, 0, and the weights of the day do not sum to 1.
\<close>

lemma two_buys_ledger:
  "fst (holdings (market_provider 0 0 55) (valued_of (market_provider 0 0 55) two_buys_df)
          1 TransactionDate_col None lg)
     = concat (map (\<lambda>d. [\<lparr>Date_h = d, Ticker_h = ''X'', StockAmount_h = PInf\<rparr>,
                           \<lparr>Date_h = d, Ticker_h = ''Y'', StockAmount_h = Fin 20\<rparr>])
         [1, 2, 3])"
  unfolding two_buys_valued by (simp add: eval_ledger)

theorem infinite_total_weights:
  "map (\<lambda>r. (Ticker_h r, StockAmount_h r, StockValue r, TotalValue r,
             weight (StockValue r) (TotalValue r)))
      (filter (\<lambda>r. Date_h r = 3)
         (projr (fst (calculate_portfolio_roi (market_provider 0 0 55)
                        (valued_of (market_provider 0 0 55) two_buys_df) 1
                        (stock_data_of (market_provider 0 0 55) two_buys_df)
                        TransactionDate_col []))))
     = [(''X'', PInf, PInf, PInf, NaN), (''Y'', Fin 20, Fin 660, PInf, Fin 0)]
   \<and> (0 :: fl) < PInf
   \<and> sum_skipna [NaN, Fin 0] = Fin 0
   \<and> sum_list [NaN, Fin 0] = NaN
   \<and> sum_skipna (map (\<lambda>r. weight (StockValue r) (TotalValue r))
        (filter (\<lambda>r. Date_h r = 3)
           (projr (fst (calculate_portfolio_roi (market_provider 0 0 55)
                          (valued_of (market_provider 0 0 55) two_buys_df) 1
                          (stock_data_of (market_provider 0 0 55) two_buys_df)
                          TransactionDate_col []))))) \<noteq> 1"
  unfolding calculate_portfolio_roi_ledger two_buys_ledger two_buys_stock_data
  by (simp add: eval_table)

section \<open>The comparison table row by row\<close>

lemma length_cumprod_from: "length (cumprod_from acc xs) = length xs"
  by (induction xs arbitrary: acc) simp_all

lemma length_cumprod: "length (cumprod xs) = length xs"
  by (simp add: cumprod_def length_cumprod_from)

lemma length_pct_change: "length (pct_change prev cs) = length cs"
  by (induction cs arbitrary: prev) simp_all

lemma cumprod_from_0: "xs \<noteq> [] \<Longrightarrow> xs ! 0 \<noteq> NaN \<Longrightarrow> cumprod_from acc xs ! 0 = acc * xs ! 0"
  by (cases xs) simp_all

lemma cumprod_from_Suc:
  "NaN \<notin> set xs \<Longrightarrow> Suc t < length xs \<Longrightarrow>
     cumprod_from acc xs ! Suc t = cumprod_from acc xs ! t * xs ! Suc t"
proof (induction xs arbitrary: acc t)
  case Nil
  then show ?case by simp
next
  case (Cons x xs)
  from Cons.prems(1) have x: "x \<noteq> NaN" and xs: "NaN \<notin> set xs" by auto
  show ?case
  proof (cases t)
    case 0
    with Cons.prems x xs show ?thesis by (cases xs) auto
  next
    case (Suc t')
    with Cons.prems have "Suc t' < length xs" by simp
    from Cons.IH [OF xs this] show ?thesis using x by (simp add: Suc)
  qed
qed

lemma cumprod_0: "xs \<noteq> [] \<Longrightarrow> xs ! 0 \<noteq> NaN \<Longrightarrow> cumprod xs ! 0 = xs ! 0"
  by (simp add: cumprod_def cumprod_from_0 fl_mult_1_left)

lemma cumprod_Suc:
  "NaN \<notin> set xs \<Longrightarrow> Suc t < length xs \<Longrightarrow> cumprod xs ! Suc t = cumprod xs ! t * xs ! Suc t"
  by (simp add: cumprod_def cumprod_from_Suc)

lemma filter_key_distinct:
  "distinct (map fst right) \<Longrightarrow>
     filter (\<lambda>(d', v). d' = d) right = (case map_of right d of None \<Rightarrow> [] | Some v \<Rightarrow> [(d, v)])"
proof (induction right)
  case Nil
  then show ?case by simp
next
  case (Cons p right)
  obtain a b where p: "p = (a, b)" by (cases p)
  from Cons.prems have dist: "distinct (map fst right)" and notin: "a \<notin> fst ` set right"
    by (simp_all add: p)
  show ?case
  proof (cases "a = d")
    case True
    with notin have "map_of right d = None" by (simp add: map_of_eq_None_iff)
    with Cons.IH [OF dist] True show ?thesis by (simp add: p)
  next
    case False
    with Cons.IH [OF dist] show ?thesis by (simp add: p)
  qed
qed

lemma merge_left_distinct:
  assumes "distinct (map fst right)"
  shows "merge_left left right
     = map (\<lambda>(d, a). (d, a, case map_of right d of None \<Rightarrow> NaN | Some v \<Rightarrow> v)) left"
proof -
  have "(case filter (\<lambda>(d', v). d' = d) right of
          [] \<Rightarrow> [(d, a, NaN)]
        | ms \<Rightarrow> map (\<lambda>(d', v). (d, a, v)) ms)
      = [(d, a, case map_of right d of None \<Rightarrow> NaN | Some v \<Rightarrow> v)]" for d and a :: 'a
    by (simp add: filter_key_distinct [OF assms] split: option.splits)
  then have "(\<lambda>(d, a). case filter (\<lambda>(d', v). d' = d) right of
          [] \<Rightarrow> [(d, a, NaN)]
        | ms \<Rightarrow> map (\<lambda>(d', v). (d, a, v)) ms)
      = (\<lambda>(d, a :: 'a). [(d, a, case map_of right d of None \<Rightarrow> NaN | Some v \<Rightarrow> v)])"
    by (intro ext) (simp add: split_def)
  then show ?thesis
    unfolding merge_left_def by (simp add: split_def del: filter.simps)
qed

lemma groupby_date_sum_distinct: "distinct (map fst (groupby_date_sum rows))"
  by (simp add: groupby_date_sum_def comp_def)

lemma map_of_groupby_date_sum:
  "map_of (groupby_date_sum rows) d =
     (if d \<in> Date_h ` set rows
      then Some (sum_skipna (map ROI (filter (\<lambda>r. Date_h r = d) rows)))
      else None)"
  by (simp add: groupby_date_sum_def map_of_tabulate)

lemma merge_left_series:
  "merge_left left (groupby_date_sum rows) = map (\<lambda>(d, a). (d, a, merged_cell rows d)) left"
  by (simp add: merge_left_distinct [OF groupby_date_sum_distinct] merged_cell_def)

lemma assemble_length: "length (assemble spy ph ch) = length (w_index spy)"
  by (simp add: assemble_def Let_def merge_left_series length_cumprod length_pct_change)

lemma assemble_nth:
  assumes t: "t < length (w_index spy)"
  shows "Date_f (assemble spy ph ch ! t) = w_index spy ! t"
    and "ROI_f (assemble spy ph ch ! t) = filled ph (w_index spy ! t)"
    and "CopyTradeROI (assemble spy ph ch ! t) = filled ch (w_index spy ! t)"
    and "CumulativeROI (assemble spy ph ch ! t)
           = cumprod (map (filled ph) (w_index spy)) ! t"
    and "CopyCumulativeROI (assemble spy ph ch ! t)
           = cumprod (map (filled ch) (w_index spy)) ! t"
proof -
  let ?dates = "w_index spy"
  let ?spy = "cumprod (map (\<lambda>x. fillna 0 x + 1)
                 (pct_change NaN (map (\<lambda>d. w_close spy d ''SPY'') ?dates)))"
  let ?final = "map (\<lambda>(d, x). (d, x, merged_cell ch d))
                 (map (\<lambda>(d, a). (d, a, merged_cell ph d)) (zip ?dates ?spy))"
  have len: "length ?spy = length ?dates" by (simp add: length_cumprod length_pct_change)
  have roi: "map (\<lambda>(d, (spy, roi), copy). fillna 1 roi) ?final = map (filled ph) ?dates"
    using len by (intro nth_equalityI) (simp_all add: filled_def)
  have copy: "map (\<lambda>(d, (spy, roi), copy). fillna 1 copy) ?final = map (filled ch) ?dates"
    using len by (intro nth_equalityI) (simp_all add: filled_def)
  have a: "assemble spy ph ch =
     map (\<lambda>((((d, (spy, r), c), copy_r), copy_c), roi_r, cum_r).
               \<lparr>Date_f = d, SPYCumROI = spy, ROI_f = roi_r, CopyTradeROI = copy_r,
                CopyCumulativeROI = copy_c, CumulativeROI = cum_r\<rparr>)
       (zip (zip (zip ?final (map (filled ch) ?dates)) (cumprod (map (filled ch) ?dates)))
            (zip (map (filled ph) ?dates) (cumprod (map (filled ph) ?dates))))"
    unfolding assemble_def Let_def merge_left_series roi copy ..
  show "Date_f (assemble spy ph ch ! t) = w_index spy ! t"
    and "ROI_f (assemble spy ph ch ! t) = filled ph (w_index spy ! t)"
    and "CopyTradeROI (assemble spy ph ch ! t) = filled ch (w_index spy ! t)"
    and "CumulativeROI (assemble spy ph ch ! t)
           = cumprod (map (filled ph) (w_index spy)) ! t"
    and "CopyCumulativeROI (assemble spy ph ch ! t)
           = cumprod (map (filled ch) (w_index spy)) ! t"
    unfolding a using t len by (simp_all add: length_cumprod)
qed

lemma create_portfolio_roi_Inr:
  assumes "fst (create_portfolio_roi prov trades stock_data cutoff_date end_date lg) = Inr final"
  obtains ph ch where
    "fst (calculate_portfolio_roi prov trades cutoff_date stock_data TransactionDate_col lg) = Inr ph"
    "fst (calculate_portfolio_roi prov trades cutoff_date stock_data ReportDate_col lg) = Inr ch"
    "final = assemble (prov \<lparr>rq_tickers = [''SPY''], rq_start = cutoff_date, rq_end = end_date\<rparr>) ph ch"
  using assms unfolding create_portfolio_roi_fst by (auto split: sum.splits)

lemma table_dates:
  assumes "fst (create_portfolio_roi prov trades stock_data cutoff_date end_date lg) = Inr final"
  shows "map Date_f final
           = w_index (prov \<lparr>rq_tickers = [''SPY''], rq_start = cutoff_date, rq_end = end_date\<rparr>)"
proof -
  from assms obtain ph ch where
    fin: "final = assemble (prov \<lparr>rq_tickers = [''SPY''], rq_start = cutoff_date, rq_end = end_date\<rparr>) ph ch"
    by (rule create_portfolio_roi_Inr)
  show ?thesis unfolding fin
    by (intro nth_equalityI) (simp_all add: assemble_length assemble_nth)
qed

section \<open>The run and its requests\<close>

lemma first_transaction_date:
  assumes "choose_politician (clean_transactions df cutoff_date renamed) politician = first # others"
  shows "TransactionDate first
       = Min (TransactionDate ` set (choose_politician (clean_transactions df cutoff_date renamed) politician))"
proof -
  let ?trades = "choose_politician (clean_transactions df cutoff_date renamed) politician"
  have "sorted (map TransactionDate (clean_transactions df cutoff_date renamed))"
    unfolding clean_transactions_def by (rule sorted_sort_key)
  then have "sorted (map TransactionDate ?trades)"
    unfolding choose_politician_def by (rule sorted_filter)
  then have le: "\<forall>t \<in> set others. TransactionDate first \<le> TransactionDate t"
    by (simp add: assms)
  have "Min (TransactionDate ` set (first # others)) = TransactionDate first"
    by (rule Min_eqI) (use le in auto)
  then show ?thesis by (simp add: assms)
qed

lemma calculate_returns_Inr:
  assumes "calculate_returns prov politician df cutoff_date lg = (Inr final, lg')"
  obtains first others where
    "choose_politician (clean_transactions df cutoff_date renamed_stocks) politician = first # others"
    "create_portfolio_roi prov
        (add_stock_amount_column (first # others)
           (price_table (prov \<lparr>rq_tickers = unique (map Ticker (first # others)) @ [''SPY''],
                                rq_start = TransactionDate first, rq_end = None\<rparr>)))
        (price_table (prov \<lparr>rq_tickers = unique (map Ticker (first # others)) @ [''SPY''],
                             rq_start = TransactionDate first, rq_end = None\<rparr>))
        (TransactionDate first) None
        (lg @ [\<lparr>rq_tickers = unique (map Ticker (first # others)) @ [''SPY''],
                 rq_start = TransactionDate first, rq_end = None\<rparr>])
      = (Inr final, lg')"
proof (cases "choose_politician (clean_transactions df cutoff_date renamed_stocks) politician")
  case Nil
  with assms show ?thesis by (simp add: calculate_returns_def)
next
  case (Cons first others)
  with assms that show ?thesis
    by (simp only: calculate_returns_of_trades [OF Cons])
qed

lemma create_portfolio_roi_log:
  assumes "create_portfolio_roi prov trades stock_data cutoff_date end_date lg = (Inr final, lg')"
  shows "lg' = lg @ [\<lparr>rq_tickers = [''SPY''], rq_start = cutoff_date, rq_end = None\<rparr>,
                     \<lparr>rq_tickers = [''SPY''], rq_start = cutoff_date, rq_end = None\<rparr>,
                     \<lparr>rq_tickers = [''SPY''], rq_start = cutoff_date, rq_end = end_date\<rparr>]"
proof -
  obtain r1 lg1 where c1: "calculate_portfolio_roi prov trades cutoff_date stock_data
      TransactionDate_col lg = (r1, lg1)" by (cases "calculate_portfolio_roi prov trades cutoff_date stock_data
      TransactionDate_col lg")
  obtain r2 lg2 where c2: "calculate_portfolio_roi prov trades cutoff_date stock_data
      ReportDate_col lg1 = (r2, lg2)" by (cases "calculate_portfolio_roi prov trades cutoff_date stock_data
      ReportDate_col lg1")
  have lg1: "lg1 = lg @ [\<lparr>rq_tickers = [''SPY''], rq_start = cutoff_date, rq_end = None\<rparr>]"
    using calculate_portfolio_roi_log [of prov trades cutoff_date stock_data TransactionDate_col lg]
    by (simp add: c1)
  have lg2: "lg2 = lg1 @ [\<lparr>rq_tickers = [''SPY''], rq_start = cutoff_date, rq_end = None\<rparr>]"
    using calculate_portfolio_roi_log [of prov trades cutoff_date stock_data ReportDate_col lg1]
    by (simp add: c2)
  from assms obtain ph where r1: "r1 = Inr ph"
    by (cases r1) (simp_all add: create_portfolio_roi_def c1)
  from assms obtain ch where r2: "r2 = Inr ch"
    by (cases r2) (simp_all add: create_portfolio_roi_def c1 c2 r1)
  from assms have "lg' = lg2 @ [\<lparr>rq_tickers = [''SPY''], rq_start = cutoff_date, rq_end = end_date\<rparr>]"
    by (simp add: create_portfolio_roi_def c1 c2 r1 r2 yf_download_def)
  then show ?thesis by (simp add: lg1 lg2)
qed

text \<open>The example run: P holds the 20 shares of X bought on day 1 (disclosed on day 2);
  the sale of META has no price. The run returns its table.\<close>

lemma example_ledgers:
  "fst (holdings (market_provider x1 x2 x3)
          [valued (raw_trade ''X'' ''Purchase'' 1000 1 2) (Fin 50),
           valued (raw_trade ''META'' ''Sale (Full)'' (- 300) 2 3) NaN]
          1 TransactionDate_col None lg)
     = map (\<lambda>d. \<lparr>Date_h = d, Ticker_h = ''X'', StockAmount_h = Fin 20\<rparr>) [1, 2, 3]"
  "fst (holdings (market_provider x1 x2 x3)
          [valued (raw_trade ''X'' ''Purchase'' 1000 1 2) (Fin 50),
           valued (raw_trade ''META'' ''Sale (Full)'' (- 300) 2 3) NaN]
          1 ReportDate_col None lg)
     = map (\<lambda>d. \<lparr>Date_h = d, Ticker_h = ''X'', StockAmount_h = Fin 20\<rparr>) [2, 3]"
  by (simp_all add: eval_ledger)

lemma example_first_date:
  "TransactionDate (raw_trade ''X'' ''Purchase'' 1000 1 2) = 1"
  by (simp add: raw_trade_def)

lemma example_run:
  "calculate_returns prov ''P'' example_df 0 []
     = create_portfolio_roi prov (valued_of prov example_df) (stock_data_of prov example_df)
         1 None [\<lparr>rq_tickers = [''X'', ''META'', ''SPY''], rq_start = 1, rq_end = None\<rparr>]"
proof -
  have "unique (map Ticker (politician_trades_of example_df)) @ [''SPY'']
      = [''X'', ''META'', ''SPY'']"
    unfolding example_politician_trades by (simp add: unique_def raw_trade_def)
  with calculate_returns_example [OF example_politician_trades example_first_date, of prov "[]"]
  show ?thesis by (simp only: append_Nil)
qed

lemma example_run_returns:
  "fst (calculate_returns (market_provider 50 55 66) ''P'' example_df 0 [])
     = Inr (projr (fst (calculate_returns (market_provider 50 55 66) ''P'' example_df 0 [])))"
  unfolding example_run create_portfolio_roi_ledgers example_valued example_ledgers by simp

lemma example_run_pair:
  "calculate_returns (market_provider 50 55 66) ''P'' example_df 0 []
     = (Inr (projr (fst (calculate_returns (market_provider 50 55 66) ''P'' example_df 0 []))),
        snd (calculate_returns (market_provider 50 55 66) ''P'' example_df 0 []))"
  using example_run_returns by (metis prod.collapse)

lemma example_requests:
  "snd (calculate_returns (market_provider 50 55 66) ''P'' example_df 0 [])
     = [\<lparr>rq_tickers = [''X'', ''META'', ''SPY''], rq_start = 1, rq_end = None\<rparr>,
        \<lparr>rq_tickers = [''SPY''], rq_start = 1, rq_end = None\<rparr>,
        \<lparr>rq_tickers = [''SPY''], rq_start = 1, rq_end = None\<rparr>,
        \<lparr>rq_tickers = [''SPY''], rq_start = 1, rq_end = None\<rparr>]"
proof -
  from example_run_pair have "create_portfolio_roi (market_provider 50 55 66)
         (valued_of (market_provider 50 55 66) example_df)
         (stock_data_of (market_provider 50 55 66) example_df) 1 None
         [\<lparr>rq_tickers = [''X'', ''META'', ''SPY''], rq_start = 1, rq_end = None\<rparr>]
     = (Inr (projr (fst (calculate_returns (market_provider 50 55 66) ''P'' example_df 0 []))),
        snd (calculate_returns (market_provider 50 55 66) ''P'' example_df 0 []))"
    by (simp only: example_run)
  from create_portfolio_roi_log [OF this] show ?thesis by simp
qed

lemma example_dates:
  "map Date_f (projr (fst (calculate_returns (market_provider 50 55 66) ''P'' example_df 0 [])))
     = [1, 2, 3]"
proof -
  have "fst (create_portfolio_roi (market_provider 50 55 66)
         (valued_of (market_provider 50 55 66) example_df)
         (stock_data_of (market_provider 50 55 66) example_df) 1 None
         [\<lparr>rq_tickers = [''X'', ''META'', ''SPY''], rq_start = 1, rq_end = None\<rparr>])
     = Inr (projr (fst (calculate_returns (market_provider 50 55 66) ''P'' example_df 0 [])))"
    using example_run_returns by (simp only: example_run)
  from table_dates [OF this] show ?thesis by (simp add: market_calendar)
qed

section \<open>C7: one row per day of the benchmark calendar\<close>

text \<open>
  Claim C7. The comparison table has exactly one row per trading day of the calendar
  that the provider returns for the benchmark request of line 193, in the calendar's
  order: its date column is that calendar, whatever the two ledgers hold (several
  tickers on one date are summed per date before the merge). In a run the request
  starts at the first transaction date of the politician, the least execution date of
  the cleaned trades. A date is repeated only if the provider's calendar repeats it.
\<close>

theorem calendar_complete:
  "(fst (create_portfolio_roi prov trades stock_data start end_date lg) = Inr final \<longrightarrow>
      map Date_f final
        = w_index (prov \<lparr>rq_tickers = [''SPY''], rq_start = start, rq_end = end_date\<rparr>))
   \<and> (fst (calculate_returns prov politician df cutoff_date lg) = Inr final' \<longrightarrow>
      choose_politician (clean_transactions df cutoff_date renamed_stocks) politician \<noteq> []
      \<and> map Date_f final'
          = w_index (prov \<lparr>rq_tickers = [''SPY''],
               rq_start = Min (TransactionDate ` set
                 (choose_politician (clean_transactions df cutoff_date renamed_stocks) politician)),
               rq_end = None\<rparr>))"
proof (intro conjI impI)
  assume "fst (create_portfolio_roi prov trades stock_data start end_date lg) = Inr final"
  then show "map Date_f final
        = w_index (prov \<lparr>rq_tickers = [''SPY''], rq_start = start, rq_end = end_date\<rparr>)"
    by (rule table_dates)
next
  assume run: "fst (calculate_returns prov politician df cutoff_date lg) = Inr final'"
  then have "calculate_returns prov politician df cutoff_date lg
      = (Inr final', snd (calculate_returns prov politician df cutoff_date lg))"
    by (metis prod.collapse)
  then obtain first others where
    trades: "choose_politician (clean_transactions df cutoff_date renamed_stocks) politician
               = first # others"
    and table: "create_portfolio_roi prov
        (add_stock_amount_column (first # others)
           (price_table (prov \<lparr>rq_tickers = unique (map Ticker (first # others)) @ [''SPY''],
                                rq_start = TransactionDate first, rq_end = None\<rparr>)))
        (price_table (prov \<lparr>rq_tickers = unique (map Ticker (first # others)) @ [''SPY''],
                             rq_start = TransactionDate first, rq_end = None\<rparr>))
        (TransactionDate first) None
        (lg @ [\<lparr>rq_tickers = unique (map Ticker (first # others)) @ [''SPY''],
                 rq_start = TransactionDate first, rq_end = None\<rparr>])
      = (Inr final', snd (calculate_returns prov politician df cutoff_date lg))"
    by (rule calculate_returns_Inr)
  show "choose_politician (clean_transactions df cutoff_date renamed_stocks) politician \<noteq> []"
    by (simp add: trades)
  from table have "fst (create_portfolio_roi prov
        (add_stock_amount_column (first # others)
           (price_table (prov \<lparr>rq_tickers = unique (map Ticker (first # others)) @ [''SPY''],
                                rq_start = TransactionDate first, rq_end = None\<rparr>)))
        (price_table (prov \<lparr>rq_tickers = unique (map Ticker (first # others)) @ [''SPY''],
                             rq_start = TransactionDate first, rq_end = None\<rparr>))
        (TransactionDate first) None
        (lg @ [\<lparr>rq_tickers = unique (map Ticker (first # others)) @ [''SPY''],
                 rq_start = TransactionDate first, rq_end = None\<rparr>])) = Inr final'"
    by simp
  then have "map Date_f final'
      = w_index (prov \<lparr>rq_tickers = [''SPY''], rq_start = TransactionDate first, rq_end = None\<rparr>)"
    by (rule table_dates)
  then show "map Date_f final'
          = w_index (prov \<lparr>rq_tickers = [''SPY''],
               rq_start = Min (TransactionDate ` set
                 (choose_politician (clean_transactions df cutoff_date renamed_stocks) politician)),
               rq_end = None\<rparr>)"
    by (simp only: first_transaction_date [OF trades])
qed

text \<open>Two runs: a table over the five-day calendar from a ledger with two tickers on every
  date, and a whole run over the three-day calendar, which starts on day 1.\<close>

lemma two_trades_returns:
  "fst (create_portfolio_roi calendar_provider two_trades two_prices 1 None lg)
     = Inr (projr (fst (create_portfolio_roi calendar_provider two_trades two_prices 1 None lg)))"
  unfolding create_portfolio_roi_fst two_trades_rows by simp

theorem calendar_complete_witness:
  "map Date_f (projr (fst (create_portfolio_roi calendar_provider two_trades two_prices 1 None [])))
     = [1, 2, 3, 4, 5]
   \<and> map Date_f (projr (fst (calculate_returns (market_provider 50 55 66) ''P'' example_df 0 [])))
     = [1, 2, 3]
   \<and> Min (TransactionDate ` set (politician_trades_of example_df)) = 1"
proof -
  define final where
    "final = projr (fst (create_portfolio_roi calendar_provider two_trades two_prices 1 None []))"
  define final' where
    "final' = projr (fst (calculate_returns (market_provider 50 55 66) ''P'' example_df 0 []))"
  have run: "fst (create_portfolio_roi calendar_provider two_trades two_prices 1 None []) = Inr final"
    unfolding final_def by (rule two_trades_returns)
  have run': "fst (calculate_returns (market_provider 50 55 66) ''P'' example_df 0 []) = Inr final'"
    unfolding final'_def by (rule example_run_returns)
  note inst = calendar_complete
    [where prov = calendar_provider and trades = two_trades and stock_data = two_prices
       and start = 1 and end_date = None and lg = "[]" and final = final]
  note inst' = calendar_complete
    [where prov = "market_provider 50 55 66" and politician = "''P''" and df = example_df
       and cutoff_date = 0 and lg = "[]" and final' = final']
  from inst run have "map Date_f final
      = w_index (calendar_provider \<lparr>rq_tickers = [''SPY''], rq_start = 1, rq_end = None\<rparr>)"
    by blast
  then have a: "map Date_f final = [1, 2, 3, 4, 5]" by (simp add: calendar_provider_def)
  from inst' run' have "map Date_f final'
      = w_index (market_provider 50 55 66 \<lparr>rq_tickers = [''SPY''],
          rq_start = Min (TransactionDate ` set
            (choose_politician (clean_transactions example_df 0 renamed_stocks) ''P'')),
          rq_end = None\<rparr>)"
    by blast
  moreover have m: "Min (TransactionDate ` set (politician_trades_of example_df)) = 1"
    unfolding example_politician_trades by (simp add: raw_trade_def)
  ultimately have b: "map Date_f final' = [1, 2, 3]"
    by (simp add: market_calendar politician_trades_of_def [symmetric])
  from a b m show ?thesis
    unfolding final_def final'_def by simp
qed

section \<open>C9: the requests of a run\<close>

text \<open>
  Claim C9 (amended). A run that returns its table makes exactly four requests to the
  price provider, in this order: one combined request for the traded tickers and the
  benchmark (line 75), and three requests for the benchmark alone, one in each of the
  two holdings reconstructions (line 123) and one for the benchmark series (line 193).
  All four start at the first transaction date and have no end date. The number does
  not depend on the number of tickers: there is never one request per ticker.
\<close>

theorem four_provider_requests:
  fixes prov politician df cutoff_date
  defines "politician_trades \<equiv>
      choose_politician (clean_transactions df cutoff_date renamed_stocks) politician"
  defines "start \<equiv> Min (TransactionDate ` set politician_trades)"
  assumes run: "calculate_returns prov politician df cutoff_date lg = (Inr final, lg')"
  shows "lg' = lg @
     [\<lparr>rq_tickers = unique (map Ticker politician_trades) @ [''SPY''],
        rq_start = start, rq_end = None\<rparr>,
      \<lparr>rq_tickers = [''SPY''], rq_start = start, rq_end = None\<rparr>,
      \<lparr>rq_tickers = [''SPY''], rq_start = start, rq_end = None\<rparr>,
      \<lparr>rq_tickers = [''SPY''], rq_start = start, rq_end = None\<rparr>]"
proof -
  from run obtain first others where
    trades: "choose_politician (clean_transactions df cutoff_date renamed_stocks) politician
               = first # others"
    and table: "create_portfolio_roi prov
        (add_stock_amount_column (first # others)
           (price_table (prov \<lparr>rq_tickers = unique (map Ticker (first # others)) @ [''SPY''],
                                rq_start = TransactionDate first, rq_end = None\<rparr>)))
        (price_table (prov \<lparr>rq_tickers = unique (map Ticker (first # others)) @ [''SPY''],
                             rq_start = TransactionDate first, rq_end = None\<rparr>))
        (TransactionDate first) None
        (lg @ [\<lparr>rq_tickers = unique (map Ticker (first # others)) @ [''SPY''],
                 rq_start = TransactionDate first, rq_end = None\<rparr>])
      = (Inr final, lg')"
    by (rule calculate_returns_Inr)
  have start: "start = TransactionDate first"
    unfolding start_def politician_trades_def
    by (rule first_transaction_date [OF trades, symmetric])
  from create_portfolio_roi_log [OF table] show ?thesis
    by (simp add: start politician_trades_def trades)
qed

text \<open>A run with two traded tickers: four requests.\<close>

theorem four_provider_requests_witness:
  "snd (calculate_returns (market_provider 50 55 66) ''P'' example_df 0 [])
     = [\<lparr>rq_tickers = [''X'', ''META'', ''SPY''], rq_start = 1, rq_end = None\<rparr>,
        \<lparr>rq_tickers = [''SPY''], rq_start = 1, rq_end = None\<rparr>,
        \<lparr>rq_tickers = [''SPY''], rq_start = 1, rq_end = None\<rparr>,
        \<lparr>rq_tickers = [''SPY''], rq_start = 1, rq_end = None\<rparr>]"
proof -
  have trades: "choose_politician (clean_transactions example_df 0 renamed_stocks) ''P''
      = [raw_trade ''X'' ''Purchase'' 1000 1 2, raw_trade ''META'' ''Sale (Full)'' (- 300) 2 3]"
    using example_politician_trades by (simp only: politician_trades_of_def)
  from four_provider_requests [OF example_run_pair] show ?thesis
    by (simp add: trades unique_def raw_trade_def)
qed

text \<open>
  Claim C9 as stated fails: the run below returns its table after four requests, three
  of them for the benchmark alone, not after two.
\<close>

theorem more_than_two_requests:
  "map rq_tickers (snd (calculate_returns (market_provider 50 55 66) ''P'' example_df 0 []))
     = [[''X'', ''META'', ''SPY''], [''SPY''], [''SPY''], [''SPY'']]
   \<and> length (snd (calculate_returns (market_provider 50 55 66) ''P'' example_df 0 [])) = 4
   \<and> map Date_f (projr (fst (calculate_returns (market_provider 50 55 66) ''P'' example_df 0 [])))
     = [1, 2, 3]"
  unfolding example_requests example_dates by simp

section \<open>C6: the fill with 1.0 and the chaining\<close>

lemma filled_absent:
  "d \<notin> fst ` set (groupby_date_sum rows) \<Longrightarrow> filled rows d = 1"
proof -
  assume "d \<notin> fst ` set (groupby_date_sum rows)"
  then have "map_of (groupby_date_sum rows) d = None" by (simp add: map_of_eq_None_iff)
  then show ?thesis by (simp add: filled_def merged_cell_def fillna_def)
qed

lemma filled_present:
  "(d, v) \<in> set (groupby_date_sum rows) \<Longrightarrow> filled rows d = fillna 1 v"
  using groupby_date_sum_distinct [of rows]
  by (simp add: filled_def merged_cell_def)

lemma filled_not_NaN: "filled rows d \<noteq> NaN"
  by (simp add: filled_def fillna_def one_fl_def)

text \<open>
  Claim C6. In the comparison table, for the actual and for the copy-trade portfolio, a
  date that is absent from the portfolio's aggregated daily-return series carries the
  daily return 1.0, and a date that is present carries the series' value (1.0 as well
  where that value is NaN, which \<^verbatim>\<open>fillna\<close> replaces too); the cumulative column
  starts with the first daily return and each later entry is the previous cumulative
  entry times the daily return of its row, so that chaining the stored daily column
  again gives exactly the stored cumulative column.
\<close>

theorem chained_returns:
  assumes run: "fst (create_portfolio_roi prov trades stock_data cutoff_date end_date lg) = Inr final"
    and actual: "fst (calculate_portfolio_roi prov trades cutoff_date stock_data
                        TransactionDate_col lg1) = Inr politician_holdings"
    and copy: "fst (calculate_portfolio_roi prov trades cutoff_date stock_data
                      ReportDate_col lg2) = Inr copytraded_holdings"
  shows "(\<forall>t < length final.
            (Date_f (final ! t) \<notin> fst ` set (groupby_date_sum politician_holdings)
               \<longrightarrow> ROI_f (final ! t) = 1)
          \<and> (\<forall>v. (Date_f (final ! t), v) \<in> set (groupby_date_sum politician_holdings)
               \<longrightarrow> ROI_f (final ! t) = fillna 1 v)
          \<and> (Date_f (final ! t) \<notin> fst ` set (groupby_date_sum copytraded_holdings)
               \<longrightarrow> CopyTradeROI (final ! t) = 1)
          \<and> (\<forall>v. (Date_f (final ! t), v) \<in> set (groupby_date_sum copytraded_holdings)
               \<longrightarrow> CopyTradeROI (final ! t) = fillna 1 v)
          \<and> CumulativeROI (final ! t)
              = (if t = 0 then ROI_f (final ! 0)
                 else CumulativeROI (final ! (t - 1)) * ROI_f (final ! t))
          \<and> CopyCumulativeROI (final ! t)
              = (if t = 0 then CopyTradeROI (final ! 0)
                 else CopyCumulativeROI (final ! (t - 1)) * CopyTradeROI (final ! t)))
       \<and> map CumulativeROI final = cumprod (map ROI_f final)
       \<and> map CopyCumulativeROI final = cumprod (map CopyTradeROI final)"
proof -
  let ?spy = "prov \<lparr>rq_tickers = [''SPY''], rq_start = cutoff_date, rq_end = end_date\<rparr>"
  let ?dates = "w_index ?spy"
  from run obtain ph ch where
    ph: "fst (calculate_portfolio_roi prov trades cutoff_date stock_data TransactionDate_col lg) = Inr ph"
    and ch: "fst (calculate_portfolio_roi prov trades cutoff_date stock_data ReportDate_col lg) = Inr ch"
    and fin: "final = assemble ?spy ph ch"
    by (rule create_portfolio_roi_Inr)
  have ph_eq: "ph = politician_holdings"
    using ph actual
      calculate_portfolio_roi_any_log [of prov trades cutoff_date stock_data TransactionDate_col lg lg1]
    by simp
  have ch_eq: "ch = copytraded_holdings"
    using ch copy
      calculate_portfolio_roi_any_log [of prov trades cutoff_date stock_data ReportDate_col lg lg2]
    by simp
  have len: "length final = length ?dates" by (simp add: fin assemble_length)
  have roi: "map ROI_f final = map (filled ph) ?dates"
    by (intro nth_equalityI) (simp_all add: len, simp add: fin assemble_nth)
  have cpy: "map CopyTradeROI final = map (filled ch) ?dates"
    by (intro nth_equalityI) (simp_all add: len, simp add: fin assemble_nth)
  have roi_num: "NaN \<notin> set (map ROI_f final)"
    unfolding roi using filled_not_NaN [of ph] by (metis imageE list.set_map)
  have cpy_num: "NaN \<notin> set (map CopyTradeROI final)"
    unfolding cpy using filled_not_NaN [of ch] by (metis imageE list.set_map)
  have cum: "map CumulativeROI final = cumprod (map ROI_f final)"
    unfolding roi
    by (intro nth_equalityI) (simp_all add: len length_cumprod, simp add: fin assemble_nth)
  have ccum: "map CopyCumulativeROI final = cumprod (map CopyTradeROI final)"
    unfolding cpy
    by (intro nth_equalityI) (simp_all add: len length_cumprod, simp add: fin assemble_nth)
  have rows: "(Date_f (final ! t) \<notin> fst ` set (groupby_date_sum politician_holdings)
               \<longrightarrow> ROI_f (final ! t) = 1)
          \<and> (\<forall>v. (Date_f (final ! t), v) \<in> set (groupby_date_sum politician_holdings)
               \<longrightarrow> ROI_f (final ! t) = fillna 1 v)
          \<and> (Date_f (final ! t) \<notin> fst ` set (groupby_date_sum copytraded_holdings)
               \<longrightarrow> CopyTradeROI (final ! t) = 1)
          \<and> (\<forall>v. (Date_f (final ! t), v) \<in> set (groupby_date_sum copytraded_holdings)
               \<longrightarrow> CopyTradeROI (final ! t) = fillna 1 v)
          \<and> CumulativeROI (final ! t)
              = (if t = 0 then ROI_f (final ! 0)
                 else CumulativeROI (final ! (t - 1)) * ROI_f (final ! t))
          \<and> CopyCumulativeROI (final ! t)
              = (if t = 0 then CopyTradeROI (final ! 0)
                 else CopyCumulativeROI (final ! (t - 1)) * CopyTradeROI (final ! t))"
    if t: "t < length final" for t
  proof -
    from t len have t': "t < length ?dates" by simp
    have r: "ROI_f (final ! t) = filled politician_holdings (Date_f (final ! t))"
      and c: "CopyTradeROI (final ! t) = filled copytraded_holdings (Date_f (final ! t))"
      using t' by (simp_all add: fin assemble_nth ph_eq ch_eq)
    have nth_cum: "CumulativeROI (final ! i) = cumprod (map ROI_f final) ! i"
      and nth_ccum: "CopyCumulativeROI (final ! i) = cumprod (map CopyTradeROI final) ! i"
      and nth_roi: "ROI_f (final ! i) = map ROI_f final ! i"
      and nth_cpy: "CopyTradeROI (final ! i) = map CopyTradeROI final ! i"
      if "i < length final" for i
      using that cum [symmetric] ccum [symmetric] by simp_all
    have chain: "CumulativeROI (final ! t)
              = (if t = 0 then ROI_f (final ! 0)
                 else CumulativeROI (final ! (t - 1)) * ROI_f (final ! t))"
    proof (cases t)
      case 0
      with t have ne: "map ROI_f final \<noteq> []" by auto
      then have "map ROI_f final ! 0 \<in> set (map ROI_f final)" by (intro nth_mem) simp
      with roi_num have "map ROI_f final ! 0 \<noteq> NaN" by metis
      from cumprod_0 [OF ne this] show ?thesis using t 0 by (simp add: nth_cum)
    next
      case (Suc i)
      with t have "Suc i < length (map ROI_f final)" by simp
      from cumprod_Suc [OF roi_num this] show ?thesis
        using t Suc by (simp add: nth_cum)
    qed
    have cchain: "CopyCumulativeROI (final ! t)
              = (if t = 0 then CopyTradeROI (final ! 0)
                 else CopyCumulativeROI (final ! (t - 1)) * CopyTradeROI (final ! t))"
    proof (cases t)
      case 0
      with t have ne: "map CopyTradeROI final \<noteq> []" by auto
      then have "map CopyTradeROI final ! 0 \<in> set (map CopyTradeROI final)"
        by (intro nth_mem) simp
      with cpy_num have "map CopyTradeROI final ! 0 \<noteq> NaN" by metis
      from cumprod_0 [OF ne this] show ?thesis using t 0 by (simp add: nth_ccum)
    next
      case (Suc i)
      with t have "Suc i < length (map CopyTradeROI final)" by simp
      from cumprod_Suc [OF cpy_num this] show ?thesis
        using t Suc by (simp add: nth_ccum)
    qed
    show ?thesis
      using chain cchain by (simp add: r c filled_absent filled_present)
  qed
  from rows cum ccum show ?thesis by blast
qed

text \<open>A run: prices exist for days 1 and 2 only, so days 3 to 5 carry the return 1 and
  the cumulative return stays at 11/10.\<close>

lemma two_trades_series:
  "groupby_date_sum
      (projr (fst (calculate_portfolio_roi calendar_provider two_trades 1 two_prices col lg)))
     = [(1, Fin 1), (2, Fin (11 / 10))]"
  unfolding two_trades_rows
  by (simp add: groupby_date_sum_def sum_skipna_def zero_fl_def)

lemma two_trades_table:
  "map (\<lambda>r. (Date_f r, ROI_f r, CumulativeROI r))
      (projr (fst (create_portfolio_roi calendar_provider two_trades two_prices 1 None lg)))
     = [(1, Fin 1, Fin 1), (2, Fin (11 / 10), Fin (11 / 10)), (3, Fin 1, Fin (11 / 10)),
        (4, Fin 1, Fin (11 / 10)), (5, Fin 1, Fin (11 / 10))]"
  unfolding create_portfolio_roi_fst two_trades_rows
  by (simp add: eval_table)

theorem chained_returns_witness:
  "map (\<lambda>r. (Date_f r, ROI_f r, CumulativeROI r))
      (projr (fst (create_portfolio_roi calendar_provider two_trades two_prices 1 None [])))
     = [(1, Fin 1, Fin 1), (2, Fin (11 / 10), Fin (11 / 10)), (3, Fin 1, Fin (11 / 10)),
        (4, Fin 1, Fin (11 / 10)), (5, Fin 1, Fin (11 / 10))]
   \<and> groupby_date_sum
        (projr (fst (calculate_portfolio_roi calendar_provider two_trades 1 two_prices
                        TransactionDate_col [])))
     = [(1, Fin 1), (2, Fin (11 / 10))]
   \<and> map CumulativeROI
        (projr (fst (create_portfolio_roi calendar_provider two_trades two_prices 1 None [])))
     = cumprod (map ROI_f
        (projr (fst (create_portfolio_roi calendar_provider two_trades two_prices 1 None []))))
   \<and> map CopyCumulativeROI
        (projr (fst (create_portfolio_roi calendar_provider two_trades two_prices 1 None [])))
     = cumprod (map CopyTradeROI
        (projr (fst (create_portfolio_roi calendar_provider two_trades two_prices 1 None []))))"
proof -
  define final where
    "final = projr (fst (create_portfolio_roi calendar_provider two_trades two_prices 1 None []))"
  define ph where
    "ph = projr (fst (calculate_portfolio_roi calendar_provider two_trades 1 two_prices
                        TransactionDate_col []))"
  define ch where
    "ch = projr (fst (calculate_portfolio_roi calendar_provider two_trades 1 two_prices
                        ReportDate_col []))"
  have run: "fst (create_portfolio_roi calendar_provider two_trades two_prices 1 None []) = Inr final"
    unfolding final_def by (rule two_trades_returns)
  have actual: "fst (calculate_portfolio_roi calendar_provider two_trades 1 two_prices
                        TransactionDate_col []) = Inr ph"
    unfolding ph_def two_trades_rows by simp
  have copy: "fst (calculate_portfolio_roi calendar_provider two_trades 1 two_prices
                        ReportDate_col []) = Inr ch"
    unfolding ch_def two_trades_rows by simp
  from chained_returns [OF run actual copy]
  have chain: "map CumulativeROI final = cumprod (map ROI_f final)"
    and cchain: "map CopyCumulativeROI final = cumprod (map CopyTradeROI final)"
    by blast+
  have table: "map (\<lambda>r. (Date_f r, ROI_f r, CumulativeROI r)) final
     = [(1, Fin 1, Fin 1), (2, Fin (11 / 10), Fin (11 / 10)), (3, Fin 1, Fin (11 / 10)),
        (4, Fin 1, Fin (11 / 10)), (5, Fin 1, Fin (11 / 10))]"
    unfolding final_def by (rule two_trades_table)
  have series: "groupby_date_sum ph = [(1, Fin 1), (2, Fin (11 / 10))]"
    unfolding ph_def by (rule two_trades_series)
  from table series chain cchain show ?thesis
    unfolding final_def ph_def by blast
qed

section \<open>The merge of the ledger with the prices\<close>

lemma merge_prices_filter_date:
  "filter (\<lambda>hp. Date_h (fst hp) = d) (merge_prices holding stock_data)
     = merge_prices (filter (\<lambda>h. Date_h h = d) holding) stock_data"
  by (induction holding) (simp_all add: merge_prices_def filter_map comp_def)

lemma merge_prices_drop_unpriced:
  assumes "\<forall>p \<in> set stock_data. \<not> (Date_p p = d \<and> Ticker_p p = k)"
  shows "merge_prices (filter (\<lambda>h. \<not> (Date_h h = d \<and> Ticker_h h = k)) holding) stock_data
       = merge_prices holding stock_data"
proof (induction holding)
  case Nil
  then show ?case by (simp add: merge_prices_def)
next
  case (Cons h holding)
  show ?case
  proof (cases "Date_h h = d \<and> Ticker_h h = k")
    case True
    then have "filter (\<lambda>p. Date_p p = Date_h h \<and> Ticker_p p = Ticker_h h) stock_data = []"
      using assms by (simp add: filter_empty_conv)
    then have "merge_prices (h # holding) stock_data = merge_prices holding stock_data"
      by (simp add: merge_prices_def)
    with Cons.IH True show ?thesis by simp
  next
    case False
    with Cons.IH show ?thesis by (simp add: merge_prices_def)
  qed
qed

lemma roi_rows_dates:
  "Date_h ` set (roi_rows merged) = (\<lambda>hp. Date_h (fst hp)) ` set merged"
  by (simp add: roi_rows_def image_image roi_row_of_fields)

lemma groupby_date_sum_dates:
  "fst ` set (groupby_date_sum rows) = Date_h ` set rows"
  by (simp add: groupby_date_sum_def image_image)

lemma merge_prices_date_iff:
  "d \<in> (\<lambda>hp. Date_h (fst hp)) ` set (merge_prices holding stock_data)
     \<longleftrightarrow> (\<exists>h \<in> set holding. Date_h h = d
            \<and> (\<exists>p \<in> set stock_data. Date_p p = d \<and> Ticker_p p = Ticker_h h))"
  by (force simp: merge_prices_def image_iff)

lemma sum_skipna_zeros: "sum_skipna (map (\<lambda>x. 0) xs) = 0"
  by (induction xs) (simp_all add: sum_skipna_def zero_fl_def)

lemma sum_skipna_NaNs: "sum_skipna (map (\<lambda>x. NaN) xs) = 0"
  by (induction xs) (simp_all add: sum_skipna_def)

section \<open>C5: dates without a positive total value\<close>

text \<open>
  Claim C5 (amended). The aggregation has no guard on the total value of a date. A date
  gets a portfolio return exactly when at least one ticker held on it has a price
  observation on it, whatever its total value is; a date without any priced position
  has no row in the table, so nothing is divided and no return is produced for it.
  A date that has priced positions all worth zero (total value zero) is not left out:
  \<open>0 / 0\<close> is computed for each of its rows, their contributions are NaN, and the
  date's return is the NaN-skipping sum of them, which is 0.
\<close>

theorem return_exactly_for_priced_dates:
  fixes prov trades cutoff_date col lg and d :: date
  defines "ledger \<equiv> fst (holdings prov trades cutoff_date col None lg)"
  assumes run: "fst (calculate_portfolio_roi prov trades cutoff_date stock_data col lg) = Inr rows"
  shows "(d \<in> fst ` set (groupby_date_sum rows)
            \<longleftrightarrow> (\<exists>h \<in> set ledger. Date_h h = d
                   \<and> (\<exists>p \<in> set stock_data. Date_p p = d \<and> Ticker_p p = Ticker_h h)))
       \<and> (d \<notin> fst ` set (groupby_date_sum rows) \<longrightarrow> (\<forall>r \<in> set rows. Date_h r \<noteq> d))
       \<and> ((\<exists>r \<in> set rows. Date_h r = d) \<and> (\<forall>r \<in> set rows. Date_h r = d \<longrightarrow> StockValue r = 0)
            \<longrightarrow> (\<forall>r \<in> set rows. Date_h r = d \<longrightarrow> TotalValue r = 0 \<and> ROI r = NaN)
                \<and> (d, 0) \<in> set (groupby_date_sum rows))"
proof -
  let ?merged = "merge_prices ledger stock_data"
  have rows: "rows = roi_rows ?merged"
    unfolding ledger_def using run by (rule calculate_portfolio_roi_rows)
  have dates: "fst ` set (groupby_date_sum rows) = (\<lambda>hp. Date_h (fst hp)) ` set ?merged"
    by (simp add: groupby_date_sum_dates rows roi_rows_dates)
  have a: "d \<in> fst ` set (groupby_date_sum rows)
            \<longleftrightarrow> (\<exists>h \<in> set ledger. Date_h h = d
                   \<and> (\<exists>p \<in> set stock_data. Date_p p = d \<and> Ticker_p p = Ticker_h h))"
    unfolding dates by (rule merge_prices_date_iff)
  have b: "d \<notin> fst ` set (groupby_date_sum rows) \<longrightarrow> (\<forall>r \<in> set rows. Date_h r \<noteq> d)"
    by (auto simp: groupby_date_sum_dates)
  have c: "(\<forall>r \<in> set rows. Date_h r = d \<longrightarrow> TotalValue r = 0 \<and> ROI r = NaN)
                \<and> (d, 0) \<in> set (groupby_date_sum rows)"
    if some: "\<exists>r \<in> set rows. Date_h r = d"
      and zero: "\<forall>r \<in> set rows. Date_h r = d \<longrightarrow> StockValue r = 0"
  proof -
    let ?day = "filter (\<lambda>hp. Date_h (fst hp) = d) ?merged"
    have "\<forall>hp \<in> set ?day. stock_value hp = 0"
    proof
      fix hp assume hp: "hp \<in> set ?day"
      then have "roi_row_of ?merged hp \<in> set rows" and "Date_h (roi_row_of ?merged hp) = d"
        by (simp_all add: rows roi_rows_def roi_row_of_fields)
      with zero have "StockValue (roi_row_of ?merged hp) = 0" by blast
      then show "stock_value hp = 0" by (simp add: roi_row_of_fields)
    qed
    then have "map stock_value ?day = map (\<lambda>hp. 0) ?day" by simp
    then have total: "total_value ?merged d = 0"
      unfolding total_value_def by (simp only: sum_skipna_zeros)
    have each: "TotalValue r = 0 \<and> ROI r = NaN" if r: "r \<in> set rows" and rd: "Date_h r = d" for r
    proof -
      from r obtain hp where hp: "hp \<in> set ?merged" and r_eq: "r = roi_row_of ?merged hp"
        by (auto simp: rows roi_rows_def)
      from rd have hd: "Date_h (fst hp) = d" by (simp add: r_eq roi_row_of_fields)
      from zero r rd have "StockValue r = 0" by blast
      then have "stock_value hp = 0" by (simp add: r_eq roi_row_of_fields)
      then show ?thesis
        by (simp add: r_eq roi_row_of_fields hd total weight_def zero_fl_def)
    qed
    have "map ROI (filter (\<lambda>r. Date_h r = d) rows) = map (\<lambda>r. NaN) (filter (\<lambda>r. Date_h r = d) rows)"
      using each by simp
    then have "sum_skipna (map ROI (filter (\<lambda>r. Date_h r = d) rows)) = 0"
      by (simp only: sum_skipna_NaNs)
    moreover from some have "d \<in> Date_h ` set rows" by auto
    ultimately have "map_of (groupby_date_sum rows) d = Some 0"
      by (simp add: map_of_groupby_date_sum)
    then have "(d, 0) \<in> set (groupby_date_sum rows)" by (rule map_of_SomeD)
    with each show ?thesis by blast
  qed
  from a b c show ?thesis by blast
qed

text \<open>Two runs: day 3 has no price and so no row; in the run whose price of X is 0 on
  day 3, day 3 has a row worth zero and the return 0.\<close>

lemma zero_close_rows:
  "fst (calculate_portfolio_roi (market_provider 50 55 0)
          (valued_of (market_provider 50 55 0) example_df) 1
          (stock_data_of (market_provider 50 55 0) example_df) TransactionDate_col lg)
     = Inr [\<lparr>Date_h = 1, Ticker_h = ''X'', StockAmount_h = Fin 20, Close_r = Fin 50,
              DailyROI_r = Fin 1, StockValue = Fin 1000, TotalValue = Fin 1000,
              ROI = Fin 1\<rparr>,
            \<lparr>Date_h = 2, Ticker_h = ''X'', StockAmount_h = Fin 20, Close_r = Fin 55,
              DailyROI_r = Fin (11 / 10), StockValue = Fin 1100, TotalValue = Fin 1100,
              ROI = Fin (11 / 10)\<rparr>,
            \<lparr>Date_h = 3, Ticker_h = ''X'', StockAmount_h = Fin 20, Close_r = Fin 0,
              DailyROI_r = Fin 0, StockValue = Fin 0, TotalValue = Fin 0,
              ROI = NaN\<rparr>]"
  unfolding calculate_portfolio_roi_ledger zero_close_valued example_ledgers zero_close_stock_data
  by (simp add: eval_table)

theorem return_exactly_for_priced_dates_witness:
  "groupby_date_sum
      (projr (fst (calculate_portfolio_roi calendar_provider two_trades 1 two_prices
                     TransactionDate_col [])))
     = [(1, Fin 1), (2, Fin (11 / 10))]
   \<and> list_all (\<lambda>r. Date_h r \<noteq> 3)
        (projr (fst (calculate_portfolio_roi calendar_provider two_trades 1 two_prices
                       TransactionDate_col [])))
   \<and> (3, 0) \<in> set (groupby_date_sum
        (projr (fst (calculate_portfolio_roi (market_provider 50 55 0)
                       (valued_of (market_provider 50 55 0) example_df) 1
                       (stock_data_of (market_provider 50 55 0) example_df)
                       TransactionDate_col []))))"
proof -
  define rows where
    "rows = projr (fst (calculate_portfolio_roi calendar_provider two_trades 1 two_prices
                     TransactionDate_col []))"
  define rows0 where
    "rows0 = projr (fst (calculate_portfolio_roi (market_provider 50 55 0)
                       (valued_of (market_provider 50 55 0) example_df) 1
                       (stock_data_of (market_provider 50 55 0) example_df)
                       TransactionDate_col []))"
  have run: "fst (calculate_portfolio_roi calendar_provider two_trades 1 two_prices
                     TransactionDate_col []) = Inr rows"
    unfolding rows_def two_trades_rows by simp
  have run0: "fst (calculate_portfolio_roi (market_provider 50 55 0)
                       (valued_of (market_provider 50 55 0) example_df) 1
                       (stock_data_of (market_provider 50 55 0) example_df)
                       TransactionDate_col []) = Inr rows0"
    unfolding rows0_def zero_close_rows by simp
  have series: "groupby_date_sum rows = [(1, Fin 1), (2, Fin (11 / 10))]"
    unfolding rows_def by (rule two_trades_series)
  have cols0: "map (\<lambda>r. (Date_h r, StockValue r)) rows0
      = [(1, Fin 1000), (2, Fin 1100), (3, Fin 0)]"
    unfolding rows0_def zero_close_rows by simp
  note inst = return_exactly_for_priced_dates [OF run, where d = 3]
  note inst0 = return_exactly_for_priced_dates [OF run0, where d = 3]
  from series have "3 \<notin> fst ` set (groupby_date_sum rows)" by simp
  with inst have "\<forall>r \<in> set rows. Date_h r \<noteq> 3" by blast
  then have a: "list_all (\<lambda>r. Date_h r \<noteq> 3) rows" by (simp add: list_all_iff)
  from cols0 have "set (map (\<lambda>r. (Date_h r, StockValue r)) rows0)
      = {(1, Fin 1000), (2, Fin 1100), (3, Fin 0)}"
    by simp
  then have img: "(\<lambda>r. (Date_h r, StockValue r)) ` set rows0
      = {(1, Fin 1000), (2, Fin 1100), (3, Fin 0)}"
    by simp
  have some: "\<exists>r \<in> set rows0. Date_h r = 3"
  proof -
    from img have "(3, Fin 0) \<in> (\<lambda>r. (Date_h r, StockValue r)) ` set rows0" by simp
    then show ?thesis by auto
  qed
  have zero: "\<forall>r \<in> set rows0. Date_h r = 3 \<longrightarrow> StockValue r = 0"
  proof (intro ballI impI)
    fix r assume "r \<in> set rows0" and d3: "Date_h r = 3"
    then have "(Date_h r, StockValue r) \<in> {(1, Fin 1000), (2, Fin 1100), (3, Fin 0)}"
      using img by blast
    with d3 show "StockValue r = 0" by (auto simp: zero_fl_def)
  qed
  from inst0 some zero have b: "(3, 0) \<in> set (groupby_date_sum rows0)" by blast
  from series a b show ?thesis unfolding rows_def rows0_def by blast
qed

text \<open>
  Claim C5 as stated fails. In the run below the 20 shares of X are worth 0 on day 3:
  the total value of day 3 is zero, its row is in the table with a NaN contribution,
  the aggregated series carries the return 0 for day 3, and the comparison table
  carries it too (not the 1.0 of an excluded date), which takes the cumulative return
  to 0.
\<close>

theorem zero_total_date_gets_return:
  "map (\<lambda>r. (Date_h r, StockValue r, TotalValue r, ROI r))
      (projr (fst (calculate_portfolio_roi (market_provider 50 55 0)
                     (valued_of (market_provider 50 55 0) example_df) 1
                     (stock_data_of (market_provider 50 55 0) example_df)
                     TransactionDate_col [])))
     = [(1, Fin 1000, Fin 1000, Fin 1), (2, Fin 1100, Fin 1100, Fin (11 / 10)),
        (3, Fin 0, Fin 0, NaN)]
   \<and> groupby_date_sum
        (projr (fst (calculate_portfolio_roi (market_provider 50 55 0)
                       (valued_of (market_provider 50 55 0) example_df) 1
                       (stock_data_of (market_provider 50 55 0) example_df)
                       TransactionDate_col [])))
     = [(1, Fin 1), (2, Fin (11 / 10)), (3, Fin 0)]
   \<and> map (\<lambda>r. (Date_f r, ROI_f r, CumulativeROI r))
        (projr (fst (calculate_returns (market_provider 50 55 0) ''P'' example_df 0 [])))
     = [(1, Fin 1, Fin 1), (2, Fin (11 / 10), Fin (11 / 10)), (3, Fin 0, Fin 0)]"
proof -
  have a: "map (\<lambda>r. (Date_h r, StockValue r, TotalValue r, ROI r))
      (projr (fst (calculate_portfolio_roi (market_provider 50 55 0)
                     (valued_of (market_provider 50 55 0) example_df) 1
                     (stock_data_of (market_provider 50 55 0) example_df)
                     TransactionDate_col [])))
     = [(1, Fin 1000, Fin 1000, Fin 1), (2, Fin 1100, Fin 1100, Fin (11 / 10)),
        (3, Fin 0, Fin 0, NaN)]"
    unfolding zero_close_rows by simp
  have b: "groupby_date_sum
        (projr (fst (calculate_portfolio_roi (market_provider 50 55 0)
                       (valued_of (market_provider 50 55 0) example_df) 1
                       (stock_data_of (market_provider 50 55 0) example_df)
                       TransactionDate_col [])))
     = [(1, Fin 1), (2, Fin (11 / 10)), (3, Fin 0)]"
    unfolding zero_close_rows by (simp add: groupby_date_sum_def sum_skipna_def zero_fl_def)
  have c: "map (\<lambda>r. (Date_f r, ROI_f r, CumulativeROI r))
        (projr (fst (calculate_returns (market_provider 50 55 0) ''P'' example_df 0 [])))
     = [(1, Fin 1, Fin 1), (2, Fin (11 / 10), Fin (11 / 10)), (3, Fin 0, Fin 0)]"
    unfolding example_run create_portfolio_roi_ledgers zero_close_valued example_ledgers
      zero_close_stock_data
    by (simp add: eval_table market_provider_def)
  from a b c show ?thesis by blast
qed

end
